theory Spec2Isabelle
  imports Complex_Main "HOL-Library.Sublist"
begin

section \<open>Vectors\<close>

text \<open>
  \<^verbatim>\<open>THREE.Vector3\<close> carries three numbers. JavaScript numbers are modelled as reals:
  the development is about the routing and steering logic, not about rounding.
\<close>

datatype V3 = V3 (vx: real) (vy: real) (vz: real)

definition subVectors :: "V3 \<Rightarrow> V3 \<Rightarrow> V3" where
  "subVectors a b = V3 (vx a - vx b) (vy a - vy b) (vz a - vz b)"

definition dot :: "V3 \<Rightarrow> V3 \<Rightarrow> real" where
  "dot a b = vx a * vx b + vy a * vy b + vz a * vz b"

definition lengthSq :: "V3 \<Rightarrow> real" where
  "lengthSq a = dot a a"

definition addScaledVector :: "V3 \<Rightarrow> V3 \<Rightarrow> real \<Rightarrow> V3" where
  "addScaledVector a v s = V3 (vx a + vx v * s) (vy a + vy v * s) (vz a + vz v * s)"

definition setY :: "real \<Rightarrow> V3 \<Rightarrow> V3" where
  "setY h a = V3 (vx a) h (vz a)"

text \<open>\<^verbatim>\<open>function distV(a, b) { return a.distanceTo(b); }\<close>\<close>

definition distV :: "V3 \<Rightarrow> V3 \<Rightarrow> real" where
  "distV a b = sqrt ((vx a - vx b)\<^sup>2 + (vy a - vy b)\<^sup>2 + (vz a - vz b)\<^sup>2)"

section \<open>The road graph\<close>

text \<open>
  Nodes and edges refer to each other by object reference in the source. A reference is
  modelled as the index of the object in the array that owns it (\<^verbatim>\<open>nodes\<close>, \<^verbatim>\<open>edges\<close>):
  both arrays only grow by \<^verbatim>\<open>push\<close>, so an index never changes its meaning, and
  \<^verbatim>\<open>===\<close> on two references is equality of indices.
\<close>

record RoadNode =
  node_id :: nat
  node_p :: V3
  node_edges :: "nat list"

record RoadEdge =
  edge_id :: nat
  edge_a :: nat
  edge_b :: nat
  edge_poly :: "V3 list"
  edge_length :: real
  edge_shadeScore :: real

record RoadGraph =
  g_nodes :: "RoadNode list"
  g_edges :: "RoadEdge list"

definition MERGE_EPS :: real where
  "MERGE_EPS = 1.0"

definition ROAD_SAMPLE_DENSITY :: real where
  "ROAD_SAMPLE_DENSITY = 8"

definition SHADE_SAMPLES_PER_EDGE :: nat where
  "SHADE_SAMPLES_PER_EDGE = 6"

definition SHADE_LOOKAHEAD :: real where
  "SHADE_LOOKAHEAD = 1.2"

text \<open>
  A \<^verbatim>\<open>THREE.Curve\<close> is library code. The builder only asks it for its length and for
  spaced points, so a curve is these two answers, together with the polyline it was made
  from (\<^verbatim>\<open>tubeFromPoints\<close> makes a curve from two points or more).
\<close>

record Curve =
  curve_points :: "V3 list"
  getLength :: real
  getSpacedPoints :: "nat \<Rightarrow> V3 list"

definition spacedPointsFromCurve :: "Curve \<Rightarrow> V3 list" where
  "spacedPointsFromCurve c =
     (let L = max 1 (getLength c);
          n = max 10 (nat \<lfloor>(L / 100) * ROAD_SAMPLE_DENSITY\<rfloor> + 2)
      in getSpacedPoints c n)"

text \<open>The scan of \<^verbatim>\<open>findOrCreateNode\<close>: the first node within the merge distance.\<close>

fun findNode :: "RoadNode list \<Rightarrow> nat \<Rightarrow> V3 \<Rightarrow> nat option" where
  "findNode [] i pt = None"
| "findNode (n # ns) i pt =
     (if distV (node_p n) pt \<le> MERGE_EPS then Some i else findNode ns (Suc i) pt)"

definition findOrCreateNode :: "RoadNode list \<Rightarrow> V3 \<Rightarrow> RoadNode list \<times> nat" where
  "findOrCreateNode ns pt =
     (case findNode ns 0 pt of
        Some i \<Rightarrow> (ns, i)
      | None \<Rightarrow>
          (ns @ [\<lparr>node_id = length ns, node_p = pt, node_edges = []\<rparr>], length ns))"

text \<open>The scan of \<^verbatim>\<open>n0.edges\<close> for an edge between \<^verbatim>\<open>n0\<close> and \<^verbatim>\<open>n1\<close>.\<close>

fun edgeExists :: "RoadEdge list \<Rightarrow> nat list \<Rightarrow> nat \<Rightarrow> nat \<Rightarrow> bool" where
  "edgeExists es [] n0 n1 = False"
| "edgeExists es (k # ks) n0 n1 =
     (if (edge_a (es ! k) = n0 \<and> edge_b (es ! k) = n1)
         \<or> (edge_a (es ! k) = n1 \<and> edge_b (es ! k) = n0)
      then True else edgeExists es ks n0 n1)"

definition pushEdge :: "nat \<Rightarrow> nat \<Rightarrow> RoadNode list \<Rightarrow> RoadNode list" where
  "pushEdge n k ns = ns[n := (ns ! n)\<lparr>node_edges := node_edges (ns ! n) @ [k]\<rparr>]"

text \<open>One turn of the inner loop of \<^verbatim>\<open>buildRoadGraphFromCurves\<close>.\<close>

definition addSegment :: "V3 \<Rightarrow> V3 \<Rightarrow> RoadNode list \<times> RoadEdge list
    \<Rightarrow> RoadNode list \<times> RoadEdge list" where
  "addSegment p0 p1 st =
     (let (ns1, n0) = findOrCreateNode (fst st) p0;
          (ns2, n1) = findOrCreateNode ns1 p1;
          es = snd st
      in if n0 = n1 then (ns2, es)
         else if edgeExists es (node_edges (ns2 ! n0)) n0 n1 then (ns2, es)
         else (pushEdge n1 (length es) (pushEdge n0 (length es) ns2),
               es @ [\<lparr>edge_id = length es, edge_a = n0, edge_b = n1,
                        edge_poly = [p0, p1], edge_length = distV p0 p1,
                        edge_shadeScore = 0\<rparr>]))"

fun addPoints :: "V3 list \<Rightarrow> RoadNode list \<times> RoadEdge list
    \<Rightarrow> RoadNode list \<times> RoadEdge list" where
  "addPoints (p0 # p1 # ps) st = addPoints (p1 # ps) (addSegment p0 p1 st)"
| "addPoints ps st = st"

fun addCurves :: "Curve list \<Rightarrow> RoadNode list \<times> RoadEdge list
    \<Rightarrow> RoadNode list \<times> RoadEdge list" where
  "addCurves [] st = st"
| "addCurves (c # cs) st = addCurves cs (addPoints (spacedPointsFromCurve c) st)"

text \<open>
  Shade sampling casts rays into the scene. The scene is a parameter: \<open>cast origin\<close> is
  the distance of the first hit of the ray from \<open>origin\<close> towards the light, if any.
\<close>

definition lerp :: "V3 \<Rightarrow> V3 \<Rightarrow> real \<Rightarrow> V3" where
  "lerp a b t = V3 (vx a + (vx b - vx a) * t) (vy a + (vy b - vy a) * t)
                   (vz a + (vz b - vz a) * t)"

definition shadeSample :: "(V3 \<Rightarrow> real option) \<Rightarrow> V3 list \<Rightarrow> nat \<Rightarrow> bool" where
  "shadeSample cast poly i =
     (let t = (real i + 0.5) / real SHADE_SAMPLES_PER_EDGE;
          q = lerp (poly ! 0) (poly ! 1) t;
          origin = V3 (vx q) (vy q + SHADE_LOOKAHEAD) (vz q)
      in case cast origin of None \<Rightarrow> False | Some d \<Rightarrow> d < 500)"

definition approximateEdgeShade :: "(V3 \<Rightarrow> real option) \<Rightarrow> V3 list \<Rightarrow> real" where
  "approximateEdgeShade cast poly =
     (if length poly < 2 then 0
      else real (length (filter (shadeSample cast poly) [0..<SHADE_SAMPLES_PER_EDGE]))
           / real SHADE_SAMPLES_PER_EDGE)"

definition buildRoadGraphFromCurves :: "Curve list \<Rightarrow> (V3 \<Rightarrow> real option) \<Rightarrow> RoadGraph" where
  "buildRoadGraphFromCurves curves cast =
     (let (ns, es) = addCurves curves ([], [])
      in \<lparr>g_nodes = ns,
          g_edges = map (\<lambda>e. e\<lparr>edge_shadeScore := approximateEdgeShade cast (edge_poly e)\<rparr>) es\<rparr>)"

text \<open>
  The curves come from the road lines of the map. \<^verbatim>\<open>tubeFromPoints\<close> turns a line into a
  tube mesh and a curve, and refuses a line of fewer than two points; the mesh is only
  drawn. The curve is \<^verbatim>\<open>new THREE.CatmullRomCurve3(points, false, "catmullrom", 0)\<close>,
  library code, and so a parameter here.
\<close>

definition tubeFromPoints :: "(V3 list \<Rightarrow> Curve) \<Rightarrow> V3 list \<Rightarrow> Curve option" where
  "tubeFromPoints catmullRom points =
     (if length points < 2 then None else Some (catmullRom points))"

text \<open>
  The loop of the loader over the lines of the road file, which fills \<^verbatim>\<open>ALL_CURVES\<close>:
  \<^verbatim>\<open>const t = tubeFromPoints(pts, ROAD_RADIUS); if (t) { ...; curves.push(t.curve); }\<close>.
  The graph is later built from \<^verbatim>\<open>ALL_CURVES\<close>.
\<close>

fun roadCurves :: "(V3 list \<Rightarrow> Curve) \<Rightarrow> V3 list list \<Rightarrow> Curve list" where
  "roadCurves catmullRom [] = []"
| "roadCurves catmullRom (pts # lines) =
     (case tubeFromPoints catmullRom pts of
        None \<Rightarrow> roadCurves catmullRom lines
      | Some c \<Rightarrow> c # roadCurves catmullRom lines)"

section \<open>Routing\<close>

text \<open>
  The source has three ways out of a call: it returns, it throws (a \<^verbatim>\<open>TypeError\<close> on
  a property of \<^verbatim>\<open>null\<close> or \<^verbatim>\<open>undefined\<close>), or a \<^verbatim>\<open>while\<close> loop never ends.
\<close>

datatype 'a outcome = Diverges | Throws | Returns 'a

record Snap =
  snap_edge :: nat
  snap_q :: V3
  snap_t :: real
  snap_d :: real

definition clamp :: "real \<Rightarrow> real \<Rightarrow> real \<Rightarrow> real" where
  "clamp v lo hi = max lo (min hi v)"

definition nearestPointOnEdge :: "RoadEdge \<Rightarrow> V3 \<Rightarrow> V3 \<times> real \<times> real" where
  "nearestPointOnEdge e pt =
     (let a = edge_poly e ! 0;
          b = edge_poly e ! 1;
          ab = subVectors b a;
          t = clamp (dot (subVectors pt a) ab / lengthSq ab) 0 1;
          q = addScaledVector a ab t
      in (q, t, distV pt q))"

fun snapScan :: "RoadEdge list \<Rightarrow> nat \<Rightarrow> V3 \<Rightarrow> Snap option \<Rightarrow> Snap option" where
  "snapScan [] i pt best = best"
| "snapScan (e # es) i pt best =
     (case nearestPointOnEdge e pt of (q, t, d) \<Rightarrow>
        snapScan es (Suc i) pt
          (if (case best of None \<Rightarrow> True | Some b \<Rightarrow> d < snap_d b)
           then Some \<lparr>snap_edge = i, snap_q = q, snap_t = t, snap_d = d\<rparr>
           else best))"

definition snapToGraph :: "RoadGraph \<Rightarrow> V3 \<Rightarrow> Snap option" where
  "snapToGraph g pt = snapScan (g_edges g) 0 pt None"

definition heur :: "RoadGraph \<Rightarrow> nat \<Rightarrow> nat \<Rightarrow> real" where
  "heur g a b = distV (node_p (g_nodes g ! a)) (node_p (g_nodes g ! b))"

text \<open>
  The working sets of \<^verbatim>\<open>aStar\<close>. A JavaScript \<^verbatim>\<open>Set\<close> iterates in insertion order
  and \<^verbatim>\<open>add\<close> of a present element changes nothing, so \<^verbatim>\<open>open\<close> is a list without
  repetitions; the three \<^verbatim>\<open>Map\<close>s are partial functions, and \<^verbatim>\<open>?? Infinity\<close> is the
  reading of \<open>None\<close>.
\<close>

record AStarState =
  openSet :: "nat list"
  came :: "nat \<rightharpoonup> nat"
  gScore :: "nat \<rightharpoonup> real"
  fScore :: "nat \<rightharpoonup> real"

text \<open>The selection loop: the first node of \<^verbatim>\<open>open\<close> with the least \<^verbatim>\<open>fScore\<close>.\<close>

fun pickBest :: "(nat \<rightharpoonup> real) \<Rightarrow> nat list \<Rightarrow> nat option \<times> real option
    \<Rightarrow> nat option \<times> real option" where
  "pickBest fS [] acc = acc"
| "pickBest fS (n # ns) acc =
     (case fS n of
        None \<Rightarrow> pickBest fS ns acc
      | Some f \<Rightarrow>
          if (case snd acc of None \<Rightarrow> True | Some bestF \<Rightarrow> f < bestF)
          then pickBest fS ns (Some n, Some f)
          else pickBest fS ns acc)"

definition otherEnd :: "RoadEdge \<Rightarrow> nat \<Rightarrow> nat" where
  "otherEnd e current = (if edge_a e = current then edge_b e else edge_a e)"

definition relaxEdge :: "RoadGraph \<Rightarrow> (RoadEdge \<Rightarrow> real) \<Rightarrow> nat \<Rightarrow> nat \<Rightarrow> nat
    \<Rightarrow> AStarState \<Rightarrow> AStarState" where
  "relaxEdge g costFn goal current k st =
     (let e = g_edges g ! k;
          nb = otherEnd e current
      in case gScore st current of
           None \<Rightarrow> st
         | Some gc \<Rightarrow>
             (let tentative = gc + costFn e
              in if (case gScore st nb of None \<Rightarrow> True | Some gn \<Rightarrow> tentative < gn)
                 then st\<lparr>came := (came st)(nb \<mapsto> current),
                         gScore := (gScore st)(nb \<mapsto> tentative),
                         fScore := (fScore st)(nb \<mapsto> tentative + heur g nb goal),
                         openSet := (if nb \<in> set (openSet st) then openSet st
                                     else openSet st @ [nb])\<rparr>
                 else st))"

partial_function (option) reconstruct :: "(nat \<rightharpoonup> nat) \<Rightarrow> nat \<Rightarrow> nat list \<Rightarrow> nat list option"
  where
  "reconstruct cm current path =
     (case cm current of
        None \<Rightarrow> Some (rev path)
      | Some prev \<Rightarrow> reconstruct cm prev (path @ [prev]))"

partial_function (option) aStarLoop :: "RoadGraph \<Rightarrow> nat \<Rightarrow> (RoadEdge \<Rightarrow> real)
    \<Rightarrow> AStarState \<Rightarrow> nat list option option" where
  "aStarLoop g goal costFn st =
     (if openSet st = [] then Some None
      else case fst (pickBest (fScore st) (openSet st) (None, None)) of
             None \<Rightarrow> Some None
           | Some current \<Rightarrow>
               if current = goal
               then map_option Some (reconstruct (came st) current [current])
               else aStarLoop g goal costFn
                      (fold (relaxEdge g costFn goal current)
                         (node_edges (g_nodes g ! current))
                         (st\<lparr>openSet := removeAll current (openSet st)\<rparr>)))"

definition aStar :: "RoadGraph \<Rightarrow> nat \<Rightarrow> nat \<Rightarrow> (RoadEdge \<Rightarrow> real) \<Rightarrow> nat list option option"
  where
  "aStar g start goal costFn =
     aStarLoop g goal costFn
       \<lparr>openSet = [start], came = Map.empty, gScore = [start \<mapsto> 0],
        fScore = [start \<mapsto> heur g start goal]\<rparr>"

definition nodesPathToPolyline :: "RoadGraph \<Rightarrow> nat list \<Rightarrow> V3 list" where
  "nodesPathToPolyline g path = map (\<lambda>n. node_p (g_nodes g ! n)) path"

fun nearestScan :: "RoadNode list \<Rightarrow> nat \<Rightarrow> V3 \<Rightarrow> nat option \<times> real option
    \<Rightarrow> nat option \<times> real option" where
  "nearestScan [] i pt acc = acc"
| "nearestScan (n # ns) i pt acc =
     (let d = distV (node_p n) pt
      in if (case snd acc of None \<Rightarrow> True | Some bd \<Rightarrow> d < bd)
         then nearestScan ns (Suc i) pt (Some i, Some d)
         else nearestScan ns (Suc i) pt acc)"

definition nearestNodeToPoint :: "RoadGraph \<Rightarrow> V3 \<Rightarrow> nat option" where
  "nearestNodeToPoint g pt = fst (nearestScan (g_nodes g) 0 pt (None, None))"

definition cost :: "real \<Rightarrow> RoadEdge \<Rightarrow> real" where
  "cost shadeBias e = edge_length e * max 0.2 (1 - shadeBias * edge_shadeScore e)"

definition findRouteOnRoads :: "RoadGraph \<Rightarrow> V3 \<Rightarrow> V3 \<Rightarrow> real \<Rightarrow> V3 list option outcome" where
  "findRouteOnRoads g worldStart worldGoal shadeBias =
     (case snapToGraph g worldStart of
        None \<Rightarrow> Returns None
      | Some s \<Rightarrow>
     (case snapToGraph g worldGoal of
        None \<Rightarrow> Returns None
      | Some t \<Rightarrow>
     (case nearestNodeToPoint g (snap_q s) of
        None \<Rightarrow> Throws
      | Some nS \<Rightarrow>
     (case nearestNodeToPoint g (snap_q t) of
        None \<Rightarrow> Throws
      | Some nG \<Rightarrow>
     (case aStar g nS nG (cost shadeBias) of
        None \<Rightarrow> Diverges
      | Some None \<Rightarrow> Returns None
      | Some (Some nodePath) \<Rightarrow> Returns (Some (nodesPathToPolyline g nodePath)))))))"

section \<open>The agent\<close>

text \<open>
  The fields of \<^verbatim>\<open>class Agent\<close> that steering reads and writes; \<^verbatim>\<open>pos\<close> is
  \<^verbatim>\<open>root.position\<close>. The meshes (body, view cone, hit markers) are drawn from these
  fields and never read back, so they are left out.
\<close>

record Agent =
  pos :: V3
  yaw :: real
  baseSpeed :: real
  speed :: real
  finalGoal :: "V3 option"
  rerouteCooldown :: real
  stuckAcc :: real
  lastPos :: V3
  route :: "V3 list"
  routeIdx :: nat

text \<open>
  \<^verbatim>\<open>setPolylineRoute\<close> reads \<^verbatim>\<open>this.route[this.route.length - 1].clone()\<close> last; on an
  empty polyline that is a method call on \<^verbatim>\<open>undefined\<close>, which throws.
\<close>

definition setPolylineRoute :: "V3 list \<Rightarrow> Agent \<Rightarrow> Agent outcome" where
  "setPolylineRoute poly ag =
     (let ag1 = ag\<lparr>route := poly, routeIdx := 0\<rparr>;
          ag2 = (if route ag1 \<noteq> [] then ag1\<lparr>pos := route ag1 ! 0\<rparr> else ag1);
          ag3 = ag2\<lparr>pos := setY 0.05 (pos ag2)\<rparr>;
          ag4 = ag3\<lparr>route := map (setY 0.05) (route ag3)\<rparr>
      in if route ag4 = [] then Throws
         else Returns (ag4\<lparr>finalGoal := Some (route ag4 ! (length (route ag4) - 1))\<rparr>))"

definition trySmartReroute :: "RoadGraph option \<Rightarrow> real \<Rightarrow> Agent \<Rightarrow> (Agent \<times> bool) outcome"
  where
  "trySmartReroute roadGraph shadeBias ag =
     (case roadGraph of
        None \<Rightarrow> Returns (ag, False)
      | Some g \<Rightarrow>
     (case finalGoal ag of
        None \<Rightarrow> Returns (ag, False)
      | Some goal \<Rightarrow>
          if rerouteCooldown ag > 0 then Returns (ag, False)
          else (case findRouteOnRoads g (pos ag) goal shadeBias of
                  Diverges \<Rightarrow> Diverges
                | Throws \<Rightarrow> Throws
                | Returns None \<Rightarrow> Returns (ag, False)
                | Returns (Some poly) \<Rightarrow>
                    if length poly > 1
                    then (case setPolylineRoute poly ag of
                            Diverges \<Rightarrow> Diverges
                          | Throws \<Rightarrow> Throws
                          | Returns ag' \<Rightarrow> Returns (ag'\<lparr>rerouteCooldown := 2.5\<rparr>, True))
                    else Returns (ag, False))))"

definition vlength :: "V3 \<Rightarrow> real" where
  "vlength v = sqrt (lengthSq v)"

definition normalize :: "V3 \<Rightarrow> V3" where
  "normalize v =
     (let l = (if vlength v = 0 then 1 else vlength v)
      in V3 (vx v / l) (vy v / l) (vz v / l))"

definition atan2 :: "real \<Rightarrow> real \<Rightarrow> real" where
  "atan2 b a =
     (if a > 0 then arctan (b / a)
      else if a < 0 \<and> b \<ge> 0 then arctan (b / a) + pi
      else if a < 0 then arctan (b / a) - pi
      else if b > 0 then pi / 2
      else if b < 0 then - pi / 2
      else 0)"

definition AVOID_DIST :: real where
  "AVOID_DIST = 0.9"

definition STOP_DIST :: real where
  "STOP_DIST = 0.25"

text \<open>The last statement of \<^verbatim>\<open>update\<close>.\<close>

definition pinHeight :: "Agent \<Rightarrow> Agent" where
  "pinHeight ag = (if vy (pos ag) \<noteq> 0.05 then ag\<lparr>pos := setY 0.05 (pos ag)\<rparr> else ag)"

text \<open>
  The obstacle probe of \<^verbatim>\<open>update\<close> is a ray cast into the scene; \<open>probe start dir\<close> is
  the distance of the first hit on an object tagged as obstacle, if any.
\<close>

definition moveStep :: "(V3 \<Rightarrow> V3 \<Rightarrow> real option) \<Rightarrow> RoadGraph option \<Rightarrow> real \<Rightarrow> real
    \<Rightarrow> V3 \<Rightarrow> real \<Rightarrow> Agent \<Rightarrow> Agent outcome" where
  "moveStep probe roadGraph shadeBias delta to d ag =
     (let dirMove = normalize to;
          ag1 = ag\<lparr>yaw := atan2 (vx dirMove) (vz dirMove)\<rparr>;
          start = V3 (vx (pos ag1)) (vy (pos ag1) + 1.5) (vz (pos ag1));
          STEP = (if speed ag1 \<noteq> 0 then speed ag1
                  else if baseSpeed ag1 \<noteq> 0 then baseSpeed ag1 else 20) * delta
      in case probe start dirMove of
           None \<Rightarrow> Returns (ag1\<lparr>pos := addScaledVector (pos ag1) dirMove (min STEP d)\<rparr>)
         | Some hit \<Rightarrow>
             if hit < STOP_DIST
             then (case trySmartReroute roadGraph shadeBias
                          (ag1\<lparr>pos := addScaledVector (pos ag1) dirMove (STEP * 0.1)\<rparr>) of
                     Diverges \<Rightarrow> Diverges
                   | Throws \<Rightarrow> Throws
                   | Returns r \<Rightarrow> Returns (fst r))
             else if hit < AVOID_DIST
             then (let side = V3 (- vz dirMove) 0 (vx dirMove);
                       p1 = addScaledVector (pos ag1) side ((AVOID_DIST - hit) * 0.4);
                       p2 = addScaledVector p1 dirMove (STEP * 0.6);
                       ag2 = ag1\<lparr>pos := p2\<rparr>;
                       prog = distV p2 (lastPos ag2);
                       ag3 = (if prog < 0.03 then ag2\<lparr>stuckAcc := stuckAcc ag2 + delta\<rparr>
                              else ag2\<lparr>stuckAcc := 0, lastPos := p2\<rparr>)
                   in if stuckAcc ag3 > 0.8
                      then (case trySmartReroute roadGraph shadeBias ag3 of
                              Diverges \<Rightarrow> Diverges
                            | Throws \<Rightarrow> Throws
                            | Returns r \<Rightarrow>
                                Returns (if snd r then (fst r)\<lparr>stuckAcc := 0\<rparr> else fst r))
                      else Returns ag3)
             else Returns (ag1\<lparr>pos := addScaledVector (pos ag1) dirMove (min STEP d)\<rparr>))"

definition update :: "real \<Rightarrow> (V3 \<Rightarrow> V3 \<Rightarrow> real option) \<Rightarrow> RoadGraph option \<Rightarrow> real
    \<Rightarrow> Agent \<Rightarrow> Agent outcome" where
  "update dt probe roadGraph shadeBias ag =
     (let delta = min 0.033 dt;
          ag1 = ag\<lparr>rerouteCooldown := max 0 (rerouteCooldown ag - delta)\<rparr>
      in if route ag1 = [] then Returns ag1
         else
           (let ag2 = (if lengthSq (lastPos ag1) = 0 then ag1\<lparr>lastPos := pos ag1\<rparr> else ag1);
                idx = min (routeIdx ag2) (length (route ag2) - 1);
                target = route ag2 ! idx;
                to = setY 0 (subVectors target (pos ag2));
                d = vlength to
            in if d < 0.5
               then Returns (pinHeight
                      (if routeIdx ag2 < length (route ag2) - 1
                       then ag2\<lparr>routeIdx := routeIdx ag2 + 1\<rparr> else ag2))
               else (case moveStep probe roadGraph shadeBias delta to d ag2 of
                       Diverges \<Rightarrow> Diverges
                     | Throws \<Rightarrow> Throws
                     | Returns ag3 \<Rightarrow> Returns (pinHeight ag3))))"

text \<open>A run of ticks; each tick brings its own frame time, scene and arguments.\<close>

fun ticks :: "(real \<times> (V3 \<Rightarrow> V3 \<Rightarrow> real option) \<times> RoadGraph option \<times> real) list
    \<Rightarrow> Agent \<Rightarrow> Agent outcome" where
  "ticks [] ag = Returns ag"
| "ticks ((dt, probe, roadGraph, shadeBias) # ts) ag =
     (case update dt probe roadGraph shadeBias ag of
        Diverges \<Rightarrow> Diverges
      | Throws \<Rightarrow> Throws
      | Returns ag' \<Rightarrow> ticks ts ag')"

text \<open>The simulated time a run of ticks advances: the clamped frame times.\<close>

definition elapsed :: "(real \<times> (V3 \<Rightarrow> V3 \<Rightarrow> real option) \<times> RoadGraph option \<times> real) list
    \<Rightarrow> real" where
  "elapsed ts = sum_list (map (\<lambda>t. min 0.033 (fst t)) ts)"

text \<open>The state a constructed agent starts from (\<^verbatim>\<open>root.position.y = 0.01\<close>, no route).\<close>

definition newAgent :: "real \<Rightarrow> Agent" where
  "newAgent sp =
     \<lparr>pos = V3 0 0.01 0, yaw = 0, baseSpeed = sp, speed = sp, finalGoal = None,
      rerouteCooldown = 0, stuckAcc = 0, lastPos = V3 0 0 0, route = [], routeIdx = 0\<rparr>"

section \<open>The sun\<close>

text \<open>
  A JavaScript \<^verbatim>\<open>Date\<close> is either invalid (its time value is \<^verbatim>\<open>NaN\<close>, and so is every
  getter) or it has UTC calendar fields. \<open>None\<close> is the invalid date.
\<close>

record UTCFields =
  utcFullYear :: int
  utcMonth :: int
  utcDate :: int
  utcHours :: int
  utcMinutes :: int
  utcSeconds :: int

text \<open>
  \<^verbatim>\<open>Date.UTC(year, monthIndex, day)\<close> is library code: milliseconds since the epoch of
  the given civil day, by the usual day count of the proleptic Gregorian calendar.
  Years 0 to 99 stand for 1900 to 1999.
\<close>

definition daysFromCivil :: "int \<Rightarrow> int \<Rightarrow> int \<Rightarrow> int" where
  "daysFromCivil yr m d =
     (let y1 = (if m \<le> 2 then yr - 1 else yr);
          era = y1 div 400;
          yoe = y1 - era * 400;
          doy = (153 * (m + (if m > 2 then - 3 else 9)) + 2) div 5 + d - 1;
          doe = yoe * 365 + yoe div 4 - yoe div 100 + doy
      in era * 146097 + doe - 719468)"

definition Date_UTC :: "int \<Rightarrow> int \<Rightarrow> int \<Rightarrow> int" where
  "Date_UTC yr monthIndex d =
     daysFromCivil (if 0 \<le> yr \<and> yr \<le> 99 then 1900 + yr else yr) (monthIndex + 1) d
       * 86400000"

record SunPos =
  sun_azimuth :: real
  sun_altitude :: real
  sun_vector :: V3

text \<open>
  \<^verbatim>\<open>solarPositionUTC\<close> on a valid date. On an invalid date every getter is \<^verbatim>\<open>NaN\<close>
  and the source returns \<^verbatim>\<open>NaN\<close> in every component; the function has no branch for
  that case, its only caller tests the date first.
\<close>

definition solarPositionUTC :: "real \<Rightarrow> real \<Rightarrow> UTCFields \<Rightarrow> SunPos" where
  "solarPositionUTC lat lon date =
     (let rad = pi / 180;
          deg = 180 / pi;
          hours = real_of_int (utcHours date) + real_of_int (utcMinutes date) / 60
                    + real_of_int (utcSeconds date) / 3600;
          n = (Date_UTC (utcFullYear date) (utcMonth date) (utcDate date)
                 - Date_UTC (utcFullYear date) 0 0) div 86400000;
          dayOfYear = (if n = 0 then 1 else n);
          decl = 23.45 * sin (rad * ((360 / 365) * (real_of_int dayOfYear - 81)));
          solarTimeOffset = (lon / 15 - 12) * 15;
          hourAngle = (hours - 12) * 15 + solarTimeOffset;
          altitude = arcsin (sin (lat * rad) * sin (decl * rad)
                       + cos (lat * rad) * cos (decl * rad) * cos (hourAngle * rad)) * deg;
          azimuth = atan2 (- sin (hourAngle * rad))
                      (tan (decl * rad) * cos (lat * rad)
                         - sin (lat * rad) * cos (hourAngle * rad)) * deg;
          sx = sin (azimuth * rad) * cos (altitude * rad);
          sy = sin (altitude * rad);
          sz = cos (azimuth * rad) * cos (altitude * rad)
      in \<lparr>sun_azimuth = azimuth, sun_altitude = altitude,
          sun_vector = normalize (V3 sx sy sz)\<rparr>)"

text \<open>
  The light of the scene: \<^verbatim>\<open>dir.position\<close>, \<^verbatim>\<open>dir.target.position\<close> and the
  direction \<^verbatim>\<open>LIGHT_TO_POS\<close> that shade sampling casts along.
\<close>

record SunState =
  dir_position :: V3
  dir_target :: V3
  LIGHT_TO_POS :: V3

definition computeLightDir :: "SunState \<Rightarrow> SunState" where
  "computeLightDir st =
     (let toScene = normalize (subVectors (dir_target st) (dir_position st))
      in st\<lparr>LIGHT_TO_POS := V3 (- vx toScene) (- vy toScene) (- vz toScene)\<rparr>)"

definition setSunByAzAlt :: "real \<Rightarrow> real \<Rightarrow> SunState \<Rightarrow> SunState" where
  "setSunByAzAlt azDeg altDeg st =
     (let az = azDeg * (pi / 180);
          alt = altDeg * (pi / 180);
          R = 1200
      in computeLightDir
           (st\<lparr>dir_position := V3 (R * cos alt * sin az) (R * sin alt) (R * cos alt * cos az),
               dir_target := V3 0 0 0\<rparr>))"

text \<open>The sun block of \<^verbatim>\<open>animate\<close>, run on every frame.\<close>

definition animateSun :: "real \<Rightarrow> real \<Rightarrow> UTCFields option \<Rightarrow> SunState \<Rightarrow> SunState" where
  "animateSun lat lon d st =
     (case d of
        None \<Rightarrow> st
      | Some date \<Rightarrow>
          (let sun = solarPositionUTC lat lon date;
               v = sun_vector sun
           in computeLightDir
                (st\<lparr>dir_position := V3 (vx v * 1200) (vy v * 1200) (vz v * 1200),
                    dir_target := V3 0 0 0\<rparr>)))"

subsection \<open>The stand-alone page\<close>

text \<open>
  \<^verbatim>\<open>public/lib/citySim.ts\<close> takes latitude, longitude and timestamp from text inputs, so
  here a number can be \<^verbatim>\<open>NaN\<close> (\<^verbatim>\<open>parseFloat\<close> of a text that is no number) and the date
  can be invalid. A number on this path is a real or \<^verbatim>\<open>NaN\<close>, which is \<open>None\<close>; an
  operation with a \<^verbatim>\<open>NaN\<close> operand gives \<^verbatim>\<open>NaN\<close>.
\<close>

type_synonym jsnum = "real option"

definition jmul :: "jsnum \<Rightarrow> jsnum \<Rightarrow> jsnum" where
  "jmul a b = (case a of None \<Rightarrow> None | Some x \<Rightarrow> map_option (\<lambda>y. x * y) b)"

definition jadd :: "jsnum \<Rightarrow> jsnum \<Rightarrow> jsnum" where
  "jadd a b = (case a of None \<Rightarrow> None | Some x \<Rightarrow> map_option (\<lambda>y. x + y) b)"

definition jsub :: "jsnum \<Rightarrow> jsnum \<Rightarrow> jsnum" where
  "jsub a b = (case a of None \<Rightarrow> None | Some x \<Rightarrow> map_option (\<lambda>y. x - y) b)"

definition degToRad :: "real \<Rightarrow> real" where
  "degToRad d = d * (pi / 180)"

definition radToDeg :: "real \<Rightarrow> real" where
  "radToDeg r = r * (180 / pi)"

text \<open>The remainder operator \<^verbatim>\<open>%\<close>: the quotient is cut towards zero.\<close>

definition js_rem :: "real \<Rightarrow> real \<Rightarrow> real" where
  "js_rem x y = x - y * real_of_int (if 0 \<le> x / y then \<lfloor>x / y\<rfloor> else \<lceil>x / y\<rceil>)"

text \<open>
  \<^verbatim>\<open>Math.asin\<close> and \<^verbatim>\<open>Math.acos\<close> are \<^verbatim>\<open>NaN\<close> outside \<open>[-1, 1]\<close>. The argument of
  \<^verbatim>\<open>acos\<close> below is a quotient; over a zero divisor it is \<^verbatim>\<open>NaN\<close> or infinite, and
  the result is \<^verbatim>\<open>NaN\<close>.
\<close>

definition js_asin :: "real \<Rightarrow> jsnum" where
  "js_asin x = (if - 1 \<le> x \<and> x \<le> 1 then Some (arcsin x) else None)"

definition js_acos_quot :: "real \<Rightarrow> real \<Rightarrow> jsnum" where
  "js_acos_quot num den =
     (if den = 0 then None
      else if - 1 \<le> num / den \<and> num / den \<le> 1 then Some (arccos (num / den))
      else None)"

record AzAlt =
  azimuth :: jsnum
  altitude :: jsnum

text \<open>\<^verbatim>\<open>solarPositionLocal\<close> below its first two lines, on numbers and a valid date.\<close>

definition solarLocalValid :: "real \<Rightarrow> real \<Rightarrow> UTCFields \<Rightarrow> AzAlt" where
  "solarLocalValid lat lon d =
     (let time = real_of_int (utcHours d) + real_of_int (utcMinutes d) / 60
                   + real_of_int (utcSeconds d) / 3600;
          y = utcFullYear d;
          m = utcMonth d + 1;
          day = real_of_int (utcDate d) + time / 24;
          a = (14 - m) div 12;
          y2 = y + 4800 - a;
          m2 = m + 12 * a - 3;
          JDN = day + real_of_int ((153 * m2 + 2) div 5) + 365 * real_of_int y2
                  + real_of_int (y2 div 4) - real_of_int (y2 div 100)
                  + real_of_int (y2 div 400) - 32045;
          JD = JDN;
          T = (JD - 2451545.0) / 36525.0;
          L0 = js_rem (280.46646 + 36000.76983 * T + 0.0003032 * T * T) 360;
          M = 357.52911 + 35999.05029 * T - 0.0001537 * T * T;
          e = 0.016708634 - 0.000042037 * T - 0.0000001267 * T * T;
          C = (1.914602 - 0.004817 * T - 0.000014 * T * T) * sin (degToRad M)
                + (0.019993 - 0.000101 * T) * sin (degToRad (2 * M))
                + 0.000289 * sin (degToRad (3 * M));
          trueLong = L0 + C;
          omega = 125.04 - 1934.136 * T;
          lambda = trueLong - 0.00569 - 0.00478 * sin (degToRad omega);
          epsilon0 = 23.439291 - 0.0130042 * T;
          epsilon = epsilon0 + 0.00256 * cos (degToRad omega);
          sinDec = sin (degToRad epsilon) * sin (degToRad lambda);
          yE = tan (degToRad (epsilon / 2));
          yE2 = yE * yE;
          EoT = 4 * radToDeg
                  (yE2 * sin (2 * degToRad L0)
                   - 2 * e * sin (degToRad M)
                   + 4 * e * yE2 * sin (degToRad M) * cos (2 * degToRad L0)
                   - 0.5 * yE2 * yE2 * sin (4 * degToRad L0)
                   - 1.25 * e * e * sin (2 * degToRad M));
          trueSolarTimeMin =
            js_rem ((real_of_int (utcHours d) * 60 + real_of_int (utcMinutes d)
                       + real_of_int (utcSeconds d) / 60) + (EoT + 4 * lon)) 1440;
          H = degToRad (if trueSolarTimeMin / 4 < 0 then trueSolarTimeMin / 4 + 180
                        else trueSolarTimeMin / 4 - 180);
          latR = degToRad lat
      in case js_asin sinDec of
           None \<Rightarrow> \<lparr>azimuth = None, altitude = None\<rparr>
         | Some decl \<Rightarrow>
        (case js_asin (sin latR * sin decl + cos latR * cos decl * cos H) of
           None \<Rightarrow> \<lparr>azimuth = None, altitude = None\<rparr>
         | Some alt \<Rightarrow>
             \<lparr>azimuth =
                map_option (\<lambda>az. if sin H > 0 then 360 - radToDeg az else radToDeg az)
                  (js_acos_quot (sin decl - sin alt * sin latR) (cos alt * cos latR)),
              altitude = Some (radToDeg alt)\<rparr>))"

text \<open>
  \<^verbatim>\<open>solarPositionLocal(lat, lon, whenISO)\<close>. Parsing the text is library code, so the
  parsed \<^verbatim>\<open>Date\<close> is the argument; \<^verbatim>\<open>if (isNaN(d)) return { azimuth: 160, altitude: 45 }\<close>
  comes before anything is computed. With a valid date, a \<^verbatim>\<open>NaN\<close> latitude reaches
  \<^verbatim>\<open>alt\<close> through \<^verbatim>\<open>latR\<close>, a \<^verbatim>\<open>NaN\<close> longitude reaches it through the hour angle, and
  \<^verbatim>\<open>az\<close> is computed from \<^verbatim>\<open>alt\<close>.
\<close>

definition solarPositionLocal :: "jsnum \<Rightarrow> jsnum \<Rightarrow> UTCFields option \<Rightarrow> AzAlt" where
  "solarPositionLocal lat lon whenDate =
     (case whenDate of
        None \<Rightarrow> \<lparr>azimuth = Some 160, altitude = Some 45\<rparr>
      | Some d \<Rightarrow>
          (case lat of
             None \<Rightarrow> \<lparr>azimuth = None, altitude = None\<rparr>
           | Some la \<Rightarrow>
               (case lon of
                  None \<Rightarrow> \<lparr>azimuth = None, altitude = None\<rparr>
                | Some lo \<Rightarrow> solarLocalValid la lo d)))"

text \<open>The light of the page, with components that can be \<^verbatim>\<open>NaN\<close>.\<close>

datatype JV3 = JV3 (jx: jsnum) (jy: jsnum) (jz: jsnum)

definition hasNaN :: "JV3 \<Rightarrow> bool" where
  "hasNaN v \<longleftrightarrow> jx v = None \<or> jy v = None \<or> jz v = None"

record PageSun =
  page_dir_position :: JV3
  page_dir_target :: JV3
  page_LIGHT_TO_POS :: JV3

text \<open>
  \<^verbatim>\<open>Vector3.normalize\<close> is \<^verbatim>\<open>this.divideScalar(this.length() || 1)\<close>: a length that is
  zero or \<^verbatim>\<open>NaN\<close> is replaced by one.
\<close>

definition jlength :: "JV3 \<Rightarrow> jsnum" where
  "jlength v =
     map_option sqrt (jadd (jadd (jmul (jx v) (jx v)) (jmul (jy v) (jy v))) (jmul (jz v) (jz v)))"

definition jnormalize :: "JV3 \<Rightarrow> JV3" where
  "jnormalize v =
     (let s = (case jlength v of None \<Rightarrow> 1 | Some l \<Rightarrow> if l = 0 then 1 else l)
      in JV3 (map_option (\<lambda>c. c / s) (jx v)) (map_option (\<lambda>c. c / s) (jy v))
             (map_option (\<lambda>c. c / s) (jz v)))"

definition computeLightDir_page :: "PageSun \<Rightarrow> PageSun" where
  "computeLightDir_page st =
     (let t = page_dir_target st;
          p = page_dir_position st;
          toScene = jnormalize (JV3 (jsub (jx t) (jx p)) (jsub (jy t) (jy p))
                                    (jsub (jz t) (jz p)))
      in st\<lparr>page_LIGHT_TO_POS :=
              JV3 (map_option uminus (jx toScene)) (map_option uminus (jy toScene))
                  (map_option uminus (jz toScene))\<rparr>)"

definition setSunByAzAlt_page :: "jsnum \<Rightarrow> jsnum \<Rightarrow> PageSun \<Rightarrow> PageSun" where
  "setSunByAzAlt_page azDeg altDeg st =
     (let az = map_option degToRad azDeg;
          alt = map_option degToRad altDeg;
          R = Some 1200;
          x = jmul (jmul R (map_option cos alt)) (map_option sin az);
          y = jmul R (map_option sin alt);
          z = jmul (jmul R (map_option cos alt)) (map_option cos az)
      in computeLightDir_page
           (st\<lparr>page_dir_position := JV3 x y z,
               page_dir_target := JV3 (Some 0) (Some 0) (Some 0)\<rparr>))"

text \<open>
  \<^verbatim>\<open>applySunFromInputs\<close>. \<^verbatim>\<open>fetchSunAzAltFromAPI\<close> is a placeholder that returns
  \<^verbatim>\<open>null\<close>, so with either value of \<^verbatim>\<open>useAPI\<close> the result is that of
  \<^verbatim>\<open>solarPositionLocal\<close>.
\<close>

definition applySunFromInputs :: "jsnum \<Rightarrow> jsnum \<Rightarrow> UTCFields option \<Rightarrow> PageSun \<Rightarrow> PageSun"
  where
  "applySunFromInputs lat lon whenDate st =
     (let res = solarPositionLocal lat lon whenDate
      in setSunByAzAlt_page (azimuth res) (altitude res) st)"

section \<open>Well-formed graphs\<close>

text \<open>
  An edge joins two nodes when they are its endpoints in either order: the test of the
  duplicate scan in \<^verbatim>\<open>buildRoadGraphFromCurves\<close>.
\<close>

definition joins :: "RoadEdge \<Rightarrow> nat \<Rightarrow> nat \<Rightarrow> bool" where
  "joins e u v \<longleftrightarrow> (edge_a e = u \<and> edge_b e = v) \<or> (edge_a e = v \<and> edge_b e = u)"

text \<open>
  What the builder maintains between two turns of its loop: every entry of a node's edge
  list is an edge at that node, every edge is in the edge lists of both its endpoints,
  no edge is a loop, and no two edges join the same pair of nodes.
\<close>

definition wf_build :: "RoadNode list \<times> RoadEdge list \<Rightarrow> bool" where
  "wf_build st \<longleftrightarrow>
     (\<forall>i < length (fst st). \<forall>k \<in> set (node_edges (fst st ! i)).
         k < length (snd st) \<and> (edge_a (snd st ! k) = i \<or> edge_b (snd st ! k) = i))
   \<and> (\<forall>k < length (snd st).
         edge_a (snd st ! k) < length (fst st) \<and> edge_b (snd st ! k) < length (fst st)
         \<and> k \<in> set (node_edges (fst st ! edge_a (snd st ! k)))
         \<and> k \<in> set (node_edges (fst st ! edge_b (snd st ! k))))
   \<and> (\<forall>k < length (snd st). edge_a (snd st ! k) \<noteq> edge_b (snd st ! k))
   \<and> (\<forall>k < length (snd st). \<forall>l < length (snd st).
         k \<noteq> l \<longrightarrow> \<not> joins (snd st ! l) (edge_a (snd st ! k)) (edge_b (snd st ! k)))"

section \<open>Walks\<close>

text \<open>
  A walk leaves a node by an entry of its edge list and arrives at the other end of that
  edge, as the neighbour loop of \<^verbatim>\<open>aStar\<close> does; it is the list of the edges taken.
\<close>

fun isWalk :: "RoadGraph \<Rightarrow> nat \<Rightarrow> nat list \<Rightarrow> nat \<Rightarrow> bool" where
  "isWalk g u [] v \<longleftrightarrow> u = v"
| "isWalk g u (k # ks) v \<longleftrightarrow>
     k \<in> set (node_edges (g_nodes g ! u)) \<and> isWalk g (otherEnd (g_edges g ! k) u) ks v"

definition walkCost :: "(RoadEdge \<Rightarrow> real) \<Rightarrow> RoadGraph \<Rightarrow> nat list \<Rightarrow> real" where
  "walkCost costFn g ks = sum_list (map (\<lambda>k. costFn (g_edges g ! k)) ks)"

text \<open>
  A graph as the builder leaves it: the references between nodes and edges are
  consistent, and every edge is a straight segment between two different points, with
  the distance between them as its length.
\<close>

definition segment :: "RoadEdge \<Rightarrow> bool" where
  "segment e \<longleftrightarrow>
     length (edge_poly e) = 2 \<and> edge_poly e ! 0 \<noteq> edge_poly e ! 1
   \<and> edge_length e = distV (edge_poly e ! 0) (edge_poly e ! 1)"

definition wf_graph :: "RoadGraph \<Rightarrow> bool" where
  "wf_graph g \<longleftrightarrow> wf_build (g_nodes g, g_edges g) \<and> list_all segment (g_edges g)"

text \<open>
  Simple paths from a start node, written backwards: the head is the node reached, and
  every node carries the cost of the path up to it.
\<close>

inductive spath :: "RoadGraph \<Rightarrow> (RoadEdge \<Rightarrow> real) \<Rightarrow> nat \<Rightarrow> (nat \<times> real) list \<Rightarrow> bool"
  for g :: RoadGraph and costFn :: "RoadEdge \<Rightarrow> real" and start :: nat where
  spath_start: "spath g costFn start [(start, 0)]"
| spath_step: "spath g costFn start ((u, x) # p) \<Longrightarrow> k \<in> set (node_edges (g_nodes g ! u))
     \<Longrightarrow> w = otherEnd (g_edges g ! k) u \<Longrightarrow> w \<notin> fst ` set ((u, x) # p)
     \<Longrightarrow> spath g costFn start ((w, x + costFn (g_edges g ! k)) # (u, x) # p)"


text \<open>
  The measure of progress of the loop: the simple paths that would still improve the
  score of the node they reach, or give it its first one.
\<close>

definition improving :: "RoadGraph \<Rightarrow> (RoadEdge \<Rightarrow> real) \<Rightarrow> nat \<Rightarrow> AStarState
    \<Rightarrow> (nat \<times> real) list set" where
  "improving g costFn start st =
     {p. spath g costFn start p
         \<and> (\<forall>v. gScore st (fst (hd p)) = Some v \<longrightarrow> snd (hd p) < v)}"

definition progress :: "RoadGraph \<Rightarrow> (RoadEdge \<Rightarrow> real) \<Rightarrow> nat \<Rightarrow> AStarState \<Rightarrow> nat" where
  "progress g costFn start st = card (improving g costFn start st)"

section \<open>Example inputs\<close>

text \<open>A scene without obstacles, and one where nothing shades the roads.\<close>

definition noObstacle :: "V3 \<Rightarrow> V3 \<Rightarrow> real option" where
  "noObstacle start dir = None"

definition noShade :: "V3 \<Rightarrow> real option" where
  "noShade origin = None"

text \<open>Two nodes ten units apart, joined by one edge.\<close>

definition lineGraph :: RoadGraph where
  "lineGraph =
     \<lparr>g_nodes =
        [\<lparr>node_id = 0, node_p = V3 0 0 0, node_edges = [0]\<rparr>,
         \<lparr>node_id = 1, node_p = V3 10 0 0, node_edges = [0]\<rparr>],
      g_edges =
        [\<lparr>edge_id = 0, edge_a = 0, edge_b = 1, edge_poly = [V3 0 0 0, V3 10 0 0],
          edge_length = 10, edge_shadeScore = 0\<rparr>]\<rparr>"

text \<open>An agent standing at the start of a two-point route along that edge.\<close>

definition walker :: Agent where
  "walker =
     \<lparr>pos = V3 0 0.05 0, yaw = 0, baseSpeed = 22, speed = 22,
      finalGoal = Some (V3 10 0.05 0), rerouteCooldown = 0, stuckAcc = 0,
      lastPos = V3 0 0 0, route = [V3 0 0.05 0, V3 10 0.05 0], routeIdx = 0\<rparr>"

text \<open>Noon UTC on 22 March 2025, day 81 of the year.\<close>

definition equinoxNoon :: UTCFields where
  "equinoxNoon = \<lparr>utcFullYear = 2025, utcMonth = 2, utcDate = 22, utcHours = 12,
                   utcMinutes = 0, utcSeconds = 0\<rparr>"

text \<open>
  The curve of a two-point polyline is the straight segment between the two points;
  \<^verbatim>\<open>getSpacedPoints(n)\<close> answers with \<open>n + 1\<close> points at equal distances.
\<close>

definition straightCurve :: "V3 \<Rightarrow> V3 \<Rightarrow> Curve" where
  "straightCurve a b =
     \<lparr>curve_points = [a, b], getLength = distV a b,
      getSpacedPoints = (\<lambda>n. map (\<lambda>i. lerp a b (real i / real n)) [0..<n + 1])\<rparr>"

text \<open>A road half a unit long.\<close>

definition shortCurve :: Curve where
  "shortCurve = straightCurve (V3 0 0 0) (V3 0.5 0 0)"

text \<open>Three straight roads along one line, of lengths 40, 70 and 20.\<close>

definition roadA :: Curve where
  "roadA = straightCurve (V3 (- 36) 0 0) (V3 4 0 0)"

definition roadD :: Curve where
  "roadD = straightCurve (V3 0.5 0 0) (V3 70.5 0 0)"

definition roadB :: Curve where
  "roadB = straightCurve (V3 5 0 0) (V3 25 0 0)"

text \<open>The builder's nodes and edges after each of the three roads, in the order A, D, B.\<close>

definition afterRoadA :: "RoadNode list \<times> RoadEdge list" where
  "afterRoadA =
     ([\<lparr>node_id = 0, node_p = V3 (- 36) 0 0, node_edges = [0]\<rparr>,
       \<lparr>node_id = 1, node_p = V3 (- 32) 0 0, node_edges = [0, 1]\<rparr>,
       \<lparr>node_id = 2, node_p = V3 (- 28) 0 0, node_edges = [1, 2]\<rparr>,
       \<lparr>node_id = 3, node_p = V3 (- 24) 0 0, node_edges = [2, 3]\<rparr>,
       \<lparr>node_id = 4, node_p = V3 (- 20) 0 0, node_edges = [3, 4]\<rparr>,
       \<lparr>node_id = 5, node_p = V3 (- 16) 0 0, node_edges = [4, 5]\<rparr>,
       \<lparr>node_id = 6, node_p = V3 (- 12) 0 0, node_edges = [5, 6]\<rparr>,
       \<lparr>node_id = 7, node_p = V3 (- 8) 0 0, node_edges = [6, 7]\<rparr>,
       \<lparr>node_id = 8, node_p = V3 (- 4) 0 0, node_edges = [7, 8]\<rparr>,
       \<lparr>node_id = 9, node_p = V3 0 0 0, node_edges = [8, 9]\<rparr>,
       \<lparr>node_id = 10, node_p = V3 4 0 0, node_edges = [9]\<rparr>],
      [\<lparr>edge_id = 0, edge_a = 0, edge_b = 1,
         edge_poly = [V3 (- 36) 0 0, V3 (- 32) 0 0], edge_length = 4, edge_shadeScore = 0\<rparr>,
       \<lparr>edge_id = 1, edge_a = 1, edge_b = 2,
         edge_poly = [V3 (- 32) 0 0, V3 (- 28) 0 0], edge_length = 4, edge_shadeScore = 0\<rparr>,
       \<lparr>edge_id = 2, edge_a = 2, edge_b = 3,
         edge_poly = [V3 (- 28) 0 0, V3 (- 24) 0 0], edge_length = 4, edge_shadeScore = 0\<rparr>,
       \<lparr>edge_id = 3, edge_a = 3, edge_b = 4,
         edge_poly = [V3 (- 24) 0 0, V3 (- 20) 0 0], edge_length = 4, edge_shadeScore = 0\<rparr>,
       \<lparr>edge_id = 4, edge_a = 4, edge_b = 5,
         edge_poly = [V3 (- 20) 0 0, V3 (- 16) 0 0], edge_length = 4, edge_shadeScore = 0\<rparr>,
       \<lparr>edge_id = 5, edge_a = 5, edge_b = 6,
         edge_poly = [V3 (- 16) 0 0, V3 (- 12) 0 0], edge_length = 4, edge_shadeScore = 0\<rparr>,
       \<lparr>edge_id = 6, edge_a = 6, edge_b = 7,
         edge_poly = [V3 (- 12) 0 0, V3 (- 8) 0 0], edge_length = 4, edge_shadeScore = 0\<rparr>,
       \<lparr>edge_id = 7, edge_a = 7, edge_b = 8,
         edge_poly = [V3 (- 8) 0 0, V3 (- 4) 0 0], edge_length = 4, edge_shadeScore = 0\<rparr>,
       \<lparr>edge_id = 8, edge_a = 8, edge_b = 9,
         edge_poly = [V3 (- 4) 0 0, V3 0 0 0], edge_length = 4, edge_shadeScore = 0\<rparr>,
       \<lparr>edge_id = 9, edge_a = 9, edge_b = 10,
         edge_poly = [V3 0 0 0, V3 4 0 0], edge_length = 4, edge_shadeScore = 0\<rparr>])"

definition afterRoadD :: "RoadNode list \<times> RoadEdge list" where
  "afterRoadD =
     ([\<lparr>node_id = 0, node_p = V3 (- 36) 0 0, node_edges = [0]\<rparr>,
       \<lparr>node_id = 1, node_p = V3 (- 32) 0 0, node_edges = [0, 1]\<rparr>,
       \<lparr>node_id = 2, node_p = V3 (- 28) 0 0, node_edges = [1, 2]\<rparr>,
       \<lparr>node_id = 3, node_p = V3 (- 24) 0 0, node_edges = [2, 3]\<rparr>,
       \<lparr>node_id = 4, node_p = V3 (- 20) 0 0, node_edges = [3, 4]\<rparr>,
       \<lparr>node_id = 5, node_p = V3 (- 16) 0 0, node_edges = [4, 5]\<rparr>,
       \<lparr>node_id = 6, node_p = V3 (- 12) 0 0, node_edges = [5, 6]\<rparr>,
       \<lparr>node_id = 7, node_p = V3 (- 8) 0 0, node_edges = [6, 7]\<rparr>,
       \<lparr>node_id = 8, node_p = V3 (- 4) 0 0, node_edges = [7, 8]\<rparr>,
       \<lparr>node_id = 9, node_p = V3 0 0 0, node_edges = [8, 9, 10]\<rparr>,
       \<lparr>node_id = 10, node_p = V3 4 0 0, node_edges = [9]\<rparr>,
       \<lparr>node_id = 11, node_p = V3 (15 / 2) 0 0, node_edges = [10, 11]\<rparr>,
       \<lparr>node_id = 12, node_p = V3 (29 / 2) 0 0, node_edges = [11, 12]\<rparr>,
       \<lparr>node_id = 13, node_p = V3 (43 / 2) 0 0, node_edges = [12, 13]\<rparr>,
       \<lparr>node_id = 14, node_p = V3 (57 / 2) 0 0, node_edges = [13, 14]\<rparr>,
       \<lparr>node_id = 15, node_p = V3 (71 / 2) 0 0, node_edges = [14, 15]\<rparr>,
       \<lparr>node_id = 16, node_p = V3 (85 / 2) 0 0, node_edges = [15, 16]\<rparr>,
       \<lparr>node_id = 17, node_p = V3 (99 / 2) 0 0, node_edges = [16, 17]\<rparr>,
       \<lparr>node_id = 18, node_p = V3 (113 / 2) 0 0, node_edges = [17, 18]\<rparr>,
       \<lparr>node_id = 19, node_p = V3 (127 / 2) 0 0, node_edges = [18, 19]\<rparr>,
       \<lparr>node_id = 20, node_p = V3 (141 / 2) 0 0, node_edges = [19]\<rparr>],
      [\<lparr>edge_id = 0, edge_a = 0, edge_b = 1,
         edge_poly = [V3 (- 36) 0 0, V3 (- 32) 0 0], edge_length = 4, edge_shadeScore = 0\<rparr>,
       \<lparr>edge_id = 1, edge_a = 1, edge_b = 2,
         edge_poly = [V3 (- 32) 0 0, V3 (- 28) 0 0], edge_length = 4, edge_shadeScore = 0\<rparr>,
       \<lparr>edge_id = 2, edge_a = 2, edge_b = 3,
         edge_poly = [V3 (- 28) 0 0, V3 (- 24) 0 0], edge_length = 4, edge_shadeScore = 0\<rparr>,
       \<lparr>edge_id = 3, edge_a = 3, edge_b = 4,
         edge_poly = [V3 (- 24) 0 0, V3 (- 20) 0 0], edge_length = 4, edge_shadeScore = 0\<rparr>,
       \<lparr>edge_id = 4, edge_a = 4, edge_b = 5,
         edge_poly = [V3 (- 20) 0 0, V3 (- 16) 0 0], edge_length = 4, edge_shadeScore = 0\<rparr>,
       \<lparr>edge_id = 5, edge_a = 5, edge_b = 6,
         edge_poly = [V3 (- 16) 0 0, V3 (- 12) 0 0], edge_length = 4, edge_shadeScore = 0\<rparr>,
       \<lparr>edge_id = 6, edge_a = 6, edge_b = 7,
         edge_poly = [V3 (- 12) 0 0, V3 (- 8) 0 0], edge_length = 4, edge_shadeScore = 0\<rparr>,
       \<lparr>edge_id = 7, edge_a = 7, edge_b = 8,
         edge_poly = [V3 (- 8) 0 0, V3 (- 4) 0 0], edge_length = 4, edge_shadeScore = 0\<rparr>,
       \<lparr>edge_id = 8, edge_a = 8, edge_b = 9,
         edge_poly = [V3 (- 4) 0 0, V3 0 0 0], edge_length = 4, edge_shadeScore = 0\<rparr>,
       \<lparr>edge_id = 9, edge_a = 9, edge_b = 10,
         edge_poly = [V3 0 0 0, V3 4 0 0], edge_length = 4, edge_shadeScore = 0\<rparr>,
       \<lparr>edge_id = 10, edge_a = 9, edge_b = 11,
         edge_poly = [V3 (1 / 2) 0 0, V3 (15 / 2) 0 0], edge_length = 7, edge_shadeScore = 0\<rparr>,
       \<lparr>edge_id = 11, edge_a = 11, edge_b = 12,
         edge_poly = [V3 (15 / 2) 0 0, V3 (29 / 2) 0 0], edge_length = 7, edge_shadeScore = 0\<rparr>,
       \<lparr>edge_id = 12, edge_a = 12, edge_b = 13,
         edge_poly = [V3 (29 / 2) 0 0, V3 (43 / 2) 0 0], edge_length = 7, edge_shadeScore = 0\<rparr>,
       \<lparr>edge_id = 13, edge_a = 13, edge_b = 14,
         edge_poly = [V3 (43 / 2) 0 0, V3 (57 / 2) 0 0], edge_length = 7, edge_shadeScore = 0\<rparr>,
       \<lparr>edge_id = 14, edge_a = 14, edge_b = 15,
         edge_poly = [V3 (57 / 2) 0 0, V3 (71 / 2) 0 0], edge_length = 7, edge_shadeScore = 0\<rparr>,
       \<lparr>edge_id = 15, edge_a = 15, edge_b = 16,
         edge_poly = [V3 (71 / 2) 0 0, V3 (85 / 2) 0 0], edge_length = 7, edge_shadeScore = 0\<rparr>,
       \<lparr>edge_id = 16, edge_a = 16, edge_b = 17,
         edge_poly = [V3 (85 / 2) 0 0, V3 (99 / 2) 0 0], edge_length = 7, edge_shadeScore = 0\<rparr>,
       \<lparr>edge_id = 17, edge_a = 17, edge_b = 18,
         edge_poly = [V3 (99 / 2) 0 0, V3 (113 / 2) 0 0], edge_length = 7, edge_shadeScore = 0\<rparr>,
       \<lparr>edge_id = 18, edge_a = 18, edge_b = 19,
         edge_poly = [V3 (113 / 2) 0 0, V3 (127 / 2) 0 0], edge_length = 7, edge_shadeScore = 0\<rparr>,
       \<lparr>edge_id = 19, edge_a = 19, edge_b = 20,
         edge_poly = [V3 (127 / 2) 0 0, V3 (141 / 2) 0 0], edge_length = 7, edge_shadeScore = 0\<rparr>])"

definition afterRoadB :: "RoadNode list \<times> RoadEdge list" where
  "afterRoadB =
     ([\<lparr>node_id = 0, node_p = V3 (- 36) 0 0, node_edges = [0]\<rparr>,
       \<lparr>node_id = 1, node_p = V3 (- 32) 0 0, node_edges = [0, 1]\<rparr>,
       \<lparr>node_id = 2, node_p = V3 (- 28) 0 0, node_edges = [1, 2]\<rparr>,
       \<lparr>node_id = 3, node_p = V3 (- 24) 0 0, node_edges = [2, 3]\<rparr>,
       \<lparr>node_id = 4, node_p = V3 (- 20) 0 0, node_edges = [3, 4]\<rparr>,
       \<lparr>node_id = 5, node_p = V3 (- 16) 0 0, node_edges = [4, 5]\<rparr>,
       \<lparr>node_id = 6, node_p = V3 (- 12) 0 0, node_edges = [5, 6]\<rparr>,
       \<lparr>node_id = 7, node_p = V3 (- 8) 0 0, node_edges = [6, 7]\<rparr>,
       \<lparr>node_id = 8, node_p = V3 (- 4) 0 0, node_edges = [7, 8]\<rparr>,
       \<lparr>node_id = 9, node_p = V3 0 0 0, node_edges = [8, 9, 10]\<rparr>,
       \<lparr>node_id = 10, node_p = V3 4 0 0, node_edges = [9, 20]\<rparr>,
       \<lparr>node_id = 11, node_p = V3 (15 / 2) 0 0, node_edges = [10, 11, 20, 21]\<rparr>,
       \<lparr>node_id = 12, node_p = V3 (29 / 2) 0 0, node_edges = [11, 12, 24, 25]\<rparr>,
       \<lparr>node_id = 13, node_p = V3 (43 / 2) 0 0, node_edges = [12, 13, 27, 28]\<rparr>,
       \<lparr>node_id = 14, node_p = V3 (57 / 2) 0 0, node_edges = [13, 14]\<rparr>,
       \<lparr>node_id = 15, node_p = V3 (71 / 2) 0 0, node_edges = [14, 15]\<rparr>,
       \<lparr>node_id = 16, node_p = V3 (85 / 2) 0 0, node_edges = [15, 16]\<rparr>,
       \<lparr>node_id = 17, node_p = V3 (99 / 2) 0 0, node_edges = [16, 17]\<rparr>,
       \<lparr>node_id = 18, node_p = V3 (113 / 2) 0 0, node_edges = [17, 18]\<rparr>,
       \<lparr>node_id = 19, node_p = V3 (127 / 2) 0 0, node_edges = [18, 19]\<rparr>,
       \<lparr>node_id = 20, node_p = V3 (141 / 2) 0 0, node_edges = [19]\<rparr>,
       \<lparr>node_id = 21, node_p = V3 9 0 0, node_edges = [21, 22]\<rparr>,
       \<lparr>node_id = 22, node_p = V3 11 0 0, node_edges = [22, 23]\<rparr>,
       \<lparr>node_id = 23, node_p = V3 13 0 0, node_edges = [23, 24]\<rparr>,
       \<lparr>node_id = 24, node_p = V3 17 0 0, node_edges = [25, 26]\<rparr>,
       \<lparr>node_id = 25, node_p = V3 19 0 0, node_edges = [26, 27]\<rparr>,
       \<lparr>node_id = 26, node_p = V3 23 0 0, node_edges = [28, 29]\<rparr>,
       \<lparr>node_id = 27, node_p = V3 25 0 0, node_edges = [29]\<rparr>],
      [\<lparr>edge_id = 0, edge_a = 0, edge_b = 1,
         edge_poly = [V3 (- 36) 0 0, V3 (- 32) 0 0], edge_length = 4, edge_shadeScore = 0\<rparr>,
       \<lparr>edge_id = 1, edge_a = 1, edge_b = 2,
         edge_poly = [V3 (- 32) 0 0, V3 (- 28) 0 0], edge_length = 4, edge_shadeScore = 0\<rparr>,
       \<lparr>edge_id = 2, edge_a = 2, edge_b = 3,
         edge_poly = [V3 (- 28) 0 0, V3 (- 24) 0 0], edge_length = 4, edge_shadeScore = 0\<rparr>,
       \<lparr>edge_id = 3, edge_a = 3, edge_b = 4,
         edge_poly = [V3 (- 24) 0 0, V3 (- 20) 0 0], edge_length = 4, edge_shadeScore = 0\<rparr>,
       \<lparr>edge_id = 4, edge_a = 4, edge_b = 5,
         edge_poly = [V3 (- 20) 0 0, V3 (- 16) 0 0], edge_length = 4, edge_shadeScore = 0\<rparr>,
       \<lparr>edge_id = 5, edge_a = 5, edge_b = 6,
         edge_poly = [V3 (- 16) 0 0, V3 (- 12) 0 0], edge_length = 4, edge_shadeScore = 0\<rparr>,
       \<lparr>edge_id = 6, edge_a = 6, edge_b = 7,
         edge_poly = [V3 (- 12) 0 0, V3 (- 8) 0 0], edge_length = 4, edge_shadeScore = 0\<rparr>,
       \<lparr>edge_id = 7, edge_a = 7, edge_b = 8,
         edge_poly = [V3 (- 8) 0 0, V3 (- 4) 0 0], edge_length = 4, edge_shadeScore = 0\<rparr>,
       \<lparr>edge_id = 8, edge_a = 8, edge_b = 9,
         edge_poly = [V3 (- 4) 0 0, V3 0 0 0], edge_length = 4, edge_shadeScore = 0\<rparr>,
       \<lparr>edge_id = 9, edge_a = 9, edge_b = 10,
         edge_poly = [V3 0 0 0, V3 4 0 0], edge_length = 4, edge_shadeScore = 0\<rparr>,
       \<lparr>edge_id = 10, edge_a = 9, edge_b = 11,
         edge_poly = [V3 (1 / 2) 0 0, V3 (15 / 2) 0 0], edge_length = 7, edge_shadeScore = 0\<rparr>,
       \<lparr>edge_id = 11, edge_a = 11, edge_b = 12,
         edge_poly = [V3 (15 / 2) 0 0, V3 (29 / 2) 0 0], edge_length = 7, edge_shadeScore = 0\<rparr>,
       \<lparr>edge_id = 12, edge_a = 12, edge_b = 13,
         edge_poly = [V3 (29 / 2) 0 0, V3 (43 / 2) 0 0], edge_length = 7, edge_shadeScore = 0\<rparr>,
       \<lparr>edge_id = 13, edge_a = 13, edge_b = 14,
         edge_poly = [V3 (43 / 2) 0 0, V3 (57 / 2) 0 0], edge_length = 7, edge_shadeScore = 0\<rparr>,
       \<lparr>edge_id = 14, edge_a = 14, edge_b = 15,
         edge_poly = [V3 (57 / 2) 0 0, V3 (71 / 2) 0 0], edge_length = 7, edge_shadeScore = 0\<rparr>,
       \<lparr>edge_id = 15, edge_a = 15, edge_b = 16,
         edge_poly = [V3 (71 / 2) 0 0, V3 (85 / 2) 0 0], edge_length = 7, edge_shadeScore = 0\<rparr>,
       \<lparr>edge_id = 16, edge_a = 16, edge_b = 17,
         edge_poly = [V3 (85 / 2) 0 0, V3 (99 / 2) 0 0], edge_length = 7, edge_shadeScore = 0\<rparr>,
       \<lparr>edge_id = 17, edge_a = 17, edge_b = 18,
         edge_poly = [V3 (99 / 2) 0 0, V3 (113 / 2) 0 0], edge_length = 7, edge_shadeScore = 0\<rparr>,
       \<lparr>edge_id = 18, edge_a = 18, edge_b = 19,
         edge_poly = [V3 (113 / 2) 0 0, V3 (127 / 2) 0 0], edge_length = 7, edge_shadeScore = 0\<rparr>,
       \<lparr>edge_id = 19, edge_a = 19, edge_b = 20,
         edge_poly = [V3 (127 / 2) 0 0, V3 (141 / 2) 0 0], edge_length = 7, edge_shadeScore = 0\<rparr>,
       \<lparr>edge_id = 20, edge_a = 10, edge_b = 11,
         edge_poly = [V3 5 0 0, V3 7 0 0], edge_length = 2, edge_shadeScore = 0\<rparr>,
       \<lparr>edge_id = 21, edge_a = 11, edge_b = 21,
         edge_poly = [V3 7 0 0, V3 9 0 0], edge_length = 2, edge_shadeScore = 0\<rparr>,
       \<lparr>edge_id = 22, edge_a = 21, edge_b = 22,
         edge_poly = [V3 9 0 0, V3 11 0 0], edge_length = 2, edge_shadeScore = 0\<rparr>,
       \<lparr>edge_id = 23, edge_a = 22, edge_b = 23,
         edge_poly = [V3 11 0 0, V3 13 0 0], edge_length = 2, edge_shadeScore = 0\<rparr>,
       \<lparr>edge_id = 24, edge_a = 23, edge_b = 12,
         edge_poly = [V3 13 0 0, V3 15 0 0], edge_length = 2, edge_shadeScore = 0\<rparr>,
       \<lparr>edge_id = 25, edge_a = 12, edge_b = 24,
         edge_poly = [V3 15 0 0, V3 17 0 0], edge_length = 2, edge_shadeScore = 0\<rparr>,
       \<lparr>edge_id = 26, edge_a = 24, edge_b = 25,
         edge_poly = [V3 17 0 0, V3 19 0 0], edge_length = 2, edge_shadeScore = 0\<rparr>,
       \<lparr>edge_id = 27, edge_a = 25, edge_b = 13,
         edge_poly = [V3 19 0 0, V3 21 0 0], edge_length = 2, edge_shadeScore = 0\<rparr>,
       \<lparr>edge_id = 28, edge_a = 13, edge_b = 26,
         edge_poly = [V3 21 0 0, V3 23 0 0], edge_length = 2, edge_shadeScore = 0\<rparr>,
       \<lparr>edge_id = 29, edge_a = 26, edge_b = 27,
         edge_poly = [V3 23 0 0, V3 25 0 0], edge_length = 2, edge_shadeScore = 0\<rparr>])"

text \<open>The graph of the three roads in a scene where nothing shades them.\<close>

definition threeRoads :: RoadGraph where
  "threeRoads = \<lparr>g_nodes = fst afterRoadB, g_edges = snd afterRoadB\<rparr>"


text \<open>
  A main road along the \<open>x\<close> axis, two lanes that leave it northwards at \<open>(0, 0, 0)\<close> and
  at \<open>(8, 0, 0)\<close>, and a back lane that crosses both two units north of the main road; a
  canopy shades everything north of the main road.
\<close>

definition mainRoad :: Curve where
  "mainRoad = straightCurve (V3 (- 40) 0 0) (V3 40 0 0)"

definition westLane :: Curve where
  "westLane = straightCurve (V3 0 0 0) (V3 0 0 20)"

definition eastLane :: Curve where
  "eastLane = straightCurve (V3 8 0 0) (V3 8 0 20)"

definition backLane :: Curve where
  "backLane = straightCurve (V3 (- 4) 0 2) (V3 16 0 2)"

definition canopy :: "V3 \<Rightarrow> real option" where
  "canopy origin = (if vz origin > 0 then Some 1 else None)"

text \<open>The builder's nodes and edges after each of these roads, in this order.\<close>

definition afterMainRoad :: "RoadNode list \<times> RoadEdge list" where
  "afterMainRoad =
     ([\<lparr>node_id = 0, node_p = V3 (- 40) 0 0, node_edges = [0]\<rparr>,
       \<lparr>node_id = 1, node_p = V3 (- 32) 0 0, node_edges = [0, 1]\<rparr>,
       \<lparr>node_id = 2, node_p = V3 (- 24) 0 0, node_edges = [1, 2]\<rparr>,
       \<lparr>node_id = 3, node_p = V3 (- 16) 0 0, node_edges = [2, 3]\<rparr>,
       \<lparr>node_id = 4, node_p = V3 (- 8) 0 0, node_edges = [3, 4]\<rparr>,
       \<lparr>node_id = 5, node_p = V3 0 0 0, node_edges = [4, 5]\<rparr>,
       \<lparr>node_id = 6, node_p = V3 8 0 0, node_edges = [5, 6]\<rparr>,
       \<lparr>node_id = 7, node_p = V3 16 0 0, node_edges = [6, 7]\<rparr>,
       \<lparr>node_id = 8, node_p = V3 24 0 0, node_edges = [7, 8]\<rparr>,
       \<lparr>node_id = 9, node_p = V3 32 0 0, node_edges = [8, 9]\<rparr>,
       \<lparr>node_id = 10, node_p = V3 40 0 0, node_edges = [9]\<rparr>],
      [\<lparr>edge_id = 0, edge_a = 0, edge_b = 1,
         edge_poly = [V3 (- 40) 0 0, V3 (- 32) 0 0], edge_length = 8, edge_shadeScore = 0\<rparr>,
       \<lparr>edge_id = 1, edge_a = 1, edge_b = 2,
         edge_poly = [V3 (- 32) 0 0, V3 (- 24) 0 0], edge_length = 8, edge_shadeScore = 0\<rparr>,
       \<lparr>edge_id = 2, edge_a = 2, edge_b = 3,
         edge_poly = [V3 (- 24) 0 0, V3 (- 16) 0 0], edge_length = 8, edge_shadeScore = 0\<rparr>,
       \<lparr>edge_id = 3, edge_a = 3, edge_b = 4,
         edge_poly = [V3 (- 16) 0 0, V3 (- 8) 0 0], edge_length = 8, edge_shadeScore = 0\<rparr>,
       \<lparr>edge_id = 4, edge_a = 4, edge_b = 5,
         edge_poly = [V3 (- 8) 0 0, V3 0 0 0], edge_length = 8, edge_shadeScore = 0\<rparr>,
       \<lparr>edge_id = 5, edge_a = 5, edge_b = 6,
         edge_poly = [V3 0 0 0, V3 8 0 0], edge_length = 8, edge_shadeScore = 0\<rparr>,
       \<lparr>edge_id = 6, edge_a = 6, edge_b = 7,
         edge_poly = [V3 8 0 0, V3 16 0 0], edge_length = 8, edge_shadeScore = 0\<rparr>,
       \<lparr>edge_id = 7, edge_a = 7, edge_b = 8,
         edge_poly = [V3 16 0 0, V3 24 0 0], edge_length = 8, edge_shadeScore = 0\<rparr>,
       \<lparr>edge_id = 8, edge_a = 8, edge_b = 9,
         edge_poly = [V3 24 0 0, V3 32 0 0], edge_length = 8, edge_shadeScore = 0\<rparr>,
       \<lparr>edge_id = 9, edge_a = 9, edge_b = 10,
         edge_poly = [V3 32 0 0, V3 40 0 0], edge_length = 8, edge_shadeScore = 0\<rparr>])"

definition afterWestLane :: "RoadNode list \<times> RoadEdge list" where
  "afterWestLane =
     ([\<lparr>node_id = 0, node_p = V3 (- 40) 0 0, node_edges = [0]\<rparr>,
       \<lparr>node_id = 1, node_p = V3 (- 32) 0 0, node_edges = [0, 1]\<rparr>,
       \<lparr>node_id = 2, node_p = V3 (- 24) 0 0, node_edges = [1, 2]\<rparr>,
       \<lparr>node_id = 3, node_p = V3 (- 16) 0 0, node_edges = [2, 3]\<rparr>,
       \<lparr>node_id = 4, node_p = V3 (- 8) 0 0, node_edges = [3, 4]\<rparr>,
       \<lparr>node_id = 5, node_p = V3 0 0 0, node_edges = [4, 5, 10]\<rparr>,
       \<lparr>node_id = 6, node_p = V3 8 0 0, node_edges = [5, 6]\<rparr>,
       \<lparr>node_id = 7, node_p = V3 16 0 0, node_edges = [6, 7]\<rparr>,
       \<lparr>node_id = 8, node_p = V3 24 0 0, node_edges = [7, 8]\<rparr>,
       \<lparr>node_id = 9, node_p = V3 32 0 0, node_edges = [8, 9]\<rparr>,
       \<lparr>node_id = 10, node_p = V3 40 0 0, node_edges = [9]\<rparr>,
       \<lparr>node_id = 11, node_p = V3 0 0 2, node_edges = [10, 11]\<rparr>,
       \<lparr>node_id = 12, node_p = V3 0 0 4, node_edges = [11, 12]\<rparr>,
       \<lparr>node_id = 13, node_p = V3 0 0 6, node_edges = [12, 13]\<rparr>,
       \<lparr>node_id = 14, node_p = V3 0 0 8, node_edges = [13, 14]\<rparr>,
       \<lparr>node_id = 15, node_p = V3 0 0 10, node_edges = [14, 15]\<rparr>,
       \<lparr>node_id = 16, node_p = V3 0 0 12, node_edges = [15, 16]\<rparr>,
       \<lparr>node_id = 17, node_p = V3 0 0 14, node_edges = [16, 17]\<rparr>,
       \<lparr>node_id = 18, node_p = V3 0 0 16, node_edges = [17, 18]\<rparr>,
       \<lparr>node_id = 19, node_p = V3 0 0 18, node_edges = [18, 19]\<rparr>,
       \<lparr>node_id = 20, node_p = V3 0 0 20, node_edges = [19]\<rparr>],
      [\<lparr>edge_id = 0, edge_a = 0, edge_b = 1,
         edge_poly = [V3 (- 40) 0 0, V3 (- 32) 0 0], edge_length = 8, edge_shadeScore = 0\<rparr>,
       \<lparr>edge_id = 1, edge_a = 1, edge_b = 2,
         edge_poly = [V3 (- 32) 0 0, V3 (- 24) 0 0], edge_length = 8, edge_shadeScore = 0\<rparr>,
       \<lparr>edge_id = 2, edge_a = 2, edge_b = 3,
         edge_poly = [V3 (- 24) 0 0, V3 (- 16) 0 0], edge_length = 8, edge_shadeScore = 0\<rparr>,
       \<lparr>edge_id = 3, edge_a = 3, edge_b = 4,
         edge_poly = [V3 (- 16) 0 0, V3 (- 8) 0 0], edge_length = 8, edge_shadeScore = 0\<rparr>,
       \<lparr>edge_id = 4, edge_a = 4, edge_b = 5,
         edge_poly = [V3 (- 8) 0 0, V3 0 0 0], edge_length = 8, edge_shadeScore = 0\<rparr>,
       \<lparr>edge_id = 5, edge_a = 5, edge_b = 6,
         edge_poly = [V3 0 0 0, V3 8 0 0], edge_length = 8, edge_shadeScore = 0\<rparr>,
       \<lparr>edge_id = 6, edge_a = 6, edge_b = 7,
         edge_poly = [V3 8 0 0, V3 16 0 0], edge_length = 8, edge_shadeScore = 0\<rparr>,
       \<lparr>edge_id = 7, edge_a = 7, edge_b = 8,
         edge_poly = [V3 16 0 0, V3 24 0 0], edge_length = 8, edge_shadeScore = 0\<rparr>,
       \<lparr>edge_id = 8, edge_a = 8, edge_b = 9,
         edge_poly = [V3 24 0 0, V3 32 0 0], edge_length = 8, edge_shadeScore = 0\<rparr>,
       \<lparr>edge_id = 9, edge_a = 9, edge_b = 10,
         edge_poly = [V3 32 0 0, V3 40 0 0], edge_length = 8, edge_shadeScore = 0\<rparr>,
       \<lparr>edge_id = 10, edge_a = 5, edge_b = 11,
         edge_poly = [V3 0 0 0, V3 0 0 2], edge_length = 2, edge_shadeScore = 0\<rparr>,
       \<lparr>edge_id = 11, edge_a = 11, edge_b = 12,
         edge_poly = [V3 0 0 2, V3 0 0 4], edge_length = 2, edge_shadeScore = 0\<rparr>,
       \<lparr>edge_id = 12, edge_a = 12, edge_b = 13,
         edge_poly = [V3 0 0 4, V3 0 0 6], edge_length = 2, edge_shadeScore = 0\<rparr>,
       \<lparr>edge_id = 13, edge_a = 13, edge_b = 14,
         edge_poly = [V3 0 0 6, V3 0 0 8], edge_length = 2, edge_shadeScore = 0\<rparr>,
       \<lparr>edge_id = 14, edge_a = 14, edge_b = 15,
         edge_poly = [V3 0 0 8, V3 0 0 10], edge_length = 2, edge_shadeScore = 0\<rparr>,
       \<lparr>edge_id = 15, edge_a = 15, edge_b = 16,
         edge_poly = [V3 0 0 10, V3 0 0 12], edge_length = 2, edge_shadeScore = 0\<rparr>,
       \<lparr>edge_id = 16, edge_a = 16, edge_b = 17,
         edge_poly = [V3 0 0 12, V3 0 0 14], edge_length = 2, edge_shadeScore = 0\<rparr>,
       \<lparr>edge_id = 17, edge_a = 17, edge_b = 18,
         edge_poly = [V3 0 0 14, V3 0 0 16], edge_length = 2, edge_shadeScore = 0\<rparr>,
       \<lparr>edge_id = 18, edge_a = 18, edge_b = 19,
         edge_poly = [V3 0 0 16, V3 0 0 18], edge_length = 2, edge_shadeScore = 0\<rparr>,
       \<lparr>edge_id = 19, edge_a = 19, edge_b = 20,
         edge_poly = [V3 0 0 18, V3 0 0 20], edge_length = 2, edge_shadeScore = 0\<rparr>])"

definition afterEastLane :: "RoadNode list \<times> RoadEdge list" where
  "afterEastLane =
     ([\<lparr>node_id = 0, node_p = V3 (- 40) 0 0, node_edges = [0]\<rparr>,
       \<lparr>node_id = 1, node_p = V3 (- 32) 0 0, node_edges = [0, 1]\<rparr>,
       \<lparr>node_id = 2, node_p = V3 (- 24) 0 0, node_edges = [1, 2]\<rparr>,
       \<lparr>node_id = 3, node_p = V3 (- 16) 0 0, node_edges = [2, 3]\<rparr>,
       \<lparr>node_id = 4, node_p = V3 (- 8) 0 0, node_edges = [3, 4]\<rparr>,
       \<lparr>node_id = 5, node_p = V3 0 0 0, node_edges = [4, 5, 10]\<rparr>,
       \<lparr>node_id = 6, node_p = V3 8 0 0, node_edges = [5, 6, 20]\<rparr>,
       \<lparr>node_id = 7, node_p = V3 16 0 0, node_edges = [6, 7]\<rparr>,
       \<lparr>node_id = 8, node_p = V3 24 0 0, node_edges = [7, 8]\<rparr>,
       \<lparr>node_id = 9, node_p = V3 32 0 0, node_edges = [8, 9]\<rparr>,
       \<lparr>node_id = 10, node_p = V3 40 0 0, node_edges = [9]\<rparr>,
       \<lparr>node_id = 11, node_p = V3 0 0 2, node_edges = [10, 11]\<rparr>,
       \<lparr>node_id = 12, node_p = V3 0 0 4, node_edges = [11, 12]\<rparr>,
       \<lparr>node_id = 13, node_p = V3 0 0 6, node_edges = [12, 13]\<rparr>,
       \<lparr>node_id = 14, node_p = V3 0 0 8, node_edges = [13, 14]\<rparr>,
       \<lparr>node_id = 15, node_p = V3 0 0 10, node_edges = [14, 15]\<rparr>,
       \<lparr>node_id = 16, node_p = V3 0 0 12, node_edges = [15, 16]\<rparr>,
       \<lparr>node_id = 17, node_p = V3 0 0 14, node_edges = [16, 17]\<rparr>,
       \<lparr>node_id = 18, node_p = V3 0 0 16, node_edges = [17, 18]\<rparr>,
       \<lparr>node_id = 19, node_p = V3 0 0 18, node_edges = [18, 19]\<rparr>,
       \<lparr>node_id = 20, node_p = V3 0 0 20, node_edges = [19]\<rparr>,
       \<lparr>node_id = 21, node_p = V3 8 0 2, node_edges = [20, 21]\<rparr>,
       \<lparr>node_id = 22, node_p = V3 8 0 4, node_edges = [21, 22]\<rparr>,
       \<lparr>node_id = 23, node_p = V3 8 0 6, node_edges = [22, 23]\<rparr>,
       \<lparr>node_id = 24, node_p = V3 8 0 8, node_edges = [23, 24]\<rparr>,
       \<lparr>node_id = 25, node_p = V3 8 0 10, node_edges = [24, 25]\<rparr>,
       \<lparr>node_id = 26, node_p = V3 8 0 12, node_edges = [25, 26]\<rparr>,
       \<lparr>node_id = 27, node_p = V3 8 0 14, node_edges = [26, 27]\<rparr>,
       \<lparr>node_id = 28, node_p = V3 8 0 16, node_edges = [27, 28]\<rparr>,
       \<lparr>node_id = 29, node_p = V3 8 0 18, node_edges = [28, 29]\<rparr>,
       \<lparr>node_id = 30, node_p = V3 8 0 20, node_edges = [29]\<rparr>],
      [\<lparr>edge_id = 0, edge_a = 0, edge_b = 1,
         edge_poly = [V3 (- 40) 0 0, V3 (- 32) 0 0], edge_length = 8, edge_shadeScore = 0\<rparr>,
       \<lparr>edge_id = 1, edge_a = 1, edge_b = 2,
         edge_poly = [V3 (- 32) 0 0, V3 (- 24) 0 0], edge_length = 8, edge_shadeScore = 0\<rparr>,
       \<lparr>edge_id = 2, edge_a = 2, edge_b = 3,
         edge_poly = [V3 (- 24) 0 0, V3 (- 16) 0 0], edge_length = 8, edge_shadeScore = 0\<rparr>,
       \<lparr>edge_id = 3, edge_a = 3, edge_b = 4,
         edge_poly = [V3 (- 16) 0 0, V3 (- 8) 0 0], edge_length = 8, edge_shadeScore = 0\<rparr>,
       \<lparr>edge_id = 4, edge_a = 4, edge_b = 5,
         edge_poly = [V3 (- 8) 0 0, V3 0 0 0], edge_length = 8, edge_shadeScore = 0\<rparr>,
       \<lparr>edge_id = 5, edge_a = 5, edge_b = 6,
         edge_poly = [V3 0 0 0, V3 8 0 0], edge_length = 8, edge_shadeScore = 0\<rparr>,
       \<lparr>edge_id = 6, edge_a = 6, edge_b = 7,
         edge_poly = [V3 8 0 0, V3 16 0 0], edge_length = 8, edge_shadeScore = 0\<rparr>,
       \<lparr>edge_id = 7, edge_a = 7, edge_b = 8,
         edge_poly = [V3 16 0 0, V3 24 0 0], edge_length = 8, edge_shadeScore = 0\<rparr>,
       \<lparr>edge_id = 8, edge_a = 8, edge_b = 9,
         edge_poly = [V3 24 0 0, V3 32 0 0], edge_length = 8, edge_shadeScore = 0\<rparr>,
       \<lparr>edge_id = 9, edge_a = 9, edge_b = 10,
         edge_poly = [V3 32 0 0, V3 40 0 0], edge_length = 8, edge_shadeScore = 0\<rparr>,
       \<lparr>edge_id = 10, edge_a = 5, edge_b = 11,
         edge_poly = [V3 0 0 0, V3 0 0 2], edge_length = 2, edge_shadeScore = 0\<rparr>,
       \<lparr>edge_id = 11, edge_a = 11, edge_b = 12,
         edge_poly = [V3 0 0 2, V3 0 0 4], edge_length = 2, edge_shadeScore = 0\<rparr>,
       \<lparr>edge_id = 12, edge_a = 12, edge_b = 13,
         edge_poly = [V3 0 0 4, V3 0 0 6], edge_length = 2, edge_shadeScore = 0\<rparr>,
       \<lparr>edge_id = 13, edge_a = 13, edge_b = 14,
         edge_poly = [V3 0 0 6, V3 0 0 8], edge_length = 2, edge_shadeScore = 0\<rparr>,
       \<lparr>edge_id = 14, edge_a = 14, edge_b = 15,
         edge_poly = [V3 0 0 8, V3 0 0 10], edge_length = 2, edge_shadeScore = 0\<rparr>,
       \<lparr>edge_id = 15, edge_a = 15, edge_b = 16,
         edge_poly = [V3 0 0 10, V3 0 0 12], edge_length = 2, edge_shadeScore = 0\<rparr>,
       \<lparr>edge_id = 16, edge_a = 16, edge_b = 17,
         edge_poly = [V3 0 0 12, V3 0 0 14], edge_length = 2, edge_shadeScore = 0\<rparr>,
       \<lparr>edge_id = 17, edge_a = 17, edge_b = 18,
         edge_poly = [V3 0 0 14, V3 0 0 16], edge_length = 2, edge_shadeScore = 0\<rparr>,
       \<lparr>edge_id = 18, edge_a = 18, edge_b = 19,
         edge_poly = [V3 0 0 16, V3 0 0 18], edge_length = 2, edge_shadeScore = 0\<rparr>,
       \<lparr>edge_id = 19, edge_a = 19, edge_b = 20,
         edge_poly = [V3 0 0 18, V3 0 0 20], edge_length = 2, edge_shadeScore = 0\<rparr>,
       \<lparr>edge_id = 20, edge_a = 6, edge_b = 21,
         edge_poly = [V3 8 0 0, V3 8 0 2], edge_length = 2, edge_shadeScore = 0\<rparr>,
       \<lparr>edge_id = 21, edge_a = 21, edge_b = 22,
         edge_poly = [V3 8 0 2, V3 8 0 4], edge_length = 2, edge_shadeScore = 0\<rparr>,
       \<lparr>edge_id = 22, edge_a = 22, edge_b = 23,
         edge_poly = [V3 8 0 4, V3 8 0 6], edge_length = 2, edge_shadeScore = 0\<rparr>,
       \<lparr>edge_id = 23, edge_a = 23, edge_b = 24,
         edge_poly = [V3 8 0 6, V3 8 0 8], edge_length = 2, edge_shadeScore = 0\<rparr>,
       \<lparr>edge_id = 24, edge_a = 24, edge_b = 25,
         edge_poly = [V3 8 0 8, V3 8 0 10], edge_length = 2, edge_shadeScore = 0\<rparr>,
       \<lparr>edge_id = 25, edge_a = 25, edge_b = 26,
         edge_poly = [V3 8 0 10, V3 8 0 12], edge_length = 2, edge_shadeScore = 0\<rparr>,
       \<lparr>edge_id = 26, edge_a = 26, edge_b = 27,
         edge_poly = [V3 8 0 12, V3 8 0 14], edge_length = 2, edge_shadeScore = 0\<rparr>,
       \<lparr>edge_id = 27, edge_a = 27, edge_b = 28,
         edge_poly = [V3 8 0 14, V3 8 0 16], edge_length = 2, edge_shadeScore = 0\<rparr>,
       \<lparr>edge_id = 28, edge_a = 28, edge_b = 29,
         edge_poly = [V3 8 0 16, V3 8 0 18], edge_length = 2, edge_shadeScore = 0\<rparr>,
       \<lparr>edge_id = 29, edge_a = 29, edge_b = 30,
         edge_poly = [V3 8 0 18, V3 8 0 20], edge_length = 2, edge_shadeScore = 0\<rparr>])"

definition afterBackLane :: "RoadNode list \<times> RoadEdge list" where
  "afterBackLane =
     ([\<lparr>node_id = 0, node_p = V3 (- 40) 0 0, node_edges = [0]\<rparr>,
       \<lparr>node_id = 1, node_p = V3 (- 32) 0 0, node_edges = [0, 1]\<rparr>,
       \<lparr>node_id = 2, node_p = V3 (- 24) 0 0, node_edges = [1, 2]\<rparr>,
       \<lparr>node_id = 3, node_p = V3 (- 16) 0 0, node_edges = [2, 3]\<rparr>,
       \<lparr>node_id = 4, node_p = V3 (- 8) 0 0, node_edges = [3, 4]\<rparr>,
       \<lparr>node_id = 5, node_p = V3 0 0 0, node_edges = [4, 5, 10]\<rparr>,
       \<lparr>node_id = 6, node_p = V3 8 0 0, node_edges = [5, 6, 20]\<rparr>,
       \<lparr>node_id = 7, node_p = V3 16 0 0, node_edges = [6, 7]\<rparr>,
       \<lparr>node_id = 8, node_p = V3 24 0 0, node_edges = [7, 8]\<rparr>,
       \<lparr>node_id = 9, node_p = V3 32 0 0, node_edges = [8, 9]\<rparr>,
       \<lparr>node_id = 10, node_p = V3 40 0 0, node_edges = [9]\<rparr>,
       \<lparr>node_id = 11, node_p = V3 0 0 2, node_edges = [10, 11, 31, 32]\<rparr>,
       \<lparr>node_id = 12, node_p = V3 0 0 4, node_edges = [11, 12]\<rparr>,
       \<lparr>node_id = 13, node_p = V3 0 0 6, node_edges = [12, 13]\<rparr>,
       \<lparr>node_id = 14, node_p = V3 0 0 8, node_edges = [13, 14]\<rparr>,
       \<lparr>node_id = 15, node_p = V3 0 0 10, node_edges = [14, 15]\<rparr>,
       \<lparr>node_id = 16, node_p = V3 0 0 12, node_edges = [15, 16]\<rparr>,
       \<lparr>node_id = 17, node_p = V3 0 0 14, node_edges = [16, 17]\<rparr>,
       \<lparr>node_id = 18, node_p = V3 0 0 16, node_edges = [17, 18]\<rparr>,
       \<lparr>node_id = 19, node_p = V3 0 0 18, node_edges = [18, 19]\<rparr>,
       \<lparr>node_id = 20, node_p = V3 0 0 20, node_edges = [19]\<rparr>,
       \<lparr>node_id = 21, node_p = V3 8 0 2, node_edges = [20, 21, 35, 36]\<rparr>,
       \<lparr>node_id = 22, node_p = V3 8 0 4, node_edges = [21, 22]\<rparr>,
       \<lparr>node_id = 23, node_p = V3 8 0 6, node_edges = [22, 23]\<rparr>,
       \<lparr>node_id = 24, node_p = V3 8 0 8, node_edges = [23, 24]\<rparr>,
       \<lparr>node_id = 25, node_p = V3 8 0 10, node_edges = [24, 25]\<rparr>,
       \<lparr>node_id = 26, node_p = V3 8 0 12, node_edges = [25, 26]\<rparr>,
       \<lparr>node_id = 27, node_p = V3 8 0 14, node_edges = [26, 27]\<rparr>,
       \<lparr>node_id = 28, node_p = V3 8 0 16, node_edges = [27, 28]\<rparr>,
       \<lparr>node_id = 29, node_p = V3 8 0 18, node_edges = [28, 29]\<rparr>,
       \<lparr>node_id = 30, node_p = V3 8 0 20, node_edges = [29]\<rparr>,
       \<lparr>node_id = 31, node_p = V3 (- 4) 0 2, node_edges = [30]\<rparr>,
       \<lparr>node_id = 32, node_p = V3 (- 2) 0 2, node_edges = [30, 31]\<rparr>,
       \<lparr>node_id = 33, node_p = V3 2 0 2, node_edges = [32, 33]\<rparr>,
       \<lparr>node_id = 34, node_p = V3 4 0 2, node_edges = [33, 34]\<rparr>,
       \<lparr>node_id = 35, node_p = V3 6 0 2, node_edges = [34, 35]\<rparr>,
       \<lparr>node_id = 36, node_p = V3 10 0 2, node_edges = [36, 37]\<rparr>,
       \<lparr>node_id = 37, node_p = V3 12 0 2, node_edges = [37, 38]\<rparr>,
       \<lparr>node_id = 38, node_p = V3 14 0 2, node_edges = [38, 39]\<rparr>,
       \<lparr>node_id = 39, node_p = V3 16 0 2, node_edges = [39]\<rparr>],
      [\<lparr>edge_id = 0, edge_a = 0, edge_b = 1,
         edge_poly = [V3 (- 40) 0 0, V3 (- 32) 0 0], edge_length = 8, edge_shadeScore = 0\<rparr>,
       \<lparr>edge_id = 1, edge_a = 1, edge_b = 2,
         edge_poly = [V3 (- 32) 0 0, V3 (- 24) 0 0], edge_length = 8, edge_shadeScore = 0\<rparr>,
       \<lparr>edge_id = 2, edge_a = 2, edge_b = 3,
         edge_poly = [V3 (- 24) 0 0, V3 (- 16) 0 0], edge_length = 8, edge_shadeScore = 0\<rparr>,
       \<lparr>edge_id = 3, edge_a = 3, edge_b = 4,
         edge_poly = [V3 (- 16) 0 0, V3 (- 8) 0 0], edge_length = 8, edge_shadeScore = 0\<rparr>,
       \<lparr>edge_id = 4, edge_a = 4, edge_b = 5,
         edge_poly = [V3 (- 8) 0 0, V3 0 0 0], edge_length = 8, edge_shadeScore = 0\<rparr>,
       \<lparr>edge_id = 5, edge_a = 5, edge_b = 6,
         edge_poly = [V3 0 0 0, V3 8 0 0], edge_length = 8, edge_shadeScore = 0\<rparr>,
       \<lparr>edge_id = 6, edge_a = 6, edge_b = 7,
         edge_poly = [V3 8 0 0, V3 16 0 0], edge_length = 8, edge_shadeScore = 0\<rparr>,
       \<lparr>edge_id = 7, edge_a = 7, edge_b = 8,
         edge_poly = [V3 16 0 0, V3 24 0 0], edge_length = 8, edge_shadeScore = 0\<rparr>,
       \<lparr>edge_id = 8, edge_a = 8, edge_b = 9,
         edge_poly = [V3 24 0 0, V3 32 0 0], edge_length = 8, edge_shadeScore = 0\<rparr>,
       \<lparr>edge_id = 9, edge_a = 9, edge_b = 10,
         edge_poly = [V3 32 0 0, V3 40 0 0], edge_length = 8, edge_shadeScore = 0\<rparr>,
       \<lparr>edge_id = 10, edge_a = 5, edge_b = 11,
         edge_poly = [V3 0 0 0, V3 0 0 2], edge_length = 2, edge_shadeScore = 0\<rparr>,
       \<lparr>edge_id = 11, edge_a = 11, edge_b = 12,
         edge_poly = [V3 0 0 2, V3 0 0 4], edge_length = 2, edge_shadeScore = 0\<rparr>,
       \<lparr>edge_id = 12, edge_a = 12, edge_b = 13,
         edge_poly = [V3 0 0 4, V3 0 0 6], edge_length = 2, edge_shadeScore = 0\<rparr>,
       \<lparr>edge_id = 13, edge_a = 13, edge_b = 14,
         edge_poly = [V3 0 0 6, V3 0 0 8], edge_length = 2, edge_shadeScore = 0\<rparr>,
       \<lparr>edge_id = 14, edge_a = 14, edge_b = 15,
         edge_poly = [V3 0 0 8, V3 0 0 10], edge_length = 2, edge_shadeScore = 0\<rparr>,
       \<lparr>edge_id = 15, edge_a = 15, edge_b = 16,
         edge_poly = [V3 0 0 10, V3 0 0 12], edge_length = 2, edge_shadeScore = 0\<rparr>,
       \<lparr>edge_id = 16, edge_a = 16, edge_b = 17,
         edge_poly = [V3 0 0 12, V3 0 0 14], edge_length = 2, edge_shadeScore = 0\<rparr>,
       \<lparr>edge_id = 17, edge_a = 17, edge_b = 18,
         edge_poly = [V3 0 0 14, V3 0 0 16], edge_length = 2, edge_shadeScore = 0\<rparr>,
       \<lparr>edge_id = 18, edge_a = 18, edge_b = 19,
         edge_poly = [V3 0 0 16, V3 0 0 18], edge_length = 2, edge_shadeScore = 0\<rparr>,
       \<lparr>edge_id = 19, edge_a = 19, edge_b = 20,
         edge_poly = [V3 0 0 18, V3 0 0 20], edge_length = 2, edge_shadeScore = 0\<rparr>,
       \<lparr>edge_id = 20, edge_a = 6, edge_b = 21,
         edge_poly = [V3 8 0 0, V3 8 0 2], edge_length = 2, edge_shadeScore = 0\<rparr>,
       \<lparr>edge_id = 21, edge_a = 21, edge_b = 22,
         edge_poly = [V3 8 0 2, V3 8 0 4], edge_length = 2, edge_shadeScore = 0\<rparr>,
       \<lparr>edge_id = 22, edge_a = 22, edge_b = 23,
         edge_poly = [V3 8 0 4, V3 8 0 6], edge_length = 2, edge_shadeScore = 0\<rparr>,
       \<lparr>edge_id = 23, edge_a = 23, edge_b = 24,
         edge_poly = [V3 8 0 6, V3 8 0 8], edge_length = 2, edge_shadeScore = 0\<rparr>,
       \<lparr>edge_id = 24, edge_a = 24, edge_b = 25,
         edge_poly = [V3 8 0 8, V3 8 0 10], edge_length = 2, edge_shadeScore = 0\<rparr>,
       \<lparr>edge_id = 25, edge_a = 25, edge_b = 26,
         edge_poly = [V3 8 0 10, V3 8 0 12], edge_length = 2, edge_shadeScore = 0\<rparr>,
       \<lparr>edge_id = 26, edge_a = 26, edge_b = 27,
         edge_poly = [V3 8 0 12, V3 8 0 14], edge_length = 2, edge_shadeScore = 0\<rparr>,
       \<lparr>edge_id = 27, edge_a = 27, edge_b = 28,
         edge_poly = [V3 8 0 14, V3 8 0 16], edge_length = 2, edge_shadeScore = 0\<rparr>,
       \<lparr>edge_id = 28, edge_a = 28, edge_b = 29,
         edge_poly = [V3 8 0 16, V3 8 0 18], edge_length = 2, edge_shadeScore = 0\<rparr>,
       \<lparr>edge_id = 29, edge_a = 29, edge_b = 30,
         edge_poly = [V3 8 0 18, V3 8 0 20], edge_length = 2, edge_shadeScore = 0\<rparr>,
       \<lparr>edge_id = 30, edge_a = 31, edge_b = 32,
         edge_poly = [V3 (- 4) 0 2, V3 (- 2) 0 2], edge_length = 2, edge_shadeScore = 0\<rparr>,
       \<lparr>edge_id = 31, edge_a = 32, edge_b = 11,
         edge_poly = [V3 (- 2) 0 2, V3 0 0 2], edge_length = 2, edge_shadeScore = 0\<rparr>,
       \<lparr>edge_id = 32, edge_a = 11, edge_b = 33,
         edge_poly = [V3 0 0 2, V3 2 0 2], edge_length = 2, edge_shadeScore = 0\<rparr>,
       \<lparr>edge_id = 33, edge_a = 33, edge_b = 34,
         edge_poly = [V3 2 0 2, V3 4 0 2], edge_length = 2, edge_shadeScore = 0\<rparr>,
       \<lparr>edge_id = 34, edge_a = 34, edge_b = 35,
         edge_poly = [V3 4 0 2, V3 6 0 2], edge_length = 2, edge_shadeScore = 0\<rparr>,
       \<lparr>edge_id = 35, edge_a = 35, edge_b = 21,
         edge_poly = [V3 6 0 2, V3 8 0 2], edge_length = 2, edge_shadeScore = 0\<rparr>,
       \<lparr>edge_id = 36, edge_a = 21, edge_b = 36,
         edge_poly = [V3 8 0 2, V3 10 0 2], edge_length = 2, edge_shadeScore = 0\<rparr>,
       \<lparr>edge_id = 37, edge_a = 36, edge_b = 37,
         edge_poly = [V3 10 0 2, V3 12 0 2], edge_length = 2, edge_shadeScore = 0\<rparr>,
       \<lparr>edge_id = 38, edge_a = 37, edge_b = 38,
         edge_poly = [V3 12 0 2, V3 14 0 2], edge_length = 2, edge_shadeScore = 0\<rparr>,
       \<lparr>edge_id = 39, edge_a = 38, edge_b = 39,
         edge_poly = [V3 14 0 2, V3 16 0 2], edge_length = 2, edge_shadeScore = 0\<rparr>])"

text \<open>The graph of these roads: the canopy shades the thirty edges of the lanes.\<close>

definition shadedDetour :: RoadGraph where
  "shadedDetour =
     \<lparr>g_nodes = fst afterBackLane,
      g_edges = map (\<lambda>e. e\<lparr>edge_shadeScore := (if 10 \<le> edge_id e then 1 else 0)\<rparr>)
                  (snd afterBackLane)\<rparr>"

section \<open>Properties\<close>

subsection \<open>Evaluating square roots\<close>

lemma sqrt_le_iff_sq: "0 \<le> c \<Longrightarrow> sqrt a \<le> c \<longleftrightarrow> a \<le> c\<^sup>2"
  by (metis abs_of_nonneg real_sqrt_abs real_sqrt_le_iff)

lemma sqrt_less_iff_sq: "0 \<le> c \<Longrightarrow> sqrt a < c \<longleftrightarrow> a < c\<^sup>2"
  by (metis abs_of_nonneg real_sqrt_abs real_sqrt_less_iff)

lemma sqrt_eq_iff_sq: "0 \<le> c \<Longrightarrow> sqrt a = c \<longleftrightarrow> a = c\<^sup>2"
  by (metis abs_of_nonneg real_sqrt_abs real_sqrt_eq_iff)

lemmas geom_defs = distV_def subVectors_def dot_def lengthSq_def addScaledVector_def
  setY_def vlength_def clamp_def nearestPointOnEdge_def

subsection \<open>Routing on the example graph\<close>

lemma aStar_lineGraph: "aStar lineGraph 0 1 (cost 0) = Some (Some [0, 1])"
  apply (simp add: aStar_def)
  apply (subst aStarLoop.simps)
  apply (simp add: lineGraph_def heur_def relaxEdge_def otherEnd_def cost_def distV_def
      sqrt_eq_iff_sq)
  apply (subst aStarLoop.simps)
  apply (simp add: lineGraph_def heur_def relaxEdge_def otherEnd_def cost_def distV_def
      sqrt_eq_iff_sq sqrt_less_iff_sq)
  apply (subst reconstruct.simps, simp)
  apply (subst reconstruct.simps, simp)
  done

lemma snap_lineGraph_start:
  "snapToGraph lineGraph (V3 0 0.05 0)
     = Some \<lparr>snap_edge = 0, snap_q = V3 0 0 0, snap_t = 0,
             snap_d = distV (V3 0 0.05 0) (V3 0 0 0)\<rparr>"
  by (simp add: snapToGraph_def lineGraph_def geom_defs Let_def)

lemma snap_lineGraph_goal:
  "snapToGraph lineGraph (V3 10 0.05 0)
     = Some \<lparr>snap_edge = 0, snap_q = V3 10 0 0, snap_t = 1,
             snap_d = distV (V3 10 0.05 0) (V3 10 0 0)\<rparr>"
  by (simp add: snapToGraph_def lineGraph_def geom_defs Let_def)

lemma nearest_lineGraph_start: "nearestNodeToPoint lineGraph (V3 0 0 0) = Some 0"
  by (simp add: nearestNodeToPoint_def lineGraph_def distV_def Let_def)

lemma nearest_lineGraph_goal: "nearestNodeToPoint lineGraph (V3 10 0 0) = Some 1"
  by (simp add: nearestNodeToPoint_def lineGraph_def distV_def Let_def)

lemma findRoute_lineGraph:
  "findRouteOnRoads lineGraph (V3 0 0.05 0) (V3 10 0.05 0) 0
     = Returns (Some [V3 0 0 0, V3 10 0 0])"
  apply (simp only: findRouteOnRoads_def snap_lineGraph_start snap_lineGraph_goal
      nearest_lineGraph_start nearest_lineGraph_goal aStar_lineGraph option.case
      Snap.select_convs outcome.case)
  apply (simp add: nodesPathToPolyline_def lineGraph_def)
  done

subsection \<open>Assigning a route\<close>

lemma setPolylineRoute_nonempty:
  "poly \<noteq> [] \<Longrightarrow>
   setPolylineRoute poly ag =
     Returns (ag\<lparr>route := map (setY 0.05) poly, routeIdx := 0, pos := setY 0.05 (hd poly),
                finalGoal := Some (setY 0.05 (last poly))\<rparr>)"
  by (simp add: setPolylineRoute_def Let_def hd_conv_nth last_conv_nth setY_def)

lemma trySmartReroute_True:
  assumes "trySmartReroute roadGraph shadeBias ag = Returns (agR, True)"
  shows "\<exists>g goal poly. roadGraph = Some g \<and> finalGoal ag = Some goal \<and> rerouteCooldown ag \<le> 0
           \<and> findRouteOnRoads g (pos ag) goal shadeBias = Returns (Some poly) \<and> length poly > 1
           \<and> (\<exists>ag'. setPolylineRoute poly ag = Returns ag'
                  \<and> agR = ag'\<lparr>rerouteCooldown := 2.5\<rparr>)"
  using assms
  by (auto simp: trySmartReroute_def split: option.splits outcome.splits if_splits)

lemma trySmartReroute_cooldown:
  "rerouteCooldown ag > 0 \<Longrightarrow> trySmartReroute roadGraph shadeBias ag = Returns (ag, False)"
  by (simp add: trySmartReroute_def split: option.splits)

lemma trySmartReroute_walker:
  "trySmartReroute (Some lineGraph) 0 walker
     = Returns (walker\<lparr>route := [V3 0 0.05 0, V3 10 0.05 0], routeIdx := 0,
                      pos := V3 0 0.05 0, finalGoal := Some (V3 10 0.05 0),
                      rerouteCooldown := 2.5\<rparr>, True)"
proof -
  have f: "findRouteOnRoads lineGraph (pos walker) (V3 10 0.05 0) 0
     = Returns (Some [V3 0 0 0, V3 10 0 0])"
    using findRoute_lineGraph by (simp add: walker_def)
  have c: "finalGoal walker = Some (V3 10 0.05 0)" "\<not> rerouteCooldown walker > 0"
    by (simp_all add: walker_def)
  have s: "setPolylineRoute [V3 0 0 0, V3 10 0 0] walker
     = Returns (walker\<lparr>route := [V3 0 0.05 0, V3 10 0.05 0], routeIdx := 0,
                      pos := V3 0 0.05 0, finalGoal := Some (V3 10 0.05 0)\<rparr>)"
    by (simp add: setPolylineRoute_nonempty setY_def)
  have l: "length [V3 0 0 0, V3 10 0 0] > 1" by simp
  show ?thesis
    by (simp only: trySmartReroute_def c f s l option.case outcome.case if_True if_False)
qed

text \<open>
  C10. Assigning a non-empty polyline puts the agent on its first waypoint at once, resets
  the waypoint index to 0, sets the height of the agent and of every waypoint to 0.05 and
  stores the last waypoint as the final goal; a successful reroute does exactly this with
  the polyline the router found.
\<close>

theorem setPolylineRoute_teleports:
  "(poly \<noteq> [] \<longrightarrow>
      (\<exists>ag'. setPolylineRoute poly ag = Returns ag'
         \<and> pos ag' = setY 0.05 (hd poly) \<and> routeIdx ag' = 0
         \<and> route ag' = map (setY 0.05) poly
         \<and> finalGoal ag' = Some (setY 0.05 (last poly))))
   \<and> (trySmartReroute roadGraph shadeBias ag = Returns (agR, True) \<longrightarrow>
      (\<exists>g goal found. roadGraph = Some g \<and> finalGoal ag = Some goal
         \<and> findRouteOnRoads g (pos ag) goal shadeBias = Returns (Some found) \<and> found \<noteq> []
         \<and> pos agR = setY 0.05 (hd found) \<and> routeIdx agR = 0
         \<and> route agR = map (setY 0.05) found
         \<and> finalGoal agR = Some (setY 0.05 (last found))))"
proof (intro conjI impI)
  assume "poly \<noteq> []"
  then show "\<exists>ag'. setPolylineRoute poly ag = Returns ag'
         \<and> pos ag' = setY 0.05 (hd poly) \<and> routeIdx ag' = 0
         \<and> route ag' = map (setY 0.05) poly
         \<and> finalGoal ag' = Some (setY 0.05 (last poly))"
    by (simp add: setPolylineRoute_nonempty)
next
  assume "trySmartReroute roadGraph shadeBias ag = Returns (agR, True)"
  from trySmartReroute_True[OF this] obtain g goal found ag' where
    h: "roadGraph = Some g" "finalGoal ag = Some goal"
       "findRouteOnRoads g (pos ag) goal shadeBias = Returns (Some found)" "length found > 1"
       "setPolylineRoute found ag = Returns ag'" "agR = ag'\<lparr>rerouteCooldown := 2.5\<rparr>"
    by blast
  from h(4) have ne: "found \<noteq> []" by auto
  with h(5) have "ag' = ag\<lparr>route := map (setY 0.05) found, routeIdx := 0,
     pos := setY 0.05 (hd found), finalGoal := Some (setY 0.05 (last found))\<rparr>"
    by (simp add: setPolylineRoute_nonempty)
  with h ne show "\<exists>g goal found. roadGraph = Some g \<and> finalGoal ag = Some goal
         \<and> findRouteOnRoads g (pos ag) goal shadeBias = Returns (Some found) \<and> found \<noteq> []
         \<and> pos agR = setY 0.05 (hd found) \<and> routeIdx agR = 0
         \<and> route agR = map (setY 0.05) found
         \<and> finalGoal agR = Some (setY 0.05 (last found))"
    by simp
qed

theorem setPolylineRoute_teleports_witness:
  "(\<exists>ag'. setPolylineRoute [V3 3 7 4, V3 8 2 9] (newAgent 22) = Returns ag'
      \<and> pos ag' = V3 3 0.05 4 \<and> routeIdx ag' = 0
      \<and> route ag' = [V3 3 0.05 4, V3 8 0.05 9]
      \<and> finalGoal ag' = Some (V3 8 0.05 9))
   \<and> (\<exists>agR found. trySmartReroute (Some lineGraph) 0 walker = Returns (agR, True)
      \<and> findRouteOnRoads lineGraph (pos walker) (V3 10 0.05 0) 0 = Returns (Some found)
      \<and> pos agR = setY 0.05 (hd found) \<and> routeIdx agR = 0
      \<and> route agR = map (setY 0.05) found
      \<and> finalGoal agR = Some (setY 0.05 (last found)))"
proof (rule conjI)
  have "[V3 3 7 4, V3 8 2 9] \<noteq> []" by simp
  with setPolylineRoute_teleports[where poly = "[V3 3 7 4, V3 8 2 9]" and ag = "newAgent 22"]
  show "\<exists>ag'. setPolylineRoute [V3 3 7 4, V3 8 2 9] (newAgent 22) = Returns ag'
      \<and> pos ag' = V3 3 0.05 4 \<and> routeIdx ag' = 0
      \<and> route ag' = [V3 3 0.05 4, V3 8 0.05 9]
      \<and> finalGoal ag' = Some (V3 8 0.05 9)"
    by (simp add: setY_def)
next
  let ?agR = "walker\<lparr>route := [V3 0 0.05 0, V3 10 0.05 0], routeIdx := 0,
                      pos := V3 0 0.05 0, finalGoal := Some (V3 10 0.05 0),
                      rerouteCooldown := 2.5\<rparr>"
  have g: "finalGoal walker = Some (V3 10 0.05 0)" by (simp add: walker_def)
  from setPolylineRoute_teleports[where roadGraph = "Some lineGraph" and shadeBias = 0
        and ag = walker and agR = ?agR] trySmartReroute_walker
  obtain g goal found where
    h: "Some lineGraph = Some g" "finalGoal walker = Some goal"
       "findRouteOnRoads g (pos walker) goal 0 = Returns (Some found)"
       "pos ?agR = setY 0.05 (hd found)" "routeIdx ?agR = 0"
       "route ?agR = map (setY 0.05) found"
       "finalGoal ?agR = Some (setY 0.05 (last found))"
    by blast
  from h(1,2) g have "g = lineGraph" "goal = V3 10 0.05 0" by simp_all
  with h trySmartReroute_walker
  show "\<exists>agR found. trySmartReroute (Some lineGraph) 0 walker = Returns (agR, True)
      \<and> findRouteOnRoads lineGraph (pos walker) (V3 10 0.05 0) 0 = Returns (Some found)
      \<and> pos agR = setY 0.05 (hd found) \<and> routeIdx agR = 0
      \<and> route agR = map (setY 0.05) found
      \<and> finalGoal agR = Some (setY 0.05 (last found))"
    by blast
qed

subsection \<open>The reroute cooldown\<close>

lemma vy_setY [simp]: "vy (setY h a) = h"
  by (simp add: setY_def)

lemma pinHeight_vy [simp]: "vy (pos (pinHeight ag)) = 0.05"
  by (simp add: pinHeight_def)

lemma pinHeight_other [simp]:
  "route (pinHeight ag) = route ag" "rerouteCooldown (pinHeight ag) = rerouteCooldown ag"
  "finalGoal (pinHeight ag) = finalGoal ag"
  by (simp_all add: pinHeight_def)


lemma moveStep_cooldown:
  assumes "rerouteCooldown ag > 0"
  shows "\<exists>ag'. moveStep probe roadGraph shadeBias delta to d ag = Returns ag'
           \<and> route ag' = route ag \<and> rerouteCooldown ag' = rerouteCooldown ag"
  using assms
  by (simp add: moveStep_def Let_def trySmartReroute_cooldown split: option.splits)


lemma update_cooldown:
  assumes "rerouteCooldown ag - min 0.033 dt > 0"
  shows "\<exists>ag'. update dt probe roadGraph shadeBias ag = Returns ag'
           \<and> route ag' = route ag
           \<and> rerouteCooldown ag' = rerouteCooldown ag - min 0.033 dt"
proof -
  define ag1 where "ag1 = ag\<lparr>rerouteCooldown := max 0 (rerouteCooldown ag - min 0.033 dt)\<rparr>"
  define ag2 where "ag2 = (if lengthSq (lastPos ag1) = 0 then ag1\<lparr>lastPos := pos ag1\<rparr> else ag1)"
  define to where "to = setY 0 (subVectors (route ag2 ! min (routeIdx ag2) (length (route ag2) - 1)) (pos ag2))"
  have c2: "rerouteCooldown ag2 > 0" "route ag2 = route ag" "route ag1 = route ag"
    "rerouteCooldown ag2 = rerouteCooldown ag - min 0.033 dt"
    "rerouteCooldown ag1 = rerouteCooldown ag - min 0.033 dt"
    using assms by (auto simp: ag1_def ag2_def)
  obtain ag3 where m: "moveStep probe roadGraph shadeBias (min 0.033 dt) to (vlength to) ag2 = Returns ag3"
    "route ag3 = route ag2" "rerouteCooldown ag3 = rerouteCooldown ag2"
    using moveStep_cooldown[OF c2(1)] by blast
  have u: "update dt probe roadGraph shadeBias ag =
     (if route ag1 = [] then Returns ag1
      else if vlength to < 0.5
           then Returns (pinHeight (if routeIdx ag2 < length (route ag2) - 1
                       then ag2\<lparr>routeIdx := routeIdx ag2 + 1\<rparr> else ag2))
           else (case moveStep probe roadGraph shadeBias (min 0.033 dt) to (vlength to) ag2 of
                       Diverges \<Rightarrow> Diverges
                     | Throws \<Rightarrow> Throws
                     | Returns ag3 \<Rightarrow> Returns (pinHeight ag3)))"
    unfolding update_def Let_def ag1_def[symmetric] ag2_def[symmetric] to_def[symmetric] ..
  show ?thesis
    unfolding u using c2 m by simp
qed

lemma ticks_cooldown:
  assumes "\<forall>t\<in>set ts. 0 \<le> fst t" "elapsed ts < rerouteCooldown ag"
  shows "\<exists>ag'. ticks ts ag = Returns ag' \<and> route ag' = route ag
           \<and> rerouteCooldown ag' = rerouteCooldown ag - elapsed ts"
  using assms
proof (induction ts arbitrary: ag)
  case Nil
  then show ?case by (simp add: elapsed_def)
next
  case (Cons t ts)
  obtain dt probe roadGraph shadeBias where t: "t = (dt, probe, roadGraph, shadeBias)"
    by (cases t) auto
  have "0 \<le> sum_list (map (\<lambda>t. min 0.033 (fst t)) ts)"
    using Cons.prems(1) by (intro sum_list_nonneg) auto
  then have nn: "0 \<le> elapsed ts" by (simp add: elapsed_def)
  have el: "elapsed (t # ts) = min 0.033 dt + elapsed ts"
    by (simp add: elapsed_def t)
  have "rerouteCooldown ag - min 0.033 dt > 0" using Cons.prems(2) nn el by simp
  from update_cooldown[OF this] obtain ag1 where
    u: "update dt probe roadGraph shadeBias ag = Returns ag1" "route ag1 = route ag"
       "rerouteCooldown ag1 = rerouteCooldown ag - min 0.033 dt" by blast
  have "elapsed ts < rerouteCooldown ag1" using Cons.prems(2) el u(3) by simp
  moreover have "\<forall>t\<in>set ts. 0 \<le> fst t" using Cons.prems(1) by simp
  ultimately obtain ag' where
    "ticks ts ag1 = Returns ag'" "route ag' = route ag1"
    "rerouteCooldown ag' = rerouteCooldown ag1 - elapsed ts" using Cons.IH by blast
  then show ?case using u el by (simp add: t)
qed

text \<open>
  C7. After a reroute attempt has succeeded, the route stays as it is through every run of
  ticks that advances simulated time by less than 2.5 seconds, and a reroute attempt made
  at the end of such a run is suppressed; since every initial part of such a run is such a
  run, this covers each attempt made within the 2.5 seconds, those of the ticks included.
\<close>

theorem reroute_cooldown:
  assumes "trySmartReroute roadGraph shadeBias ag = Returns (agR, True)"
      and "\<forall>t\<in>set ts. 0 \<le> fst t"
      and "elapsed ts < 2.5"
  shows "\<exists>ag1. ticks ts agR = Returns ag1 \<and> route ag1 = route agR
           \<and> (\<forall>roadGraph' shadeBias'.
                 trySmartReroute roadGraph' shadeBias' ag1 = Returns (ag1, False))"
proof -
  from trySmartReroute_True[OF assms(1)] have c: "rerouteCooldown agR = 2.5" by auto
  with ticks_cooldown[OF assms(2), of agR] assms(3) obtain ag1 where
    a: "ticks ts agR = Returns ag1" "route ag1 = route agR"
       "rerouteCooldown ag1 = rerouteCooldown agR - elapsed ts" by auto
  then have "rerouteCooldown ag1 > 0" using c assms(3) by simp
  then show ?thesis using a trySmartReroute_cooldown by blast
qed

theorem reroute_cooldown_witness:
  "\<exists>agR ag1. trySmartReroute (Some lineGraph) 0 walker = Returns (agR, True)
      \<and> elapsed [(0.02, noObstacle, Some lineGraph, 0), (2, noObstacle, Some lineGraph, 0)] < 2.5
      \<and> ticks [(0.02, noObstacle, Some lineGraph, 0), (2, noObstacle, Some lineGraph, 0)] agR
            = Returns ag1
      \<and> route ag1 = route agR
      \<and> trySmartReroute (Some lineGraph) 0 ag1 = Returns (ag1, False)"
proof -
  define ts :: "(real \<times> (V3 \<Rightarrow> V3 \<Rightarrow> real option) \<times> RoadGraph option \<times> real) list"
    where "ts = [(0.02, noObstacle, Some lineGraph, 0), (2, noObstacle, Some lineGraph, 0)]"
  have nn: "\<forall>t\<in>set ts. 0 \<le> fst t" by (simp add: ts_def)
  have el: "elapsed ts < 2.5" by (simp add: elapsed_def ts_def)
  obtain ag1 where a: "ticks ts (walker\<lparr>route := [V3 0 0.05 0, V3 10 0.05 0], routeIdx := 0,
                      pos := V3 0 0.05 0, finalGoal := Some (V3 10 0.05 0),
                      rerouteCooldown := 2.5\<rparr>) = Returns ag1"
     "route ag1 = route (walker\<lparr>route := [V3 0 0.05 0, V3 10 0.05 0], routeIdx := 0,
                      pos := V3 0 0.05 0, finalGoal := Some (V3 10 0.05 0),
                      rerouteCooldown := 2.5\<rparr>)"
     "\<forall>roadGraph' shadeBias'. trySmartReroute roadGraph' shadeBias' ag1 = Returns (ag1, False)"
    using reroute_cooldown[OF trySmartReroute_walker nn el] by auto
  from a(3) have "trySmartReroute (Some lineGraph) 0 ag1 = Returns (ag1, False)" by simp
  with a(1,2) el trySmartReroute_walker show ?thesis
    unfolding ts_def by (intro exI conjI)
qed

subsection \<open>The height of the agent\<close>

text \<open>
  C8 as stated fails for an agent without a route: \<^verbatim>\<open>update\<close> returns before it pins
  the height, and a constructed agent stands at height 0.01.
\<close>

theorem update_height_counterexample:
  "update 0.016 noObstacle None 0 (newAgent 22) = Returns (newAgent 22)
   \<and> vy (pos (newAgent 22)) = 0.01 \<and> vy (pos (newAgent 22)) \<noteq> 0.05"
  by (simp add: update_def newAgent_def Let_def)

lemma update_Returns_nonempty:
  assumes "route ag \<noteq> []" "update dt probe roadGraph shadeBias ag = Returns ag'"
  shows "\<exists>ag3. ag' = pinHeight ag3"
proof -
  define ag1 where "ag1 = ag\<lparr>rerouteCooldown := max 0 (rerouteCooldown ag - min 0.033 dt)\<rparr>"
  define ag2 where "ag2 = (if lengthSq (lastPos ag1) = 0 then ag1\<lparr>lastPos := pos ag1\<rparr> else ag1)"
  define to where "to = setY 0 (subVectors (route ag2 ! min (routeIdx ag2) (length (route ag2) - 1)) (pos ag2))"
  define m where "m = moveStep probe roadGraph shadeBias (min 0.033 dt) to (vlength to) ag2"
  have r: "route ag1 \<noteq> []" using assms(1) by (simp add: ag1_def)
  have u: "update dt probe roadGraph shadeBias ag =
     (if route ag1 = [] then Returns ag1
      else if vlength to < 0.5
           then Returns (pinHeight (if routeIdx ag2 < length (route ag2) - 1
                       then ag2\<lparr>routeIdx := routeIdx ag2 + 1\<rparr> else ag2))
           else (case m of
                       Diverges \<Rightarrow> Diverges
                     | Throws \<Rightarrow> Throws
                     | Returns ag3 \<Rightarrow> Returns (pinHeight ag3)))"
    unfolding update_def Let_def ag1_def[symmetric] ag2_def[symmetric] to_def[symmetric]
      m_def[symmetric] ..
  show ?thesis
  proof (cases "vlength to < 0.5")
    case True
    with u r assms(2) show ?thesis by auto
  next
    case False
    with u r assms(2) show ?thesis by (cases m) auto
  qed
qed

text \<open>
  C8, amended. For every agent with a non-empty route, after \<^verbatim>\<open>update\<close> returns the
  agent stands at height 0.05; for an agent with an empty route \<^verbatim>\<open>update\<close> returns with
  the position as it was.
\<close>

theorem update_pins_height:
  "(route ag \<noteq> [] \<longrightarrow>
      (\<forall>ag'. update dt probe roadGraph shadeBias ag = Returns ag' \<longrightarrow> vy (pos ag') = 0.05))
   \<and> (route ag = [] \<longrightarrow>
      (\<exists>ag'. update dt probe roadGraph shadeBias ag = Returns ag' \<and> pos ag' = pos ag))"
proof (intro conjI impI allI)
  fix ag'
  assume "route ag \<noteq> []" "update dt probe roadGraph shadeBias ag = Returns ag'"
  from update_Returns_nonempty[OF this] show "vy (pos ag') = 0.05" by auto
next
  assume "route ag = []"
  then show "\<exists>ag'. update dt probe roadGraph shadeBias ag = Returns ag' \<and> pos ag' = pos ag"
    by (simp add: update_def Let_def)
qed

lemma update_walker:
  "update 0.016 noObstacle None 0 (walker\<lparr>routeIdx := 1\<rparr>)
     = Returns (walker\<lparr>routeIdx := 1, yaw := pi / 2, lastPos := V3 0 0.05 0,
                       pos := V3 0.352 0.05 0\<rparr>)"
  apply (simp add: update_def Let_def walker_def geom_defs sqrt_less_iff_sq power2_eq_square)
  apply (simp add: moveStep_def Let_def noObstacle_def normalize_def geom_defs atan2_def
      pinHeight_def sqrt_eq_iff_sq)
  done

theorem update_pins_height_witness:
  "route (walker\<lparr>routeIdx := 1\<rparr>) \<noteq> []
   \<and> update 0.016 noObstacle None 0 (walker\<lparr>routeIdx := 1\<rparr>)
       = Returns (walker\<lparr>routeIdx := 1, yaw := pi / 2, lastPos := V3 0 0.05 0,
                         pos := V3 0.352 0.05 0\<rparr>)
   \<and> vy (pos (walker\<lparr>routeIdx := 1, yaw := pi / 2, lastPos := V3 0 0.05 0,
                         pos := V3 0.352 0.05 0\<rparr>)) = 0.05
   \<and> route (newAgent 22) = []
   \<and> (\<exists>ag'. update 0.016 noObstacle None 0 (newAgent 22) = Returns ag'
          \<and> pos ag' = pos (newAgent 22))"
proof -
  have r: "route (walker\<lparr>routeIdx := 1\<rparr>) \<noteq> []" by (simp add: walker_def)
  have e: "route (newAgent 22) = []" by (simp add: newAgent_def)
  have t: "route (walker\<lparr>routeIdx := 1\<rparr>) \<noteq> [] \<longrightarrow>
      (\<forall>ag'. update 0.016 noObstacle None 0 (walker\<lparr>routeIdx := 1\<rparr>) = Returns ag'
         \<longrightarrow> vy (pos ag') = 0.05)"
    using update_pins_height[where ag = "walker\<lparr>routeIdx := 1\<rparr>" and dt = "0.016"
      and probe = noObstacle and roadGraph = None and shadeBias = 0] by (rule conjunct1)
  have 1: "vy (pos (walker\<lparr>routeIdx := 1, yaw := pi / 2, lastPos := V3 0 0.05 0,
                         pos := V3 0.352 0.05 0\<rparr>)) = 0.05"
    using t r update_walker by (elim impE allE) assumption+
  have t2: "route (newAgent 22) = [] \<longrightarrow>
      (\<exists>ag'. update 0.016 noObstacle None 0 (newAgent 22) = Returns ag'
         \<and> pos ag' = pos (newAgent 22))"
    using update_pins_height[where ag = "newAgent 22" and dt = "0.016"
      and probe = noObstacle and roadGraph = None and shadeBias = 0] by (rule conjunct2)
  have 2: "\<exists>ag'. update 0.016 noObstacle None 0 (newAgent 22) = Returns ag'
          \<and> pos ag' = pos (newAgent 22)"
    using t2 e by (rule mp)
  from r update_walker 1 e 2 show ?thesis by (intro conjI)
qed

subsection \<open>The sun under an invalid timestamp\<close>

lemma dayOfYear_equinoxNoon:
  "(Date_UTC 2025 2 22 - Date_UTC 2025 0 0) div 86400000 = 81"
  by (simp add: Date_UTC_def daysFromCivil_def)

lemma solarPositionUTC_equinoxNoon:
  "sun_vector (solarPositionUTC 0 180 equinoxNoon) = V3 0 1 0"
  by (simp add: solarPositionUTC_def equinoxNoon_def dayOfYear_equinoxNoon Let_def atan2_def
      normalize_def vlength_def lengthSq_def dot_def)

lemma sphere_squares:
  "(r * c * s)\<^sup>2 + (r * a)\<^sup>2 + (r * c * z)\<^sup>2 = r\<^sup>2 * (c\<^sup>2 * (s\<^sup>2 + z\<^sup>2) + a\<^sup>2)"
  for r :: real
  by (simp add: power2_eq_square algebra_simps)

lemma sphere_length:
  "sqrt ((1200 * cos alt * sin az)\<^sup>2 + (1200 * sin alt)\<^sup>2
         + (1200 * cos alt * cos az)\<^sup>2) = 1200"
proof -
  have "(1200 * cos alt * sin az)\<^sup>2 + (1200 * sin alt)\<^sup>2
         + (1200 * cos alt * cos az)\<^sup>2
      = 1200\<^sup>2 * ((cos alt)\<^sup>2 * ((sin az)\<^sup>2 + (cos az)\<^sup>2) + (sin alt)\<^sup>2)"
    by (rule sphere_squares)
  also have "\<dots> = 1200\<^sup>2" by simp
  finally show ?thesis by simp
qed

lemma jlength_numbers:
  "jlength (JV3 (Some a) (Some b) (Some c)) = Some (sqrt (a\<^sup>2 + b\<^sup>2 + c\<^sup>2))"
  by (simp add: jlength_def jadd_def jmul_def power2_eq_square)

lemma jlength_sphere:
  "jlength (JV3 (Some (- (1200 * cos alt * sin az))) (Some (- (1200 * sin alt)))
        (Some (- (1200 * cos alt * cos az)))) = Some 1200"
  using sphere_length[of alt az] by (simp only: jlength_numbers power2_minus)

lemma setSunByAzAlt_page_numbers:
  "setSunByAzAlt_page (Some azDeg) (Some altDeg) st =
     st\<lparr>page_dir_position :=
          JV3 (Some (1200 * cos (degToRad altDeg) * sin (degToRad azDeg)))
              (Some (1200 * sin (degToRad altDeg)))
              (Some (1200 * cos (degToRad altDeg) * cos (degToRad azDeg))),
        page_dir_target := JV3 (Some 0) (Some 0) (Some 0),
        page_LIGHT_TO_POS :=
          JV3 (Some (cos (degToRad altDeg) * sin (degToRad azDeg)))
              (Some (sin (degToRad altDeg)))
              (Some (cos (degToRad altDeg) * cos (degToRad azDeg)))\<rparr>"
  unfolding setSunByAzAlt_page_def computeLightDir_page_def Let_def
  by (simp add: jmul_def jsub_def jnormalize_def jlength_sphere Let_def)

text \<open>
  In the React component the frame loop tests the date before it asks for the sun, so an
  invalid date writes nothing to the light.
\<close>

lemma animateSun_invalid: "animateSun lat lon None st = st"
  by (simp add: animateSun_def)

text \<open>
  The page's numbers can be \<^verbatim>\<open>NaN\<close>: with a valid date, a latitude that is no number
  gives \<^verbatim>\<open>NaN\<close> for azimuth and altitude, and \<^verbatim>\<open>NaN\<close> in the light direction.
\<close>

lemma nan_latitude_propagates:
  "solarPositionLocal None lon (Some d) = \<lparr>azimuth = None, altitude = None\<rparr>
   \<and> hasNaN (page_LIGHT_TO_POS (applySunFromInputs None lon (Some d) st))"
  by (simp add: solarPositionLocal_def applySunFromInputs_def setSunByAzAlt_page_def
      computeLightDir_page_def jnormalize_def jmul_def jsub_def hasNaN_def Let_def)

text \<open>
  C9. For an invalid timestamp \<^verbatim>\<open>solarPositionLocal\<close> returns azimuth 160 and altitude 45
  degrees, whatever the latitude and longitude are, \<^verbatim>\<open>NaN\<close> included.
  \<^verbatim>\<open>applySunFromInputs\<close> then sets the light exactly as \<^verbatim>\<open>setSunByAzAlt(160, 45)\<close>
  does: the light stands 1200 units from the origin in that direction, and the direction
  \<^verbatim>\<open>LIGHT_TO_POS\<close> that shade sampling casts along is the unit vector towards it. No
  component of the light's position, of its target or of that direction is \<^verbatim>\<open>NaN\<close>.
\<close>

theorem invalid_timestamp_fallback:
  "solarPositionLocal lat lon None = \<lparr>azimuth = Some 160, altitude = Some 45\<rparr>
   \<and> applySunFromInputs lat lon None st = setSunByAzAlt_page (Some 160) (Some 45) st
   \<and> page_dir_position (applySunFromInputs lat lon None st)
       = JV3 (Some (1200 * cos (degToRad 45) * sin (degToRad 160)))
             (Some (1200 * sin (degToRad 45)))
             (Some (1200 * cos (degToRad 45) * cos (degToRad 160)))
   \<and> page_dir_target (applySunFromInputs lat lon None st) = JV3 (Some 0) (Some 0) (Some 0)
   \<and> page_LIGHT_TO_POS (applySunFromInputs lat lon None st)
       = JV3 (Some (cos (degToRad 45) * sin (degToRad 160)))
             (Some (sin (degToRad 45)))
             (Some (cos (degToRad 45) * cos (degToRad 160)))
   \<and> \<not> hasNaN (page_dir_position (applySunFromInputs lat lon None st))
   \<and> \<not> hasNaN (page_dir_target (applySunFromInputs lat lon None st))
   \<and> \<not> hasNaN (page_LIGHT_TO_POS (applySunFromInputs lat lon None st))"
proof -
  have r: "solarPositionLocal lat lon None = \<lparr>azimuth = Some 160, altitude = Some 45\<rparr>"
    by (simp add: solarPositionLocal_def)
  have a: "applySunFromInputs lat lon None st = setSunByAzAlt_page (Some 160) (Some 45) st"
    by (simp add: applySunFromInputs_def r)
  note n = setSunByAzAlt_page_numbers[of 160 45 st]
  have p: "page_dir_position (applySunFromInputs lat lon None st)
       = JV3 (Some (1200 * cos (degToRad 45) * sin (degToRad 160)))
             (Some (1200 * sin (degToRad 45)))
             (Some (1200 * cos (degToRad 45) * cos (degToRad 160)))"
    and t: "page_dir_target (applySunFromInputs lat lon None st)
       = JV3 (Some 0) (Some 0) (Some 0)"
    and l: "page_LIGHT_TO_POS (applySunFromInputs lat lon None st)
       = JV3 (Some (cos (degToRad 45) * sin (degToRad 160)))
             (Some (sin (degToRad 45)))
             (Some (cos (degToRad 45) * cos (degToRad 160)))"
    unfolding a n by simp_all
  have h: "\<not> hasNaN (page_dir_position (applySunFromInputs lat lon None st))"
    "\<not> hasNaN (page_dir_target (applySunFromInputs lat lon None st))"
    "\<not> hasNaN (page_LIGHT_TO_POS (applySunFromInputs lat lon None st))"
    unfolding p t l by (simp_all add: hasNaN_def)
  from r a p t l h show ?thesis by blast
qed

subsection \<open>Distances\<close>

lemma distV_commute: "distV a b = distV b a"
  by (simp add: distV_def power2_commute)

lemma distV_nonneg: "0 \<le> distV a b"
  by (simp add: distV_def)

lemma distV_self: "distV a a = 0"
  by (simp add: distV_def)

lemma distV_eq_0: "distV a b = 0 \<longleftrightarrow> a = b"
proof
  assume "distV a b = 0"
  then have "(vx a - vx b)\<^sup>2 + (vy a - vy b)\<^sup>2 + (vz a - vz b)\<^sup>2 = 0"
    by (simp add: distV_def)
  then have "vx a = vx b \<and> vy a = vy b \<and> vz a = vz b"
    by (smt (verit) zero_le_power2 power2_eq_iff_nonneg sum_power2_eq_zero_iff
        add_nonneg_eq_0_iff add_nonneg_nonneg eq_iff_diff_eq_0 zero_eq_power2)
  then show "a = b" by (simp add: V3.expand)
qed (simp add: distV_self)

lemma sqrt3_triangle:
  "sqrt ((a1 + b1)\<^sup>2 + (a2 + b2)\<^sup>2 + (a3 + b3)\<^sup>2)
     \<le> sqrt (a1\<^sup>2 + a2\<^sup>2 + a3\<^sup>2) + sqrt (b1\<^sup>2 + b2\<^sup>2 + b3\<^sup>2)"
proof -
  let ?A = "sqrt (a1\<^sup>2 + a2\<^sup>2)" and ?B = "sqrt (b1\<^sup>2 + b2\<^sup>2)"
  have 1: "sqrt ((a1 + b1)\<^sup>2 + (a2 + b2)\<^sup>2) \<le> ?A + ?B"
    by (rule real_sqrt_sum_squares_triangle_ineq)
  have "(a1 + b1)\<^sup>2 + (a2 + b2)\<^sup>2 = (sqrt ((a1 + b1)\<^sup>2 + (a2 + b2)\<^sup>2))\<^sup>2"
    by simp
  also have "\<dots> \<le> (?A + ?B)\<^sup>2"
    using 1 by (intro power_mono) simp_all
  finally have "sqrt ((a1 + b1)\<^sup>2 + (a2 + b2)\<^sup>2 + (a3 + b3)\<^sup>2)
      \<le> sqrt ((?A + ?B)\<^sup>2 + (a3 + b3)\<^sup>2)"
    by simp
  also have "\<dots> \<le> sqrt (?A\<^sup>2 + a3\<^sup>2) + sqrt (?B\<^sup>2 + b3\<^sup>2)"
    by (rule real_sqrt_sum_squares_triangle_ineq)
  finally show ?thesis by simp
qed

lemma distV_triangle: "distV a c \<le> distV a b + distV b c"
  using sqrt3_triangle[of "vx a - vx b" "vx b - vx c" "vy a - vy b" "vy b - vy c"
      "vz a - vz b" "vz b - vz c"]
  by (simp add: distV_def)

subsection \<open>Finding and creating nodes\<close>

lemma findNode_Some:
  "findNode ns i pt = Some j \<Longrightarrow>
     i \<le> j \<and> j < i + length ns \<and> distV (node_p (ns ! (j - i))) pt \<le> MERGE_EPS
     \<and> (\<forall>k < j - i. \<not> distV (node_p (ns ! k)) pt \<le> MERGE_EPS)"
proof (induction ns arbitrary: i)
  case Nil
  then show ?case by simp
next
  case (Cons n ns)
  show ?case
  proof (cases "distV (node_p n) pt \<le> MERGE_EPS")
    case True
    with Cons.prems show ?thesis by simp
  next
    case False
    with Cons.prems have f: "findNode ns (Suc i) pt = Some j" by simp
    from Cons.IH[OF f] have h: "Suc i \<le> j" "j < Suc i + length ns"
      "distV (node_p (ns ! (j - Suc i))) pt \<le> MERGE_EPS"
      "\<forall>k < j - Suc i. \<not> distV (node_p (ns ! k)) pt \<le> MERGE_EPS" by auto
    have "\<forall>k < j - i. \<not> distV (node_p ((n # ns) ! k)) pt \<le> MERGE_EPS"
    proof (intro allI impI)
      fix k assume "k < j - i"
      then show "\<not> distV (node_p ((n # ns) ! k)) pt \<le> MERGE_EPS"
        using False h(4) by (cases k) auto
    qed
    moreover have "(n # ns) ! (j - i) = ns ! (j - Suc i)"
      using h(1) by (simp add: Suc_diff_le)
    ultimately show ?thesis using h by auto
  qed
qed

lemma findNode_None:
  "findNode ns i pt = None \<Longrightarrow> \<forall>n \<in> set ns. \<not> distV (node_p n) pt \<le> MERGE_EPS"
  by (induction ns arbitrary: i) (auto split: if_splits)

lemma findNode_None_iff:
  "findNode ns i pt = None \<longleftrightarrow> (\<forall>n \<in> set ns. \<not> distV (node_p n) pt \<le> MERGE_EPS)"
  by (induction ns arbitrary: i) auto

lemma findNode_cong_positions:
  "map node_p ns = map node_p ms \<Longrightarrow> findNode ns i pt = findNode ms i pt"
proof (induction ns arbitrary: ms i)
  case Nil
  then show ?case by simp
next
  case (Cons n ns)
  then obtain m ms' where "ms = m # ms'" "node_p n = node_p m" "map node_p ns = map node_p ms'"
    by (cases ms) auto
  with Cons.IH show ?case by simp
qed

lemma findNode_append:
  "findNode (ns @ ms) i pt =
     (case findNode ns i pt of Some j \<Rightarrow> Some j | None \<Rightarrow> findNode ms (i + length ns) pt)"
  by (induction ns arbitrary: i) (auto split: option.splits)

lemma findOrCreateNode_props:
  assumes "findOrCreateNode ns pt = (ns', j)"
  shows "j < length ns'" "distV (node_p (ns' ! j)) pt \<le> MERGE_EPS"
    "take (length ns) ns' = ns" "length ns \<le> length ns'"
    "\<forall>k < j. \<not> distV (node_p (ns' ! k)) pt \<le> MERGE_EPS"
    "ns' = ns \<or> ns' = ns @ [\<lparr>node_id = length ns, node_p = pt, node_edges = []\<rparr>]"
proof -
  show "j < length ns'" "distV (node_p (ns' ! j)) pt \<le> MERGE_EPS"
    "take (length ns) ns' = ns" "length ns \<le> length ns'"
    "\<forall>k < j. \<not> distV (node_p (ns' ! k)) pt \<le> MERGE_EPS"
    "ns' = ns \<or> ns' = ns @ [\<lparr>node_id = length ns, node_p = pt, node_edges = []\<rparr>]"
    using assms findNode_Some[of ns 0 pt] findNode_None[of ns 0 pt]
    by (auto simp: findOrCreateNode_def distV_self MERGE_EPS_def nth_append
        split: option.splits)
qed

subsection \<open>The invariant of the builder\<close>

lemma edgeExists_iff:
  "edgeExists es ks n0 n1 \<longleftrightarrow> (\<exists>k \<in> set ks. joins (es ! k) n0 n1)"
  by (induction ks) (auto simp: joins_def)

lemma joins_commute: "joins e u v = joins e v u"
  by (auto simp: joins_def)

lemma wf_build_empty: "wf_build ([], [])"
  by (simp add: wf_build_def)

lemma wf_build_findOrCreateNode:
  assumes "wf_build (ns, es)" "findOrCreateNode ns pt = (ns', j)"
  shows "wf_build (ns', es)"
proof -
  from findOrCreateNode_props(6)[OF assms(2)]
  consider "ns' = ns" | "ns' = ns @ [\<lparr>node_id = length ns, node_p = pt, node_edges = []\<rparr>]"
    by blast
  then show ?thesis
  proof cases
    case 1
    with assms(1) show ?thesis by simp
  next
    case 2
    from assms(1) have
      a: "\<And>i k. i < length ns \<Longrightarrow> k \<in> set (node_edges (ns ! i)) \<Longrightarrow>
            k < length es \<and> (edge_a (es ! k) = i \<or> edge_b (es ! k) = i)"
      and b: "\<And>k. k < length es \<Longrightarrow> edge_a (es ! k) < length ns \<and> edge_b (es ! k) < length ns
            \<and> k \<in> set (node_edges (ns ! edge_a (es ! k)))
            \<and> k \<in> set (node_edges (ns ! edge_b (es ! k)))"
      and c: "\<And>k. k < length es \<Longrightarrow> edge_a (es ! k) \<noteq> edge_b (es ! k)"
      and d: "\<And>k l. k < length es \<Longrightarrow> l < length es \<Longrightarrow> k \<noteq> l \<Longrightarrow>
            \<not> joins (es ! l) (edge_a (es ! k)) (edge_b (es ! k))"
      by (auto simp: wf_build_def)
    show ?thesis
      unfolding wf_build_def fst_conv snd_conv 2
    proof (intro conjI allI impI ballI)
      fix i k
      assume "i < length (ns @ [\<lparr>node_id = length ns, node_p = pt, node_edges = []\<rparr>])"
        "k \<in> set (node_edges ((ns @ [\<lparr>node_id = length ns, node_p = pt, node_edges = []\<rparr>]) ! i))"
      then show "k < length es" "edge_a (es ! k) = i \<or> edge_b (es ! k) = i"
        using a[of i k] by (auto simp: nth_append split: if_splits)
    next
      fix k assume k: "k < length es"
      with b[OF k] show
        "edge_a (es ! k) < length (ns @ [\<lparr>node_id = length ns, node_p = pt, node_edges = []\<rparr>])"
        "edge_b (es ! k) < length (ns @ [\<lparr>node_id = length ns, node_p = pt, node_edges = []\<rparr>])"
        "k \<in> set (node_edges ((ns @ [\<lparr>node_id = length ns, node_p = pt, node_edges = []\<rparr>])
            ! edge_a (es ! k)))"
        "k \<in> set (node_edges ((ns @ [\<lparr>node_id = length ns, node_p = pt, node_edges = []\<rparr>])
            ! edge_b (es ! k)))"
        by (auto simp: nth_append)
      show "edge_a (es ! k) \<noteq> edge_b (es ! k)" using c[OF k] .
    next
      fix k l assume "k < length es" "l < length es" "k \<noteq> l"
      then show "\<not> joins (es ! l) (edge_a (es ! k)) (edge_b (es ! k))" using d by blast
    qed
  qed
qed

lemma length_pushEdge [simp]: "length (pushEdge n k ns) = length ns"
  by (simp add: pushEdge_def)

lemma node_edges_pushEdge:
  "i < length ns \<Longrightarrow>
   node_edges (pushEdge n k ns ! i) = node_edges (ns ! i) @ (if i = n then [k] else [])"
  by (simp add: pushEdge_def nth_list_update)

lemma node_p_pushEdge [simp]: "map node_p (pushEdge n k ns) = map node_p ns"
proof (cases "n < length ns")
  case True
  then have "(map node_p ns)[n := node_p (ns ! n)] = map node_p ns"
    by (metis list_update_id nth_map)
  then show ?thesis by (simp add: pushEdge_def map_update)
next
  case False
  then show ?thesis by (simp add: pushEdge_def list_update_beyond)
qed

lemma wf_build_add_edge:
  assumes wf: "wf_build (ns, es)"
    and n: "n0 < length ns" "n1 < length ns" "n0 \<noteq> n1"
    and ne: "\<not> edgeExists es (node_edges (ns ! n0)) n0 n1"
    and e: "edge_a e = n0" "edge_b e = n1"
  shows "wf_build (pushEdge n1 (length es) (pushEdge n0 (length es) ns), es @ [e])"
proof -
  from wf have
    a: "\<And>i k. i < length ns \<Longrightarrow> k \<in> set (node_edges (ns ! i)) \<Longrightarrow>
          k < length es \<and> (edge_a (es ! k) = i \<or> edge_b (es ! k) = i)"
    and b: "\<And>k. k < length es \<Longrightarrow> edge_a (es ! k) < length ns \<and> edge_b (es ! k) < length ns
          \<and> k \<in> set (node_edges (ns ! edge_a (es ! k)))
          \<and> k \<in> set (node_edges (ns ! edge_b (es ! k)))"
    and c: "\<And>k. k < length es \<Longrightarrow> edge_a (es ! k) \<noteq> edge_b (es ! k)"
    and d: "\<And>k l. k < length es \<Longrightarrow> l < length es \<Longrightarrow> k \<noteq> l \<Longrightarrow>
          \<not> joins (es ! l) (edge_a (es ! k)) (edge_b (es ! k))"
    by (auto simp: wf_build_def)
  define ns' where "ns' = pushEdge n1 (length es) (pushEdge n0 (length es) ns)"
  have len: "length ns' = length ns" by (simp add: ns'_def)
  have ed: "\<And>i. i < length ns \<Longrightarrow> node_edges (ns' ! i) =
      node_edges (ns ! i) @ (if i = n0 then [length es] else [])
        @ (if i = n1 then [length es] else [])"
    by (simp add: ns'_def node_edges_pushEdge)
  have fresh: "\<And>l. l < length es \<Longrightarrow> \<not> joins (es ! l) n0 n1"
  proof
    fix l assume l: "l < length es" and j: "joins (es ! l) n0 n1"
    from j have "edge_a (es ! l) = n0 \<or> edge_b (es ! l) = n0" by (auto simp: joins_def)
    with b[OF l] have "l \<in> set (node_edges (ns ! n0))" by auto
    with j have "edgeExists es (node_edges (ns ! n0)) n0 n1"
      unfolding edgeExists_iff by blast
    with ne show False by simp
  qed
  have "wf_build (ns', es @ [e])"
    unfolding wf_build_def fst_conv snd_conv
  proof (intro conjI allI impI ballI)
    fix i k assume i: "i < length ns'" and k: "k \<in> set (node_edges (ns' ! i))"
    from i len have i': "i < length ns" by simp
    from k ed[OF i'] consider "k \<in> set (node_edges (ns ! i))"
      | "k = length es" "i = n0 \<or> i = n1"
      by (auto split: if_splits)
    then show "k < length (es @ [e])"
      using a[OF i', of k] by cases auto
    from k ed[OF i'] consider "k \<in> set (node_edges (ns ! i))"
      | "k = length es" "i = n0 \<or> i = n1"
      by (auto split: if_splits)
    then show "edge_a ((es @ [e]) ! k) = i \<or> edge_b ((es @ [e]) ! k) = i"
      using a[OF i', of k] e by cases (auto simp: nth_append)
  next
    fix k assume k: "k < length (es @ [e])"
    show "edge_a ((es @ [e]) ! k) < length ns'" "edge_b ((es @ [e]) ! k) < length ns'"
      using k b[of k] n e len by (auto simp: nth_append)
    show "k \<in> set (node_edges (ns' ! edge_a ((es @ [e]) ! k)))"
    proof (cases "k < length es")
      case True
      with b[OF True] ed[of "edge_a (es ! k)"] show ?thesis by (simp add: nth_append)
    next
      case False
      with k have "k = length es" by simp
      with e n ed[of n0] show ?thesis by simp
    qed
    show "k \<in> set (node_edges (ns' ! edge_b ((es @ [e]) ! k)))"
    proof (cases "k < length es")
      case True
      with b[OF True] ed[of "edge_b (es ! k)"] show ?thesis by (simp add: nth_append)
    next
      case False
      with k have "k = length es" by simp
      with e n ed[of n1] show ?thesis by simp
    qed
    show "edge_a ((es @ [e]) ! k) \<noteq> edge_b ((es @ [e]) ! k)"
      using k c[of k] e n by (auto simp: nth_append)
  next
    fix k l assume k: "k < length (es @ [e])" and l: "l < length (es @ [e])" and kl: "k \<noteq> l"
    show "\<not> joins ((es @ [e]) ! l) (edge_a ((es @ [e]) ! k)) (edge_b ((es @ [e]) ! k))"
    proof (cases "k < length es")
      case kT: True
      show ?thesis
      proof (cases "l < length es")
        case True
        with kT kl d[of k l] show ?thesis by (simp add: nth_append)
      next
        case False
        with l have "l = length es" by simp
        moreover have "\<not> joins e (edge_a (es ! k)) (edge_b (es ! k))"
          using fresh[OF kT] e by (auto simp: joins_def)
        ultimately show ?thesis using kT by (simp add: nth_append)
      qed
    next
      case False
      with k have keq: "k = length es" by simp
      with kl l have lT: "l < length es" by simp
      from fresh[OF lT] keq lT e show ?thesis by (simp add: nth_append)
    qed
  qed
  then show ?thesis by (simp add: ns'_def)
qed

lemma wf_build_addSegment:
  assumes "wf_build st"
  shows "wf_build (addSegment p0 p1 st)"
proof -
  obtain ns es where st: "st = (ns, es)" by (cases st)
  obtain ns1 n0 where f1: "findOrCreateNode ns p0 = (ns1, n0)" by (cases "findOrCreateNode ns p0")
  obtain ns2 n1 where f2: "findOrCreateNode ns1 p1 = (ns2, n1)"
    by (cases "findOrCreateNode ns1 p1")
  have w1: "wf_build (ns1, es)" using wf_build_findOrCreateNode[OF _ f1] assms st by simp
  have w2: "wf_build (ns2, es)" using wf_build_findOrCreateNode[OF w1 f2] .
  have l0: "n0 < length ns2"
    using findOrCreateNode_props(1)[OF f1] findOrCreateNode_props(4)[OF f2] by simp
  have l1: "n1 < length ns2" using findOrCreateNode_props(1)[OF f2] .
  show ?thesis
    unfolding st addSegment_def fst_conv snd_conv f1 f2 Let_def prod.case
    using w2 wf_build_add_edge[OF w2 l0 l1] by simp
qed

lemma wf_build_addPoints: "wf_build st \<Longrightarrow> wf_build (addPoints ps st)"
  by (induction ps st rule: addPoints.induct) (simp_all add: wf_build_addSegment)

lemma wf_build_addCurves: "wf_build st \<Longrightarrow> wf_build (addCurves cs st)"
  by (induction cs arbitrary: st) (simp_all add: wf_build_addPoints)

subsection \<open>Building the three roads\<close>

lemma distV_on_axis: "distV (V3 a 0 0) (V3 b 0 0) = \<bar>a - b\<bar>"
  by (simp add: distV_def)

lemma spaced_roadA:
  "spacedPointsFromCurve roadA =
     [V3 (- 36) 0 0, V3 (- 32) 0 0, V3 (- 28) 0 0, V3 (- 24) 0 0, V3 (- 20) 0 0,
      V3 (- 16) 0 0, V3 (- 12) 0 0, V3 (- 8) 0 0, V3 (- 4) 0 0, V3 0 0 0,
      V3 4 0 0]"
  by (simp add: spacedPointsFromCurve_def roadA_def straightCurve_def distV_on_axis
      ROAD_SAMPLE_DENSITY_def Let_def upt_rec lerp_def)

lemma addPoints_roadA:
  "addPoints (spacedPointsFromCurve roadA) ([], []) = afterRoadA"
  by (simp add: spaced_roadA afterRoadA_def addSegment_def findOrCreateNode_def pushEdge_def
      distV_on_axis MERGE_EPS_def)

lemma spaced_roadD:
  "spacedPointsFromCurve roadD =
     [V3 (1 / 2) 0 0, V3 (15 / 2) 0 0, V3 (29 / 2) 0 0, V3 (43 / 2) 0 0,
      V3 (57 / 2) 0 0, V3 (71 / 2) 0 0, V3 (85 / 2) 0 0, V3 (99 / 2) 0 0,
      V3 (113 / 2) 0 0, V3 (127 / 2) 0 0, V3 (141 / 2) 0 0]"
  by (simp add: spacedPointsFromCurve_def roadD_def straightCurve_def distV_on_axis
      ROAD_SAMPLE_DENSITY_def Let_def upt_rec lerp_def)

lemma addPoints_roadD:
  "addPoints (spacedPointsFromCurve roadD) afterRoadA = afterRoadD"
  by (simp add: spaced_roadD afterRoadA_def afterRoadD_def addSegment_def findOrCreateNode_def pushEdge_def
      distV_on_axis MERGE_EPS_def)

lemma spaced_roadB:
  "spacedPointsFromCurve roadB =
     [V3 5 0 0, V3 7 0 0, V3 9 0 0, V3 11 0 0, V3 13 0 0, V3 15 0 0, V3 17 0 0,
      V3 19 0 0, V3 21 0 0, V3 23 0 0, V3 25 0 0]"
  by (simp add: spacedPointsFromCurve_def roadB_def straightCurve_def distV_on_axis
      ROAD_SAMPLE_DENSITY_def Let_def upt_rec lerp_def)

lemma addPoints_roadB:
  "addPoints (spacedPointsFromCurve roadB) afterRoadD = afterRoadB"
  by (simp add: spaced_roadB afterRoadD_def afterRoadB_def addSegment_def findOrCreateNode_def pushEdge_def
      distV_on_axis MERGE_EPS_def)

lemma approximateEdgeShade_noShade: "approximateEdgeShade noShade poly = 0"
  by (simp add: approximateEdgeShade_def shadeSample_def noShade_def Let_def)

lemma build_threeRoads:
  "buildRoadGraphFromCurves [roadA, roadD, roadB] noShade = threeRoads"
proof -
  have "addCurves [roadA, roadD, roadB] ([], []) = afterRoadB"
    by (simp add: addPoints_roadA addPoints_roadD addPoints_roadB)
  moreover have "map (\<lambda>e. e\<lparr>edge_shadeScore := 0\<rparr>) (snd afterRoadB) = snd afterRoadB"
    by (simp add: afterRoadB_def)
  ultimately show ?thesis
    by (simp add: buildRoadGraphFromCurves_def approximateEdgeShade_noShade threeRoads_def
        case_prod_beta)
qed

subsection \<open>No loops, no duplicate edges\<close>

text \<open>
  C3. In every graph the builder produces, no edge has the same node at both ends, and no
  two distinct edges join the same unordered pair of nodes.
\<close>

theorem built_graph_simple:
  "(\<forall>e \<in> set (g_edges (buildRoadGraphFromCurves curves cast)). edge_a e \<noteq> edge_b e)
   \<and> (\<forall>k < length (g_edges (buildRoadGraphFromCurves curves cast)).
       \<forall>l < length (g_edges (buildRoadGraphFromCurves curves cast)).
         k \<noteq> l \<longrightarrow>
           {edge_a (g_edges (buildRoadGraphFromCurves curves cast) ! k),
            edge_b (g_edges (buildRoadGraphFromCurves curves cast) ! k)}
           \<noteq> {edge_a (g_edges (buildRoadGraphFromCurves curves cast) ! l),
               edge_b (g_edges (buildRoadGraphFromCurves curves cast) ! l)})"
proof -
  obtain ns es where st: "addCurves curves ([], []) = (ns, es)"
    by (cases "addCurves curves ([], [])")
  define es' where
    "es' = map (\<lambda>e. e\<lparr>edge_shadeScore := approximateEdgeShade cast (edge_poly e)\<rparr>) es"
  have g: "g_edges (buildRoadGraphFromCurves curves cast) = es'"
    by (simp add: buildRoadGraphFromCurves_def st es'_def)
  have wf: "wf_build (ns, es)"
    using wf_build_addCurves[OF wf_build_empty, of curves] st by simp
  have len: "length es' = length es" by (simp add: es'_def)
  have ab: "\<And>k. k < length es \<Longrightarrow> edge_a (es' ! k) = edge_a (es ! k)
      \<and> edge_b (es' ! k) = edge_b (es ! k)"
    by (simp add: es'_def)
  from wf have c: "\<And>k. k < length es \<Longrightarrow> edge_a (es ! k) \<noteq> edge_b (es ! k)"
    and d: "\<And>k l. k < length es \<Longrightarrow> l < length es \<Longrightarrow> k \<noteq> l \<Longrightarrow>
          \<not> joins (es ! l) (edge_a (es ! k)) (edge_b (es ! k))"
    by (auto simp: wf_build_def)
  have 1: "\<forall>e \<in> set es'. edge_a e \<noteq> edge_b e"
  proof
    fix e assume "e \<in> set es'"
    then obtain k where "k < length es'" "e = es' ! k" by (auto simp: in_set_conv_nth)
    with c[of k] ab[of k] len show "edge_a e \<noteq> edge_b e" by simp
  qed
  have 2: "\<forall>k < length es'. \<forall>l < length es'. k \<noteq> l \<longrightarrow>
      {edge_a (es' ! k), edge_b (es' ! k)} \<noteq> {edge_a (es' ! l), edge_b (es' ! l)}"
  proof (intro allI impI)
    fix k l assume kl: "k < length es'" "l < length es'" "k \<noteq> l"
    with d[of k l] len have "\<not> joins (es ! l) (edge_a (es ! k)) (edge_b (es ! k))" by simp
    then show "{edge_a (es' ! k), edge_b (es' ! k)} \<noteq> {edge_a (es' ! l), edge_b (es' ! l)}"
      using ab[of k] ab[of l] kl len by (auto simp: joins_def doubleton_eq_iff)
  qed
  from 1 2 show ?thesis unfolding g by blast
qed

lemma threeRoads_edges:
  "length (g_edges threeRoads) = 30"
  "edge_a (g_edges threeRoads ! 9) = 9" "edge_b (g_edges threeRoads ! 9) = 10"
  "edge_a (g_edges threeRoads ! 10) = 9" "edge_b (g_edges threeRoads ! 10) = 11"
  "edge_a (g_edges threeRoads ! 20) = 10" "edge_b (g_edges threeRoads ! 20) = 11"
  by (simp_all add: threeRoads_def afterRoadB_def)

theorem built_graph_simple_witness:
  "g_edges (buildRoadGraphFromCurves [roadA, roadD, roadB] noShade) ! 9
     \<in> set (g_edges (buildRoadGraphFromCurves [roadA, roadD, roadB] noShade))
   \<and> edge_a (g_edges (buildRoadGraphFromCurves [roadA, roadD, roadB] noShade) ! 9)
     \<noteq> edge_b (g_edges (buildRoadGraphFromCurves [roadA, roadD, roadB] noShade) ! 9)
   \<and> 9 < length (g_edges (buildRoadGraphFromCurves [roadA, roadD, roadB] noShade))
   \<and> 10 < length (g_edges (buildRoadGraphFromCurves [roadA, roadD, roadB] noShade))
   \<and> {edge_a (g_edges (buildRoadGraphFromCurves [roadA, roadD, roadB] noShade) ! 9),
       edge_b (g_edges (buildRoadGraphFromCurves [roadA, roadD, roadB] noShade) ! 9)}
      \<noteq> {edge_a (g_edges (buildRoadGraphFromCurves [roadA, roadD, roadB] noShade) ! 10),
          edge_b (g_edges (buildRoadGraphFromCurves [roadA, roadD, roadB] noShade) ! 10)}"
proof -
  let ?es = "g_edges (buildRoadGraphFromCurves [roadA, roadD, roadB] noShade)"
  have l: "9 < length ?es" "10 < length ?es" "(9::nat) \<noteq> 10"
    by (simp_all add: build_threeRoads threeRoads_edges)
  then have m: "?es ! 9 \<in> set ?es" by simp
  note t = built_graph_simple[of "[roadA, roadD, roadB]" noShade]
  from t m have "edge_a (?es ! 9) \<noteq> edge_b (?es ! 9)" by blast
  moreover from t l have "{edge_a (?es ! 9), edge_b (?es ! 9)}
      \<noteq> {edge_a (?es ! 10), edge_b (?es ! 10)}" by blast
  ultimately show ?thesis using l m by blast
qed

subsection \<open>Merging sample points into nodes\<close>

lemma findOrCreateNode_prefix:
  "findOrCreateNode ns pt = (ns', j) \<Longrightarrow> prefix ns ns'"
  by (auto simp: findOrCreateNode_def split: option.splits)

lemma findOrCreateNode_idem:
  assumes "findOrCreateNode ns pt = (ns', j)"
  shows "findOrCreateNode ns' pt = (ns', j)"
proof (cases "findNode ns 0 pt")
  case None
  with assms have e: "ns' = ns @ [\<lparr>node_id = length ns, node_p = pt, node_edges = []\<rparr>]"
    "j = length ns" by (auto simp: findOrCreateNode_def)
  have "findNode ns' 0 pt = Some (length ns)"
    by (simp add: e findNode_append None distV_self MERGE_EPS_def)
  then show ?thesis by (simp add: findOrCreateNode_def e)
next
  case (Some i)
  with assms show ?thesis by (auto simp: findOrCreateNode_def)
qed

lemma prefix_nth_positions:
  "prefix (map node_p ns) (map node_p ms) \<Longrightarrow> i < length ns \<Longrightarrow>
     node_p (ms ! i) = node_p (ns ! i) \<and> i < length ms"
proof -
  assume p: "prefix (map node_p ns) (map node_p ms)" and i: "i < length ns"
  from p have l: "length ns \<le> length ms" by (metis length_map prefix_length_le)
  from p i have "map node_p ms ! i = map node_p ns ! i"
    by (metis length_map nth_append prefix_def)
  with i l show ?thesis by simp
qed

lemma findNode_first:
  assumes "findNode ns 0 pt = Some j" "k < length ns" "distV (node_p (ns ! k)) pt \<le> MERGE_EPS"
  shows "j \<le> k"
  using findNode_Some[OF assms(1)] assms(2,3) by (metis diff_zero not_le_imp_less)

lemma findNode_exists:
  assumes "k < length ns" "distV (node_p (ns ! k)) pt \<le> MERGE_EPS"
  shows "\<exists>j. findNode ns 0 pt = Some j"
  using assms findNode_None[of ns 0 pt] by (cases "findNode ns 0 pt") auto

text \<open>
  C5 as stated fails in both halves, because a point takes the first node in creation
  order that is within the merge distance. With nodes created at 0 and at 1.5 on a line,
  the point 1 is half a unit from 1.5 and yet resolves to the node at 0; the points 1 and
  -1 are two units apart and both resolve to the node at 0.
\<close>

theorem merge_counterexample:
  "findOrCreateNode [] (V3 0 0 0)
     = ([\<lparr>node_id = 0, node_p = V3 0 0 0, node_edges = []\<rparr>], 0)
   \<and> findOrCreateNode [\<lparr>node_id = 0, node_p = V3 0 0 0, node_edges = []\<rparr>] (V3 1.5 0 0)
     = ([\<lparr>node_id = 0, node_p = V3 0 0 0, node_edges = []\<rparr>,
         \<lparr>node_id = 1, node_p = V3 1.5 0 0, node_edges = []\<rparr>], 1)
   \<and> findOrCreateNode [\<lparr>node_id = 0, node_p = V3 0 0 0, node_edges = []\<rparr>,
         \<lparr>node_id = 1, node_p = V3 1.5 0 0, node_edges = []\<rparr>] (V3 1 0 0)
     = ([\<lparr>node_id = 0, node_p = V3 0 0 0, node_edges = []\<rparr>,
         \<lparr>node_id = 1, node_p = V3 1.5 0 0, node_edges = []\<rparr>], 0)
   \<and> distV (V3 1.5 0 0) (V3 1 0 0) \<le> MERGE_EPS
   \<and> findOrCreateNode [\<lparr>node_id = 0, node_p = V3 0 0 0, node_edges = []\<rparr>,
         \<lparr>node_id = 1, node_p = V3 1.5 0 0, node_edges = []\<rparr>] (V3 (- 1) 0 0)
     = ([\<lparr>node_id = 0, node_p = V3 0 0 0, node_edges = []\<rparr>,
         \<lparr>node_id = 1, node_p = V3 1.5 0 0, node_edges = []\<rparr>], 0)
   \<and> distV (V3 1 0 0) (V3 (- 1) 0 0) > MERGE_EPS"
  by (simp add: findOrCreateNode_def distV_on_axis MERGE_EPS_def)

text \<open>
  C5, amended. A sample point resolves to the first node in creation order whose position
  is within the merge distance of it, and then no node is created; when there is none, it
  resolves to a new node at the point itself, appended to the node array. So the point is
  within the merge distance of its node. When the node array has only grown in between,
  two points that resolve to the same node are at most twice the merge distance apart,
  and a point within the merge distance of the position of a node that an earlier point
  resolved to resolves to that node or to one created before it, without creating a node.
\<close>

theorem merge_resolution:
  assumes "findOrCreateNode ns p = (ns1, i)"
      and "prefix (map node_p ns1) (map node_p ns2)"
      and "findOrCreateNode ns2 q = (ns3, j)"
  shows "((\<exists>k < length ns. distV (node_p (ns ! k)) p \<le> MERGE_EPS) \<longrightarrow>
            ns1 = ns \<and> i < length ns \<and> distV (node_p (ns ! i)) p \<le> MERGE_EPS
            \<and> (\<forall>k < i. \<not> distV (node_p (ns ! k)) p \<le> MERGE_EPS))
         \<and> ((\<forall>k < length ns. \<not> distV (node_p (ns ! k)) p \<le> MERGE_EPS) \<longrightarrow>
            ns1 = ns @ [\<lparr>node_id = length ns, node_p = p, node_edges = []\<rparr>]
            \<and> i = length ns)
         \<and> distV (node_p (ns1 ! i)) p \<le> MERGE_EPS
         \<and> (i = j \<longrightarrow> distV p q \<le> 2 * MERGE_EPS)
         \<and> (distV (node_p (ns1 ! i)) q \<le> MERGE_EPS \<longrightarrow> j \<le> i \<and> ns3 = ns2)"
proof (intro conjI impI)
  note pi = findOrCreateNode_props[OF assms(1)]
  note pj = findOrCreateNode_props[OF assms(3)]
  from prefix_nth_positions[OF assms(2) pi(1)]
  have i2: "node_p (ns2 ! i) = node_p (ns1 ! i)" "i < length ns2" by simp_all
  show near: "distV (node_p (ns1 ! i)) p \<le> MERGE_EPS" using pi(2) .
  {
    assume "\<exists>k < length ns. distV (node_p (ns ! k)) p \<le> MERGE_EPS"
    then obtain k where k: "k < length ns" "distV (node_p (ns ! k)) p \<le> MERGE_EPS" by blast
    from findNode_exists[OF k] obtain i' where f: "findNode ns 0 p = Some i'" by blast
    with assms(1) have e: "i = i'" "ns1 = ns" by (auto simp: findOrCreateNode_def)
    from e show "ns1 = ns" by simp
    from findNode_Some[OF f] e show "i < length ns"
      "distV (node_p (ns ! i)) p \<le> MERGE_EPS"
      "\<forall>k < i. \<not> distV (node_p (ns ! k)) p \<le> MERGE_EPS" by simp_all
  }
  {
    assume none: "\<forall>k < length ns. \<not> distV (node_p (ns ! k)) p \<le> MERGE_EPS"
    then have "\<forall>n \<in> set ns. \<not> distV (node_p n) p \<le> MERGE_EPS"
      by (auto simp: in_set_conv_nth)
    then have "findNode ns 0 p = None" by (simp add: findNode_None_iff)
    with assms(1) show "ns1 = ns @ [\<lparr>node_id = length ns, node_p = p, node_edges = []\<rparr>]"
      "i = length ns" by (auto simp: findOrCreateNode_def)
  }
  {
    assume ij: "i = j"
    have "prefix (map node_p ns2) (map node_p ns3)"
      using findOrCreateNode_prefix[OF assms(3)] by (simp add: map_mono_prefix)
    from prefix_nth_positions[OF this i2(2)] i2(1)
    have "node_p (ns3 ! i) = node_p (ns1 ! i)" by simp
    with pj(2) ij have "distV (node_p (ns1 ! i)) q \<le> MERGE_EPS" by simp
    moreover have "distV p q \<le> distV p (node_p (ns1 ! i)) + distV (node_p (ns1 ! i)) q"
      by (rule distV_triangle)
    ultimately show "distV p q \<le> 2 * MERGE_EPS"
      using near by (simp add: distV_commute[of p])
  }
  {
    assume nq: "distV (node_p (ns1 ! i)) q \<le> MERGE_EPS"
    then have nq2: "distV (node_p (ns2 ! i)) q \<le> MERGE_EPS" using i2(1) by simp
    from findNode_exists[OF i2(2) nq2] obtain j' where f: "findNode ns2 0 q = Some j'" by blast
    with assms(3) have e: "j = j'" "ns3 = ns2" by (auto simp: findOrCreateNode_def)
    from findNode_first[OF f i2(2) nq2] e show "j \<le> i" by simp
    from e show "ns3 = ns2" by simp
  }
qed

theorem merge_resolution_witness:
  "findOrCreateNode [\<lparr>node_id = 0, node_p = V3 0 0 0, node_edges = []\<rparr>] (V3 1.5 0 0)
     = ([\<lparr>node_id = 0, node_p = V3 0 0 0, node_edges = []\<rparr>,
         \<lparr>node_id = 1, node_p = V3 1.5 0 0, node_edges = []\<rparr>], 1)
   \<and> \<not> distV (V3 0 0 0) (V3 1.5 0 0) \<le> MERGE_EPS
   \<and> findOrCreateNode [\<lparr>node_id = 0, node_p = V3 0 0 0, node_edges = []\<rparr>,
         \<lparr>node_id = 1, node_p = V3 1.5 0 0, node_edges = [7]\<rparr>] (V3 2.5 0 0)
     = ([\<lparr>node_id = 0, node_p = V3 0 0 0, node_edges = []\<rparr>,
         \<lparr>node_id = 1, node_p = V3 1.5 0 0, node_edges = [7]\<rparr>], 1)
   \<and> \<not> distV (V3 0 0 0) (V3 2.5 0 0) \<le> MERGE_EPS
   \<and> distV (V3 1.5 0 0) (V3 1.5 0 0) \<le> MERGE_EPS
   \<and> distV (V3 1.5 0 0) (V3 2.5 0 0) \<le> 2 * MERGE_EPS
   \<and> distV (V3 1.5 0 0) (V3 2.5 0 0) \<le> MERGE_EPS"
proof -
  let ?n0 = "\<lparr>node_id = 0, node_p = V3 0 0 0, node_edges = []\<rparr>"
  let ?n1 = "\<lparr>node_id = 1, node_p = V3 1.5 0 0, node_edges = []\<rparr>"
  let ?n1' = "\<lparr>node_id = 1, node_p = V3 1.5 0 0, node_edges = [7]\<rparr>"
  obtain ns1 i where a: "findOrCreateNode [?n0] (V3 1.5 0 0) = (ns1, i)"
    by (cases "findOrCreateNode [?n0] (V3 1.5 0 0)")
  obtain ns3 j where c: "findOrCreateNode [?n0, ?n1'] (V3 2.5 0 0) = (ns3, j)"
    by (cases "findOrCreateNode [?n0, ?n1'] (V3 2.5 0 0)")
  obtain ns5 l where e: "findOrCreateNode ns3 (V3 2.5 0 0) = (ns5, l)"
    by (cases "findOrCreateNode ns3 (V3 2.5 0 0)")
  have far: "\<not> distV (V3 0 0 0) (V3 1.5 0 0) \<le> MERGE_EPS"
    "\<not> distV (V3 0 0 0) (V3 2.5 0 0) \<le> MERGE_EPS"
    and d: "distV (V3 1.5 0 0) (V3 2.5 0 0) \<le> MERGE_EPS"
    by (simp_all add: distV_on_axis MERGE_EPS_def)
  have none: "\<forall>k < length [?n0]. \<not> distV (node_p ([?n0] ! k)) (V3 1.5 0 0) \<le> MERGE_EPS"
    using far(1) by simp
  have some: "\<exists>k < length [?n0, ?n1']. distV (node_p ([?n0, ?n1'] ! k)) (V3 2.5 0 0) \<le> MERGE_EPS"
    using d by (intro exI[of _ 1]) simp
  have pre: "prefix (map node_p ns3) (map node_p ns3)" by simp
  text \<open>The first point finds no node near it and gets a new one, at the point.\<close>
  obtain ns1' i' where a2: "findOrCreateNode ns1 (V3 1.5 0 0) = (ns1', i')"
    by (cases "findOrCreateNode ns1 (V3 1.5 0 0)")
  have pre1: "prefix (map node_p ns1) (map node_p ns1)" by simp
  have a': "ns1 = [?n0, ?n1]" "i = 1"
    using merge_resolution[OF a pre1 a2] none by simp_all
  text \<open>The second point takes the first node near it; no node is created.\<close>
  have c': "ns3 = [?n0, ?n1']" "j = 1"
  proof -
    from merge_resolution[OF c pre e] some
    have s: "ns3 = [?n0, ?n1']" "j < length [?n0, ?n1']"
      "\<forall>k < j. \<not> distV (node_p ([?n0, ?n1'] ! k)) (V3 2.5 0 0) \<le> MERGE_EPS"
      "distV (node_p ([?n0, ?n1'] ! j)) (V3 2.5 0 0) \<le> MERGE_EPS"
      by blast+
    show "ns3 = [?n0, ?n1']" by (rule s(1))
    from s(2) have "j = 0 \<or> j = 1" by auto
    with s(4) far(2) show "j = 1" by auto
  qed
  have b: "prefix (map node_p ns1) (map node_p [?n0, ?n1'])" by (simp add: a')
  from merge_resolution[OF a b c] a' c' have
    "distV (V3 1.5 0 0) (V3 1.5 0 0) \<le> MERGE_EPS"
    "distV (V3 1.5 0 0) (V3 2.5 0 0) \<le> 2 * MERGE_EPS"
    by simp_all
  with a c a' c' d far show ?thesis by simp
qed

subsection \<open>Edges from a curve\<close>

lemma spaced_shortCurve:
  "spacedPointsFromCurve shortCurve =
     [V3 0 0 0, V3 0.05 0 0, V3 0.1 0 0, V3 0.15 0 0, V3 0.2 0 0, V3 0.25 0 0,
      V3 0.3 0 0, V3 0.35 0 0, V3 0.4 0 0, V3 0.45 0 0, V3 0.5 0 0]"
  by (simp add: spacedPointsFromCurve_def shortCurve_def straightCurve_def distV_on_axis
      ROAD_SAMPLE_DENSITY_def Let_def upt_rec lerp_def)

lemma addPoints_shortCurve:
  "addPoints (spacedPointsFromCurve shortCurve) ([], [])
     = ([\<lparr>node_id = 0, node_p = V3 0 0 0, node_edges = []\<rparr>], [])"
  by (simp add: spaced_shortCurve addSegment_def findOrCreateNode_def distV_on_axis
      MERGE_EPS_def)

text \<open>
  C6 as stated fails for a short road: the eleven sample points of a straight road half a
  unit long all merge into one node, and no edge is made.
\<close>

theorem short_curve_counterexample:
  "length (curve_points shortCurve) \<ge> 2
   \<and> length (spacedPointsFromCurve shortCurve) = 11
   \<and> g_edges (buildRoadGraphFromCurves [shortCurve] noShade) = []"
proof (intro conjI)
  show "length (curve_points shortCurve) \<ge> 2"
    by (simp add: shortCurve_def straightCurve_def)
  show "length (spacedPointsFromCurve shortCurve) = 11"
    by (simp add: spaced_shortCurve)
  show "g_edges (buildRoadGraphFromCurves [shortCurve] noShade) = []"
    by (simp add: buildRoadGraphFromCurves_def addPoints_shortCurve)
qed

lemma length_edges_addSegment: "length (snd st) \<le> length (snd (addSegment p0 p1 st))"
proof -
  obtain ns1 n0 where f1: "findOrCreateNode (fst st) p0 = (ns1, n0)"
    by (cases "findOrCreateNode (fst st) p0")
  obtain ns2 n1 where f2: "findOrCreateNode ns1 p1 = (ns2, n1)"
    by (cases "findOrCreateNode ns1 p1")
  show ?thesis by (simp add: addSegment_def f1 f2 Let_def)
qed

lemma length_edges_addPoints: "length (snd st) \<le> length (snd (addPoints ps st))"
proof (induction ps st rule: addPoints.induct)
  case (1 p0 p1 ps st)
  have "length (snd st) \<le> length (snd (addSegment p0 p1 st))"
    by (rule length_edges_addSegment)
  also have "\<dots> \<le> length (snd (addPoints (p1 # ps) (addSegment p0 p1 st)))"
    by (rule 1)
  finally show ?case by simp
qed simp_all

lemma length_edges_addCurves: "length (snd st) \<le> length (snd (addCurves cs st))"
proof (induction cs arbitrary: st)
  case (Cons c cs)
  have "length (snd st) \<le> length (snd (addPoints (spacedPointsFromCurve c) st))"
    by (rule length_edges_addPoints)
  also have "\<dots> \<le> length (snd (addCurves cs (addPoints (spacedPointsFromCurve c) st)))"
    by (rule Cons.IH)
  finally show ?case by simp
qed simp

lemma addSegment_prefix:
  "prefix (map node_p (fst st)) (map node_p (fst (addSegment p0 p1 st)))"
proof -
  obtain ns1 n0 where f1: "findOrCreateNode (fst st) p0 = (ns1, n0)"
    by (cases "findOrCreateNode (fst st) p0")
  obtain ns2 n1 where f2: "findOrCreateNode ns1 p1 = (ns2, n1)"
    by (cases "findOrCreateNode ns1 p1")
  have "prefix (fst st) ns2"
    using findOrCreateNode_prefix[OF f1] findOrCreateNode_prefix[OF f2] by (rule prefix_order.trans)
  then have "prefix (map node_p (fst st)) (map node_p ns2)" by (rule map_mono_prefix)
  then show ?thesis by (simp add: addSegment_def f1 f2 Let_def)
qed

lemma addPoints_prefix: "prefix (map node_p (fst st)) (map node_p (fst (addPoints ps st)))"
proof (induction ps st rule: addPoints.induct)
  case (1 p0 p1 ps st)
  have "prefix (map node_p (fst st)) (map node_p (fst (addSegment p0 p1 st)))"
    by (rule addSegment_prefix)
  also have "prefix \<dots> (map node_p (fst (addPoints (p1 # ps) (addSegment p0 p1 st))))"
    by (rule 1)
  finally show ?case by simp
qed simp_all

text \<open>
  In an edgeless graph, a run of points that adds no edge stays at the node of its
  first point.
\<close>

lemma addPoints_no_edge:
  assumes "wf_build (ns, [])" "findOrCreateNode ns p0 = (ns, n)"
    "snd (addPoints (p0 # ps) (ns, [])) = []"
  shows "\<forall>p \<in> set (p0 # ps). distV (node_p (ns ! n)) p \<le> MERGE_EPS"
  using assms
proof (induction ps arbitrary: p0)
  case Nil
  then show ?case using findOrCreateNode_props(2)[of ns p0 ns n] by simp
next
  case (Cons p1 ps)
  obtain ns2 n1 where f2: "findOrCreateNode ns p1 = (ns2, n1)"
    by (cases "findOrCreateNode ns p1")
  have l0: "n < length ns" using findOrCreateNode_props(1)[OF Cons.prems(2)] .
  have w2: "wf_build (ns2, [])" using wf_build_findOrCreateNode[OF Cons.prems(1) f2] .
  have l0': "n < length ns2" using l0 findOrCreateNode_props(4)[OF f2] by simp
  from w2 l0' have "node_edges (ns2 ! n) = []"
    by (cases "node_edges (ns2 ! n)") (auto simp: wf_build_def)
  then have ne: "\<not> edgeExists [] (node_edges (ns2 ! n)) n n1" by simp
  have "length (snd (addSegment p0 p1 (ns, [])))
      \<le> length (snd (addPoints (p1 # ps) (addSegment p0 p1 (ns, []))))"
    by (rule length_edges_addPoints)
  with Cons.prems(3) have e1: "snd (addSegment p0 p1 (ns, [])) = []" by simp
  have eq: "n = n1"
  proof (rule ccontr)
    assume "n \<noteq> n1"
    with ne have "snd (addSegment p0 p1 (ns, [])) \<noteq> []"
      by (simp add: addSegment_def Cons.prems(2) f2 Let_def)
    with e1 show False by simp
  qed
  have same: "ns2 = ns"
    using findOrCreateNode_props(6)[OF f2] findOrCreateNode_props(1)[OF f2]
      f2 eq l0 by (auto simp: findOrCreateNode_def split: option.splits)
  have r: "addSegment p0 p1 (ns, []) = (ns, [])"
    using eq same by (simp add: addSegment_def Cons.prems(2) f2 Let_def)
  have f2': "findOrCreateNode ns p1 = (ns, n)" using f2 eq same by simp
  have "snd (addPoints (p1 # ps) (ns, [])) = []" using Cons.prems(3) r by simp
  from Cons.IH[OF Cons.prems(1) f2' this]
  have "\<forall>p \<in> set (p1 # ps). distV (node_p (ns ! n)) p \<le> MERGE_EPS" .
  moreover have "distV (node_p (ns ! n)) p0 \<le> MERGE_EPS"
    using findOrCreateNode_props(2)[OF Cons.prems(2)] .
  ultimately show ?case by simp
qed

lemma addPoints_resolved_first:
  assumes "findOrCreateNode ns p0 = (ns1, n)"
  shows "addPoints (p0 # p1 # ps) (ns, es) = addPoints (p0 # p1 # ps) (ns1, es)"
proof -
  have "addSegment p0 p1 (ns, es) = addSegment p0 p1 (ns1, es)"
    by (simp add: addSegment_def assms findOrCreateNode_idem[OF assms])
  then show ?thesis by simp
qed

lemma addPoints_close:
  assumes wf: "wf_build (ns, [])" and e: "snd (addPoints ps (ns, [])) = []"
    and p: "p \<in> set ps" and q: "q \<in> set ps"
  shows "distV p q \<le> 2 * MERGE_EPS"
proof (cases ps)
  case Nil
  with p show ?thesis by simp
next
  case (Cons p0 ps')
  show ?thesis
  proof (cases ps')
    case Nil
    with Cons p q show ?thesis by (simp add: distV_self MERGE_EPS_def)
  next
    case (Cons p1 ps'')
    obtain ns1 n where f: "findOrCreateNode ns p0 = (ns1, n)"
      by (cases "findOrCreateNode ns p0")
    have ps: "ps = p0 # p1 # ps''" using \<open>ps = p0 # ps'\<close> Cons by simp
    have w1: "wf_build (ns1, [])" using wf_build_findOrCreateNode[OF wf f] .
    have e1: "snd (addPoints (p0 # p1 # ps'') (ns1, [])) = []"
      using e addPoints_resolved_first[OF f, of p1 ps'' "[]"] ps by simp
    from addPoints_no_edge[OF w1 findOrCreateNode_idem[OF f] e1] p q ps
    have "distV (node_p (ns1 ! n)) p \<le> MERGE_EPS" "distV (node_p (ns1 ! n)) q \<le> MERGE_EPS"
      by blast+
    moreover have "distV p q \<le> distV p (node_p (ns1 ! n)) + distV (node_p (ns1 ! n)) q"
      by (rule distV_triangle)
    ultimately show ?thesis by (simp add: distV_commute[of p])
  qed
qed

lemma addCurves_close:
  assumes "wf_build (ns, [])" "snd (addCurves cs (ns, [])) = []" "c \<in> set cs"
    "p \<in> set (spacedPointsFromCurve c)" "q \<in> set (spacedPointsFromCurve c)"
  shows "distV p q \<le> 2 * MERGE_EPS"
  using assms
proof (induction cs arbitrary: ns)
  case Nil
  then show ?case by simp
next
  case (Cons c' cs)
  obtain ns' es' where st: "addPoints (spacedPointsFromCurve c') (ns, []) = (ns', es')"
    by (cases "addPoints (spacedPointsFromCurve c') (ns, [])")
  have "length es' \<le> length (snd (addCurves cs (ns', es')))"
    using length_edges_addCurves[of "(ns', es')" cs] by simp
  with Cons.prems(2) st have es': "es' = []" by simp
  have w': "wf_build (ns', [])"
    using wf_build_addPoints[OF Cons.prems(1), of "spacedPointsFromCurve c'"] st es' by simp
  show ?case
  proof (cases "c = c'")
    case True
    have "snd (addPoints (spacedPointsFromCurve c') (ns, [])) = []" using st es' by simp
    from addPoints_close[OF Cons.prems(1) this] Cons.prems(4,5) True show ?thesis by simp
  next
    case False
    with Cons.prems(3) have "c \<in> set cs" by simp
    moreover have "snd (addCurves cs (ns', [])) = []" using Cons.prems(2) st es' by simp
    ultimately show ?thesis using Cons.IH[OF w'] Cons.prems(4,5) by blast
  qed
qed

lemma addPoints_short: "length ps < 2 \<Longrightarrow> addPoints ps st = st"
proof (cases ps)
  case (Cons p0 ps')
  assume "length ps < 2"
  with Cons show ?thesis by (cases ps') simp_all
qed simp

lemma g_edges_build:
  "g_edges (buildRoadGraphFromCurves curves cast) = [] \<longleftrightarrow>
     snd (addCurves curves ([], [])) = []"
  by (simp add: buildRoadGraphFromCurves_def case_prod_beta)

lemma roadCurves_append:
  "roadCurves mk (xs @ ys) = roadCurves mk xs @ roadCurves mk ys"
  by (induction xs) (simp_all split: option.splits)

lemma addPoints_one_node:
  assumes "\<forall>p \<in> set ps. distV p0 p \<le> MERGE_EPS"
  shows "addPoints ps ([\<lparr>node_id = 0, node_p = p0, node_edges = []\<rparr>], [])
       = ([\<lparr>node_id = 0, node_p = p0, node_edges = []\<rparr>], [])"
  using assms
proof (induction ps "([\<lparr>node_id = 0, node_p = p0, node_edges = []\<rparr>], [] :: RoadEdge list)"
    rule: addPoints.induct)
  case (1 a b ps)
  have "addSegment a b ([\<lparr>node_id = 0, node_p = p0, node_edges = []\<rparr>], [])
      = ([\<lparr>node_id = 0, node_p = p0, node_edges = []\<rparr>], [])"
    using 1(2) by (simp add: addSegment_def findOrCreateNode_def)
  with 1 show ?case by simp
qed simp_all

text \<open>
  A curve whose sample points all lie within the merge distance of the first of them
  makes one node and no edge.
\<close>

lemma addPoints_all_near:
  assumes "\<forall>p \<in> set ps. distV (hd ps) p \<le> MERGE_EPS"
  shows "snd (addPoints ps ([], [])) = []"
proof (cases ps)
  case Nil
  then show ?thesis by simp
next
  case (Cons p0 ps')
  show ?thesis
  proof (cases ps')
    case Nil
    with Cons show ?thesis by simp
  next
    case (Cons p1 ps'')
    with \<open>ps = p0 # ps'\<close> assms have near: "\<forall>p \<in> set (p1 # ps''). distV p0 p \<le> MERGE_EPS"
      by simp
    then have "addSegment p0 p1 ([], [])
        = ([\<lparr>node_id = 0, node_p = p0, node_edges = []\<rparr>], [])"
      by (simp add: addSegment_def findOrCreateNode_def)
    then have "addPoints ps ([], [])
        = addPoints (p1 # ps'') ([\<lparr>node_id = 0, node_p = p0, node_edges = []\<rparr>], [])"
      by (simp add: \<open>ps = p0 # ps'\<close> Cons)
    with addPoints_one_node[OF near] show ?thesis by simp
  qed
qed

text \<open>
  C6, amended. A road line of at least two points gives a curve, and graph construction
  yields at least one edge when two of the sampled points of that curve are more than
  twice the merge distance apart; built alone, a curve whose sampled points all lie within
  the merge distance of the first of them yields no edge. A road line of fewer than two
  points gives no curve and yields no edges: the graph is the same without it, and on its
  own it gives the empty graph.
\<close>

theorem curve_gives_edge:
  "(2 \<le> length pts \<longrightarrow>
      tubeFromPoints catmullRom pts = Some (catmullRom pts)
    \<and> ((\<exists>p \<in> set (spacedPointsFromCurve (catmullRom pts)).
         \<exists>q \<in> set (spacedPointsFromCurve (catmullRom pts)). distV p q > 2 * MERGE_EPS)
        \<longrightarrow> g_edges (buildRoadGraphFromCurves
                       (roadCurves catmullRom (before @ pts # after)) cast) \<noteq> [])
    \<and> ((\<forall>p \<in> set (spacedPointsFromCurve (catmullRom pts)).
           distV (hd (spacedPointsFromCurve (catmullRom pts))) p \<le> MERGE_EPS)
        \<longrightarrow> g_edges (buildRoadGraphFromCurves (roadCurves catmullRom [pts]) cast) = []))
   \<and> (length pts < 2 \<longrightarrow>
      tubeFromPoints catmullRom pts = None
    \<and> roadCurves catmullRom (before @ pts # after) = roadCurves catmullRom (before @ after)
    \<and> buildRoadGraphFromCurves (roadCurves catmullRom [pts]) cast
        = \<lparr>g_nodes = [], g_edges = []\<rparr>)"
proof (intro conjI impI)
  assume "2 \<le> length pts"
  then show t: "tubeFromPoints catmullRom pts = Some (catmullRom pts)"
    by (simp add: tubeFromPoints_def)
  {
    assume "\<exists>p \<in> set (spacedPointsFromCurve (catmullRom pts)).
         \<exists>q \<in> set (spacedPointsFromCurve (catmullRom pts)). distV p q > 2 * MERGE_EPS"
    then obtain p q where h: "p \<in> set (spacedPointsFromCurve (catmullRom pts))"
      "q \<in> set (spacedPointsFromCurve (catmullRom pts))" "distV p q > 2 * MERGE_EPS" by blast
    have c: "catmullRom pts \<in> set (roadCurves catmullRom (before @ pts # after))"
      by (simp add: roadCurves_append t)
    show "g_edges (buildRoadGraphFromCurves
                       (roadCurves catmullRom (before @ pts # after)) cast) \<noteq> []"
    proof
      assume "g_edges (buildRoadGraphFromCurves
                       (roadCurves catmullRom (before @ pts # after)) cast) = []"
      then have "snd (addCurves (roadCurves catmullRom (before @ pts # after)) ([], [])) = []"
        by (simp add: g_edges_build)
      from addCurves_close[OF wf_build_empty this c h(1,2)] h(3) show False by simp
    qed
  }
  {
    assume "\<forall>p \<in> set (spacedPointsFromCurve (catmullRom pts)).
           distV (hd (spacedPointsFromCurve (catmullRom pts))) p \<le> MERGE_EPS"
    from addPoints_all_near[OF this]
    show "g_edges (buildRoadGraphFromCurves (roadCurves catmullRom [pts]) cast) = []"
      by (simp add: g_edges_build t)
  }
next
  assume "length pts < 2"
  then show t: "tubeFromPoints catmullRom pts = None" by (simp add: tubeFromPoints_def)
  then show "roadCurves catmullRom (before @ pts # after) = roadCurves catmullRom (before @ after)"
    by (simp add: roadCurves_append)
  from t show "buildRoadGraphFromCurves (roadCurves catmullRom [pts]) cast
        = \<lparr>g_nodes = [], g_edges = []\<rparr>"
    by (simp add: buildRoadGraphFromCurves_def)
qed

theorem curve_gives_edge_witness:
  "2 \<le> length [V3 (- 36) 0 0, V3 4 0 0]
   \<and> tubeFromPoints (\<lambda>pts. straightCurve (hd pts) (last pts)) [V3 (- 36) 0 0, V3 4 0 0]
       = Some roadA
   \<and> V3 (- 36) 0 0 \<in> set (spacedPointsFromCurve roadA)
   \<and> V3 4 0 0 \<in> set (spacedPointsFromCurve roadA)
   \<and> distV (V3 (- 36) 0 0) (V3 4 0 0) > 2 * MERGE_EPS
   \<and> g_edges (buildRoadGraphFromCurves
        (roadCurves (\<lambda>pts. straightCurve (hd pts) (last pts))
           [[V3 7 0 0], [V3 (- 36) 0 0, V3 4 0 0], [V3 0.5 0 0, V3 70.5 0 0]]) noShade) \<noteq> []
   \<and> 2 \<le> length [V3 0 0 0, V3 0.5 0 0]
   \<and> list_all (\<lambda>p. distV (hd (spacedPointsFromCurve shortCurve)) p \<le> MERGE_EPS)
        (spacedPointsFromCurve shortCurve)
   \<and> g_edges (buildRoadGraphFromCurves
        (roadCurves (\<lambda>pts. straightCurve (hd pts) (last pts)) [[V3 0 0 0, V3 0.5 0 0]])
        noShade) = []
   \<and> length [V3 7 0 0] < 2
   \<and> tubeFromPoints (\<lambda>pts. straightCurve (hd pts) (last pts)) [V3 7 0 0] = None
   \<and> roadCurves (\<lambda>pts. straightCurve (hd pts) (last pts))
        [[V3 7 0 0], [V3 (- 36) 0 0, V3 4 0 0]] = [roadA]
   \<and> buildRoadGraphFromCurves
        (roadCurves (\<lambda>pts. straightCurve (hd pts) (last pts)) [[V3 7 0 0]]) noShade
       = \<lparr>g_nodes = [], g_edges = []\<rparr>"
proof -
  let ?mk = "\<lambda>pts. straightCurve (hd pts) (last pts)"
  have a: "?mk [V3 (- 36) 0 0, V3 4 0 0] = roadA" "?mk [V3 0 0 0, V3 0.5 0 0] = shortCurve"
    by (simp_all add: roadA_def shortCurve_def)
  have l: "2 \<le> length [V3 (- 36) 0 0, V3 4 0 0]" "2 \<le> length [V3 0 0 0, V3 0.5 0 0]"
    "length [V3 7 0 0] < 2" by simp_all
  have b: "V3 (- 36) 0 0 \<in> set (spacedPointsFromCurve roadA)"
    "V3 4 0 0 \<in> set (spacedPointsFromCurve roadA)"
    by (simp_all add: spaced_roadA)
  have c: "distV (V3 (- 36) 0 0) (V3 4 0 0) > 2 * MERGE_EPS"
    by (simp add: distV_on_axis MERGE_EPS_def)
  have n: "list_all (\<lambda>p. distV (hd (spacedPointsFromCurve shortCurve)) p \<le> MERGE_EPS)
        (spacedPointsFromCurve shortCurve)"
    by (simp add: spaced_shortCurve distV_on_axis MERGE_EPS_def)
  note long = curve_gives_edge[where pts = "[V3 (- 36) 0 0, V3 4 0 0]" and catmullRom = ?mk
      and before = "[[V3 7 0 0]]" and after = "[[V3 0.5 0 0, V3 70.5 0 0]]" and cast = noShade]
  note short = curve_gives_edge[where pts = "[V3 0 0 0, V3 0.5 0 0]" and catmullRom = ?mk
      and before = "[]" and after = "[]" and cast = noShade]
  note single = curve_gives_edge[where pts = "[V3 7 0 0]" and catmullRom = ?mk
      and before = "[]" and after = "[[V3 (- 36) 0 0, V3 4 0 0]]" and cast = noShade]
  have 1: "tubeFromPoints ?mk [V3 (- 36) 0 0, V3 4 0 0] = Some roadA"
    using long l(1) a(1) by simp
  have 2: "g_edges (buildRoadGraphFromCurves
        (roadCurves ?mk [[V3 7 0 0], [V3 (- 36) 0 0, V3 4 0 0], [V3 0.5 0 0, V3 70.5 0 0]])
        noShade) \<noteq> []"
  proof -
    from long l(1) have "(\<exists>p \<in> set (spacedPointsFromCurve (?mk [V3 (- 36) 0 0, V3 4 0 0])).
         \<exists>q \<in> set (spacedPointsFromCurve (?mk [V3 (- 36) 0 0, V3 4 0 0])).
           distV p q > 2 * MERGE_EPS)
        \<longrightarrow> g_edges (buildRoadGraphFromCurves
              (roadCurves ?mk ([[V3 7 0 0]] @ [V3 (- 36) 0 0, V3 4 0 0]
                 # [[V3 0.5 0 0, V3 70.5 0 0]])) noShade) \<noteq> []"
      by blast
    moreover have "\<exists>p \<in> set (spacedPointsFromCurve (?mk [V3 (- 36) 0 0, V3 4 0 0])).
         \<exists>q \<in> set (spacedPointsFromCurve (?mk [V3 (- 36) 0 0, V3 4 0 0])).
           distV p q > 2 * MERGE_EPS"
      unfolding a using b c by blast
    ultimately show ?thesis by simp
  qed
  have 3: "g_edges (buildRoadGraphFromCurves (roadCurves ?mk [[V3 0 0 0, V3 0.5 0 0]])
        noShade) = []"
  proof -
    from short l(2) have "(\<forall>p \<in> set (spacedPointsFromCurve (?mk [V3 0 0 0, V3 0.5 0 0])).
           distV (hd (spacedPointsFromCurve (?mk [V3 0 0 0, V3 0.5 0 0]))) p \<le> MERGE_EPS)
        \<longrightarrow> g_edges (buildRoadGraphFromCurves (roadCurves ?mk [[V3 0 0 0, V3 0.5 0 0]])
              noShade) = []"
      by blast
    moreover have "\<forall>p \<in> set (spacedPointsFromCurve (?mk [V3 0 0 0, V3 0.5 0 0])).
           distV (hd (spacedPointsFromCurve (?mk [V3 0 0 0, V3 0.5 0 0]))) p \<le> MERGE_EPS"
      unfolding a using n by (simp add: list_all_iff)
    ultimately show ?thesis by blast
  qed
  from single l(3) have 4: "tubeFromPoints ?mk [V3 7 0 0] = None"
    and 5: "roadCurves ?mk ([] @ [V3 7 0 0] # [[V3 (- 36) 0 0, V3 4 0 0]])
        = roadCurves ?mk ([] @ [[V3 (- 36) 0 0, V3 4 0 0]])"
    and 6: "buildRoadGraphFromCurves (roadCurves ?mk [[V3 7 0 0]]) noShade
       = \<lparr>g_nodes = [], g_edges = []\<rparr>"
    by blast+
  have 7: "roadCurves ?mk [[V3 7 0 0], [V3 (- 36) 0 0, V3 4 0 0]] = [roadA]"
    using 5 1 by simp
  from l 1 b c 2 n 3 4 7 6 show ?thesis by blast
qed

subsection \<open>Well-formed graphs and walks\<close>

lemma wf_graph_edge:
  assumes "wf_graph g" "u < length (g_nodes g)" "k \<in> set (node_edges (g_nodes g ! u))"
  shows "k < length (g_edges g)" "otherEnd (g_edges g ! k) u < length (g_nodes g)"
    "otherEnd (g_edges g ! k) u \<noteq> u" "g_edges g ! k \<in> set (g_edges g)"
    "0 < edge_length (g_edges g ! k)"
proof -
  from assms have wb: "wf_build (g_nodes g, g_edges g)" by (simp add: wf_graph_def)
  from wb assms(2,3) show k: "k < length (g_edges g)"
    and inc: "otherEnd (g_edges g ! k) u < length (g_nodes g)"
    and "otherEnd (g_edges g ! k) u \<noteq> u"
    unfolding wf_build_def fst_conv snd_conv otherEnd_def by metis+
  then show mem: "g_edges g ! k \<in> set (g_edges g)" by simp
  with assms(1) have "edge_poly (g_edges g ! k) ! 0 \<noteq> edge_poly (g_edges g ! k) ! 1"
    and "edge_length (g_edges g ! k)
       = distV (edge_poly (g_edges g ! k) ! 0) (edge_poly (g_edges g ! k) ! 1)"
    by (simp_all add: wf_graph_def list_all_iff segment_def)
  then show "0 < edge_length (g_edges g ! k)"
    using distV_eq_0 distV_nonneg[of "edge_poly (g_edges g ! k) ! 0"
        "edge_poly (g_edges g ! k) ! 1"]
    by (simp add: less_le)
qed


lemma isWalk_in_range:
  "wf_graph g \<Longrightarrow> u < length (g_nodes g) \<Longrightarrow> isWalk g u ks v \<Longrightarrow> v < length (g_nodes g)"
proof (induction ks arbitrary: u)
  case Nil
  then show ?case by simp
next
  case (Cons k ks)
  then show ?case using wf_graph_edge(2)[of g u k] by auto
qed


subsection \<open>Simple paths\<close>




lemma spath_tail: "spath g cf s (a # b # p) \<Longrightarrow> spath g cf s (b # p)"
  by (erule spath.cases) auto





subsection \<open>Choosing the next node\<close>




subsection \<open>Relaxing an edge\<close>








subsection \<open>Walking back along the predecessors\<close>


subsection \<open>The search loop\<close>







lemma progress_openSet [simp]: "progress g cf start (st\<lparr>openSet := xs\<rparr>) = progress g cf start st"
  by (simp add: progress_def improving_def)




subsection \<open>Snapping to the graph\<close>

lemma snapScan_None: "snapScan es i pt best = None \<longleftrightarrow> es = [] \<and> best = None"
proof (induction es arbitrary: i best)
  case Nil
  then show ?case by simp
next
  case (Cons e es)
  obtain q t d where n: "nearestPointOnEdge e pt = (q, t, d)"
    by (cases "nearestPointOnEdge e pt")
  show ?case by (cases best) (simp_all add: n Cons.IH)
qed

lemma snapToGraph_None: "snapToGraph g pt = None \<longleftrightarrow> g_edges g = []"
  by (simp add: snapToGraph_def snapScan_None)






subsection \<open>A route, or none\<close>


subsection \<open>The builder leaves a well-formed graph\<close>






subsection \<open>Two roads that do not meet\<close>










subsection \<open>A point on an edge snaps to itself\<close>

lemma nearestPointOnEdge_dist:
  "nearestPointOnEdge e pt = (q, t, d) \<Longrightarrow> d = distV pt q"
  by (auto simp: nearestPointOnEdge_def Let_def)

lemma snapScan_best:
  assumes "snapScan es i pt best = Some s"
    and "\<forall>b. best = Some b \<longrightarrow> snap_d b = distV pt (snap_q b)"
  shows "snap_d s = distV pt (snap_q s)
    \<and> (\<forall>e \<in> set es. snap_d s \<le> snd (snd (nearestPointOnEdge e pt)))
    \<and> (\<forall>b. best = Some b \<longrightarrow> snap_d s \<le> snap_d b)"
  using assms
proof (induction es arbitrary: i best)
  case Nil
  then show ?case by simp
next
  case (Cons e es)
  obtain q t d where n: "nearestPointOnEdge e pt = (q, t, d)"
    by (cases "nearestPointOnEdge e pt")
  define best' where "best' =
    (if (case best of None \<Rightarrow> True | Some b \<Rightarrow> d < snap_d b)
     then Some \<lparr>snap_edge = i, snap_q = q, snap_t = t, snap_d = d\<rparr> else best)"
  have run: "snapScan es (Suc i) pt best' = Some s"
    using Cons.prems(1) by (simp add: n best'_def)
  have ok: "\<forall>b. best' = Some b \<longrightarrow> snap_d b = distV pt (snap_q b)"
    using Cons.prems(2) nearestPointOnEdge_dist[OF n] by (auto simp: best'_def)
  from Cons.IH[OF run ok] have ih: "snap_d s = distV pt (snap_q s)"
    "\<forall>e \<in> set es. snap_d s \<le> snd (snd (nearestPointOnEdge e pt))"
    "\<forall>b. best' = Some b \<longrightarrow> snap_d s \<le> snap_d b" by blast+
  have "\<exists>b'. best' = Some b' \<and> snap_d b' \<le> d
      \<and> (\<forall>b. best = Some b \<longrightarrow> snap_d b' \<le> snap_d b)"
  proof (cases best)
    case None
    then show ?thesis by (simp add: best'_def)
  next
    case (Some a)
    then show ?thesis by (cases "d < snap_d a") (simp_all add: best'_def)
  qed
  then obtain b' where b': "best' = Some b'" "snap_d b' \<le> d"
    "\<forall>b. best = Some b \<longrightarrow> snap_d b' \<le> snap_d b" by blast
  from ih(3) b' have "snap_d s \<le> d" "\<forall>b. best = Some b \<longrightarrow> snap_d s \<le> snap_d b"
    by fastforce+
  with ih(1,2) n show ?case by simp
qed

lemma snapToGraph_on_edge:
  assumes "e \<in> set (g_edges g)" "snd (snd (nearestPointOnEdge e pt)) = 0"
  shows "\<exists>s. snapToGraph g pt = Some s \<and> snap_q s = pt"
proof -
  from assms(1) have "g_edges g \<noteq> []" by auto
  then obtain s where s: "snapToGraph g pt = Some s"
    using snapToGraph_None[of g pt] by auto
  then have "snapScan (g_edges g) 0 pt None = Some s" by (simp add: snapToGraph_def)
  from snapScan_best[OF this] assms have "distV pt (snap_q s) \<le> 0" by fastforce
  with distV_nonneg[of pt "snap_q s"] have "distV pt (snap_q s) = 0" by simp
  then have "snap_q s = pt" by (simp add: distV_eq_0)
  with s show ?thesis by simp
qed

subsection \<open>Routing over the three roads\<close>

lemma nearest_threeRoads_start: "nearestNodeToPoint threeRoads (V3 0 0 0) = Some 9"
  by (simp add: nearestNodeToPoint_def threeRoads_def afterRoadB_def distV_on_axis Let_def)

lemma nearest_threeRoads_goal: "nearestNodeToPoint threeRoads (V3 7.5 0 0) = Some 11"
  by (simp add: nearestNodeToPoint_def threeRoads_def afterRoadB_def distV_on_axis Let_def)

lemma threeRoads_junction:
  "node_edges (g_nodes threeRoads ! 9) = [8, 9, 10]"
  "node_p (g_nodes threeRoads ! 8) = V3 (- 4) 0 0"
  "node_p (g_nodes threeRoads ! 9) = V3 0 0 0"
  "node_p (g_nodes threeRoads ! 10) = V3 4 0 0"
  "node_p (g_nodes threeRoads ! 11) = V3 7.5 0 0"
  "g_edges threeRoads ! 8 = \<lparr>edge_id = 8, edge_a = 8, edge_b = 9,
      edge_poly = [V3 (- 4) 0 0, V3 0 0 0], edge_length = 4, edge_shadeScore = 0\<rparr>"
  "g_edges threeRoads ! 9 = \<lparr>edge_id = 9, edge_a = 9, edge_b = 10,
      edge_poly = [V3 0 0 0, V3 4 0 0], edge_length = 4, edge_shadeScore = 0\<rparr>"
  "g_edges threeRoads ! 10 = \<lparr>edge_id = 10, edge_a = 9, edge_b = 11,
      edge_poly = [V3 0.5 0 0, V3 7.5 0 0], edge_length = 7, edge_shadeScore = 0\<rparr>"
  "g_edges threeRoads ! 20 = \<lparr>edge_id = 20, edge_a = 10, edge_b = 11,
      edge_poly = [V3 5 0 0, V3 7 0 0], edge_length = 2, edge_shadeScore = 0\<rparr>"
  "node_edges (g_nodes threeRoads ! 10) = [9, 20]"
  by (simp_all add: threeRoads_def afterRoadB_def)

lemma aStar_threeRoads: "aStar threeRoads 9 11 (cost 0) = Some (Some [9, 11])"
  apply (simp add: aStar_def)
  apply (subst aStarLoop.simps)
  apply (simp add: threeRoads_junction heur_def relaxEdge_def otherEnd_def cost_def
      distV_on_axis Let_def)
  apply (subst aStarLoop.simps)
  apply (simp add: threeRoads_junction heur_def relaxEdge_def otherEnd_def cost_def
      distV_on_axis Let_def)
  apply (subst reconstruct.simps, simp)
  apply (subst reconstruct.simps, simp)
  done

lemma snap_threeRoads_start:
  "\<exists>s. snapToGraph threeRoads (V3 0 0 0) = Some s \<and> snap_q s = V3 0 0 0"
proof (rule snapToGraph_on_edge)
  have "9 < length (g_edges threeRoads)" by (simp add: threeRoads_edges)
  then show "g_edges threeRoads ! 9 \<in> set (g_edges threeRoads)" by (rule nth_mem)
  show "snd (snd (nearestPointOnEdge (g_edges threeRoads ! 9) (V3 0 0 0))) = 0"
    by (simp add: threeRoads_junction geom_defs Let_def)
qed

lemma snap_threeRoads_goal:
  "\<exists>s. snapToGraph threeRoads (V3 7.5 0 0) = Some s \<and> snap_q s = V3 7.5 0 0"
proof (rule snapToGraph_on_edge)
  have "10 < length (g_edges threeRoads)" by (simp add: threeRoads_edges)
  then show "g_edges threeRoads ! 10 \<in> set (g_edges threeRoads)" by (rule nth_mem)
  show "snd (snd (nearestPointOnEdge (g_edges threeRoads ! 10) (V3 7.5 0 0))) = 0"
    by (simp add: threeRoads_junction geom_defs Let_def)
qed

lemma findRoute_threeRoads:
  "findRouteOnRoads threeRoads (V3 0 0 0) (V3 7.5 0 0) 0
     = Returns (Some [V3 0 0 0, V3 7.5 0 0])"
proof -
  from snap_threeRoads_start obtain s where
    s: "snapToGraph threeRoads (V3 0 0 0) = Some s" "snap_q s = V3 0 0 0" by blast
  from snap_threeRoads_goal obtain t where
    t: "snapToGraph threeRoads (V3 7.5 0 0) = Some t" "snap_q t = V3 7.5 0 0" by blast
  have "findRouteOnRoads threeRoads (V3 0 0 0) (V3 7.5 0 0) 0
      = Returns (Some (nodesPathToPolyline threeRoads [9, 11]))"
    by (simp only: findRouteOnRoads_def s t nearest_threeRoads_start nearest_threeRoads_goal
        aStar_threeRoads option.case outcome.case)
  then show ?thesis by (simp add: nodesPathToPolyline_def threeRoads_junction)
qed

text \<open>
  C2 fails on the code. The three roads are built by \<^verbatim>\<open>buildRoadGraphFromCurves\<close> from
  straight curves along one line. With \<open>shadeBias = 0\<close> the route from \<open>(0, 0, 0)\<close> to
  \<open>(7.5, 0, 0)\<close> is the single edge 10 between nodes 9 and 11, of length 7, although the
  walk over edges 9 and 20 through node 10 joins the same nodes with total length 6: the
  length of an edge is measured between the sampled points, before they are merged into
  nodes, and the heuristic between the nodes.
\<close>

theorem shortest_by_length_fails:
  "findRouteOnRoads (buildRoadGraphFromCurves [roadA, roadD, roadB] noShade)
       (V3 0 0 0) (V3 7.5 0 0) 0
     = Returns (Some [V3 0 0 0, V3 7.5 0 0])
   \<and> nearestNodeToPoint threeRoads (V3 0 0 0) = Some 9
   \<and> nearestNodeToPoint threeRoads (V3 7.5 0 0) = Some 11
   \<and> aStar threeRoads 9 11 (cost 0) = Some (Some [9, 11])
   \<and> isWalk threeRoads 9 [10] 11 \<and> walkCost edge_length threeRoads [10] = 7
   \<and> isWalk threeRoads 9 [9, 20] 11 \<and> walkCost edge_length threeRoads [9, 20] = 6
   \<and> walkCost (cost 0) threeRoads [10] = 7 \<and> walkCost (cost 0) threeRoads [9, 20] = 6"
proof -
  have r: "findRouteOnRoads (buildRoadGraphFromCurves [roadA, roadD, roadB] noShade)
       (V3 0 0 0) (V3 7.5 0 0) 0 = Returns (Some [V3 0 0 0, V3 7.5 0 0])"
    unfolding build_threeRoads by (rule findRoute_threeRoads)
  have w: "isWalk threeRoads 9 [10] 11" "walkCost edge_length threeRoads [10] = 7"
    "isWalk threeRoads 9 [9, 20] 11" "walkCost edge_length threeRoads [9, 20] = 6"
    "walkCost (cost 0) threeRoads [10] = 7" "walkCost (cost 0) threeRoads [9, 20] = 6"
    by (simp_all add: threeRoads_junction walkCost_def otherEnd_def cost_def)
  from r nearest_threeRoads_start nearest_threeRoads_goal aStar_threeRoads w
  show ?thesis by blast
qed

subsection \<open>Building the shaded detour\<close>

lemma sqrt_vals: "sqrt 6400 = 80" "sqrt 400 = 20" "sqrt 64 = 8"
  by (rule real_sqrt_unique, simp add: power2_eq_square, simp)+

lemma spaced_mainRoad:
  "spacedPointsFromCurve mainRoad =
     [V3 (- 40) 0 0, V3 (- 32) 0 0, V3 (- 24) 0 0, V3 (- 16) 0 0, V3 (- 8) 0 0,
      V3 0 0 0, V3 8 0 0, V3 16 0 0, V3 24 0 0, V3 32 0 0, V3 40 0 0]"
  by (simp add: spacedPointsFromCurve_def mainRoad_def straightCurve_def distV_def sqrt_vals
      ROAD_SAMPLE_DENSITY_def Let_def upt_rec lerp_def)

lemma addPoints_mainRoad:
  "addPoints (spacedPointsFromCurve mainRoad) ([], []) = afterMainRoad"
  by (simp add: spaced_mainRoad afterMainRoad_def addSegment_def findOrCreateNode_def pushEdge_def
      distV_def power2_eq_square sqrt_vals MERGE_EPS_def)

lemma spaced_westLane:
  "spacedPointsFromCurve westLane =
     [V3 0 0 0, V3 0 0 2, V3 0 0 4, V3 0 0 6, V3 0 0 8, V3 0 0 10, V3 0 0 12,
      V3 0 0 14, V3 0 0 16, V3 0 0 18, V3 0 0 20]"
  by (simp add: spacedPointsFromCurve_def westLane_def straightCurve_def distV_def sqrt_vals
      ROAD_SAMPLE_DENSITY_def Let_def upt_rec lerp_def)

lemma addPoints_westLane:
  "addPoints (spacedPointsFromCurve westLane) afterMainRoad = afterWestLane"
  by (simp add: spaced_westLane afterMainRoad_def afterWestLane_def addSegment_def findOrCreateNode_def pushEdge_def
      distV_def power2_eq_square sqrt_vals MERGE_EPS_def)

lemma spaced_eastLane:
  "spacedPointsFromCurve eastLane =
     [V3 8 0 0, V3 8 0 2, V3 8 0 4, V3 8 0 6, V3 8 0 8, V3 8 0 10, V3 8 0 12,
      V3 8 0 14, V3 8 0 16, V3 8 0 18, V3 8 0 20]"
  by (simp add: spacedPointsFromCurve_def eastLane_def straightCurve_def distV_def sqrt_vals
      ROAD_SAMPLE_DENSITY_def Let_def upt_rec lerp_def)

lemma addPoints_eastLane:
  "addPoints (spacedPointsFromCurve eastLane) afterWestLane = afterEastLane"
  by (simp add: spaced_eastLane afterWestLane_def afterEastLane_def addSegment_def findOrCreateNode_def pushEdge_def
      distV_def power2_eq_square sqrt_vals MERGE_EPS_def)

lemma spaced_backLane:
  "spacedPointsFromCurve backLane =
     [V3 (- 4) 0 2, V3 (- 2) 0 2, V3 0 0 2, V3 2 0 2, V3 4 0 2, V3 6 0 2, V3 8 0 2,
      V3 10 0 2, V3 12 0 2, V3 14 0 2, V3 16 0 2]"
  by (simp add: spacedPointsFromCurve_def backLane_def straightCurve_def distV_def sqrt_vals
      ROAD_SAMPLE_DENSITY_def Let_def upt_rec lerp_def)

lemma addPoints_backLane:
  "addPoints (spacedPointsFromCurve backLane) afterEastLane = afterBackLane"
  by (simp add: spaced_backLane afterEastLane_def afterBackLane_def addSegment_def findOrCreateNode_def pushEdge_def
      distV_def power2_eq_square sqrt_vals MERGE_EPS_def)

lemma shade_flat:
  "vz p = 0 \<Longrightarrow> vz q = 0 \<Longrightarrow> approximateEdgeShade canopy [p, q] = 0"
  by (simp add: approximateEdgeShade_def shadeSample_def canopy_def lerp_def Let_def)

lemma shade_north:
  assumes "0 \<le> vz p" "0 \<le> vz q" "0 < vz p + vz q"
  shows "approximateEdgeShade canopy [p, q] = 1"
proof -
  have pos: "0 < vz p + (vz q - vz p) * t" if "0 < t" "t < 1" for t
  proof -
    have "vz p + (vz q - vz p) * t = vz p * (1 - t) + vz q * t" by (simp add: algebra_simps)
    moreover have "0 < vz p * (1 - t) + vz q * t"
    proof (cases "vz p = 0")
      case True
      with assms(3) that show ?thesis by simp
    next
      case False
      with assms(1) have "0 < vz p * (1 - t)" using that by simp
      moreover have "0 \<le> vz q * t" using assms(2) that by simp
      ultimately show ?thesis by linarith
    qed
    ultimately show ?thesis by simp
  qed
  have "shadeSample canopy [p, q] i" if "i < SHADE_SAMPLES_PER_EDGE" for i
  proof -
    have "0 < (real i + 0.5) / real SHADE_SAMPLES_PER_EDGE"
      "(real i + 0.5) / real SHADE_SAMPLES_PER_EDGE < 1"
      using that by (simp_all add: SHADE_SAMPLES_PER_EDGE_def)
    from pos[OF this] show ?thesis
      by (simp add: shadeSample_def canopy_def lerp_def Let_def)
  qed
  then have "filter (shadeSample canopy [p, q]) [0..<SHADE_SAMPLES_PER_EDGE]
      = [0..<SHADE_SAMPLES_PER_EDGE]"
    by (simp add: filter_id_conv)
  then show ?thesis by (simp add: approximateEdgeShade_def SHADE_SAMPLES_PER_EDGE_def)
qed

lemma build_shadedDetour:
  "buildRoadGraphFromCurves [mainRoad, westLane, eastLane, backLane] canopy = shadedDetour"
proof -
  have "addCurves [mainRoad, westLane, eastLane, backLane] ([], []) = afterBackLane"
    by (simp add: addPoints_mainRoad addPoints_westLane addPoints_eastLane
        addPoints_backLane)
  moreover have
    "map (\<lambda>e. e\<lparr>edge_shadeScore := approximateEdgeShade canopy (edge_poly e)\<rparr>)
       (snd afterBackLane)
     = map (\<lambda>e. e\<lparr>edge_shadeScore := (if 10 \<le> edge_id e then 1 else 0)\<rparr>)
       (snd afterBackLane)"
    by (simp add: afterBackLane_def shade_flat shade_north)
  ultimately show ?thesis
    by (simp add: buildRoadGraphFromCurves_def shadedDetour_def case_prod_beta)
qed

subsection \<open>Routing past the shaded detour\<close>

lemma shadedDetour_start:
  "node_edges (g_nodes shadedDetour ! 5) = [4, 5, 10]"
  "node_p (g_nodes shadedDetour ! 4) = V3 (- 8) 0 0"
  "node_p (g_nodes shadedDetour ! 5) = V3 0 0 0"
  "node_p (g_nodes shadedDetour ! 6) = V3 8 0 0"
  "node_p (g_nodes shadedDetour ! 11) = V3 0 0 2"
  "g_edges shadedDetour ! 4 = \<lparr>edge_id = 4, edge_a = 4, edge_b = 5,
      edge_poly = [V3 (- 8) 0 0, V3 0 0 0], edge_length = 8, edge_shadeScore = 0\<rparr>"
  "g_edges shadedDetour ! 5 = \<lparr>edge_id = 5, edge_a = 5, edge_b = 6,
      edge_poly = [V3 0 0 0, V3 8 0 0], edge_length = 8, edge_shadeScore = 0\<rparr>"
  "g_edges shadedDetour ! 10 = \<lparr>edge_id = 10, edge_a = 5, edge_b = 11,
      edge_poly = [V3 0 0 0, V3 0 0 2], edge_length = 2, edge_shadeScore = 1\<rparr>"
  "length (g_edges shadedDetour) = 40"
  by (simp_all add: shadedDetour_def afterBackLane_def)

lemma nodes_shadedDetour: "g_nodes shadedDetour = fst afterBackLane"
  by (simp add: shadedDetour_def)

lemma nearest_shadedDetour_start: "nearestNodeToPoint shadedDetour (V3 0 0 0) = Some 5"
  unfolding nearestNodeToPoint_def nodes_shadedDetour
  by (simp add: afterBackLane_def distV_def Let_def power2_eq_square)

lemma nearest_shadedDetour_goal: "nearestNodeToPoint shadedDetour (V3 8 0 0) = Some 6"
  unfolding nearestNodeToPoint_def nodes_shadedDetour
  by (simp add: afterBackLane_def distV_def Let_def power2_eq_square)

lemma heur_shadedDetour:
  "heur shadedDetour 6 6 = 0" "heur shadedDetour 4 6 = 16" "38 / 5 \<le> heur shadedDetour 11 6"
proof -
  show "heur shadedDetour 6 6 = 0" by (simp add: heur_def distV_self)
  show "heur shadedDetour 4 6 = 16" by (simp add: heur_def shadedDetour_start distV_on_axis)
  have "heur shadedDetour 11 6 = sqrt 68"
    by (simp add: heur_def shadedDetour_start distV_def)
  moreover have "38 / 5 \<le> sqrt 68"
    by (rule real_le_rsqrt) (simp add: power2_eq_square)
  ultimately show "38 / 5 \<le> heur shadedDetour 11 6" by simp
qed

lemma aStar_shadedDetour: "aStar shadedDetour 5 6 (cost 1) = Some (Some [5, 6])"
  using heur_shadedDetour(3)
  apply (simp add: aStar_def)
  apply (subst aStarLoop.simps)
  apply (simp add: shadedDetour_start heur_shadedDetour(1,2) relaxEdge_def otherEnd_def
      cost_def Let_def)
  apply (subst aStarLoop.simps)
  apply (simp add: shadedDetour_start heur_shadedDetour(1,2) relaxEdge_def otherEnd_def
      cost_def Let_def)
  apply (subst reconstruct.simps, simp)
  apply (subst reconstruct.simps, simp)
  done

lemma snap_shadedDetour_start:
  "\<exists>s. snapToGraph shadedDetour (V3 0 0 0) = Some s \<and> snap_q s = V3 0 0 0"
proof (rule snapToGraph_on_edge)
  have "5 < length (g_edges shadedDetour)" by (simp add: shadedDetour_start)
  then show "g_edges shadedDetour ! 5 \<in> set (g_edges shadedDetour)" by (rule nth_mem)
  show "snd (snd (nearestPointOnEdge (g_edges shadedDetour ! 5) (V3 0 0 0))) = 0"
    by (simp add: shadedDetour_start geom_defs Let_def)
qed

lemma snap_shadedDetour_goal:
  "\<exists>s. snapToGraph shadedDetour (V3 8 0 0) = Some s \<and> snap_q s = V3 8 0 0"
proof (rule snapToGraph_on_edge)
  have "5 < length (g_edges shadedDetour)" by (simp add: shadedDetour_start)
  then show "g_edges shadedDetour ! 5 \<in> set (g_edges shadedDetour)" by (rule nth_mem)
  show "snd (snd (nearestPointOnEdge (g_edges shadedDetour ! 5) (V3 8 0 0))) = 0"
    by (simp add: shadedDetour_start geom_defs Let_def)
qed

lemma findRoute_shadedDetour:
  "findRouteOnRoads shadedDetour (V3 0 0 0) (V3 8 0 0) 1
     = Returns (Some [V3 0 0 0, V3 8 0 0])"
proof -
  from snap_shadedDetour_start obtain s where
    s: "snapToGraph shadedDetour (V3 0 0 0) = Some s" "snap_q s = V3 0 0 0" by blast
  from snap_shadedDetour_goal obtain t where
    t: "snapToGraph shadedDetour (V3 8 0 0) = Some t" "snap_q t = V3 8 0 0" by blast
  have "findRouteOnRoads shadedDetour (V3 0 0 0) (V3 8 0 0) 1
      = Returns (Some (nodesPathToPolyline shadedDetour [5, 6]))"
    by (simp only: findRouteOnRoads_def s t nearest_shadedDetour_start
        nearest_shadedDetour_goal aStar_shadedDetour option.case outcome.case)
  then show ?thesis by (simp add: nodesPathToPolyline_def shadedDetour_start)
qed

lemma walk_shadedDetour:
  "isWalk shadedDetour 5 [5] 6"
  "walkCost (cost 1) shadedDetour [5] = 8"
  "isWalk shadedDetour 5 [10, 32, 33, 34, 35, 20] 6"
  "walkCost (cost 1) shadedDetour [10, 32, 33, 34, 35, 20] = 12 / 5"
  by (simp_all add: shadedDetour_def afterBackLane_def otherEnd_def walkCost_def cost_def)

text \<open>
  C1 fails on the code. The four roads are built by \<^verbatim>\<open>buildRoadGraphFromCurves\<close>; no two
  sampled points merge, so every edge is as long as its end nodes are apart. With
  \<open>shadeBias = 1\<close> the route from \<open>(0, 0, 0)\<close> to \<open>(8, 0, 0)\<close> is the unshaded edge 5 of the
  main road, of cost 8, although the walk over the shaded edges 10, 32, 33, 34, 35 and 20
  joins the same two nodes at cost 2.4. The shaded edge at the start costs a fifth of its
  length, but the heuristic counts the full distance to the goal, so the first node of
  the detour waits in the open set with \<open>f > 8\<close> while the goal is taken out with \<open>f = 8\<close>.
\<close>

theorem cheapest_route_fails:
  "findRouteOnRoads (buildRoadGraphFromCurves [mainRoad, westLane, eastLane, backLane] canopy)
       (V3 0 0 0) (V3 8 0 0) 1
     = Returns (Some [V3 0 0 0, V3 8 0 0])
   \<and> buildRoadGraphFromCurves [mainRoad, westLane, eastLane, backLane] canopy = shadedDetour
   \<and> nearestNodeToPoint shadedDetour (V3 0 0 0) = Some 5
   \<and> nearestNodeToPoint shadedDetour (V3 8 0 0) = Some 6
   \<and> aStar shadedDetour 5 6 (cost 1) = Some (Some [5, 6])
   \<and> isWalk shadedDetour 5 [5] 6 \<and> walkCost (cost 1) shadedDetour [5] = 8
   \<and> isWalk shadedDetour 5 [10, 32, 33, 34, 35, 20] 6
   \<and> walkCost (cost 1) shadedDetour [10, 32, 33, 34, 35, 20] = 12 / 5"
proof -
  have r: "findRouteOnRoads
       (buildRoadGraphFromCurves [mainRoad, westLane, eastLane, backLane] canopy)
       (V3 0 0 0) (V3 8 0 0) 1 = Returns (Some [V3 0 0 0, V3 8 0 0])"
    unfolding build_shadedDetour by (rule findRoute_shadedDetour)
  from r build_shadedDetour nearest_shadedDetour_start nearest_shadedDetour_goal
    aStar_shadedDetour walk_shadedDetour
  show ?thesis by blast
qed

end
